theory Spec2Isabelle
  imports Main "HOL-Library.Word" "HOL-Library.Char_ord" "HOL-Library.List_Lexorder"
    "HOL-Library.Product_Lexorder"
begin

unbundle bit_operations_syntax

section \<open>Exceptions, external calls and the program state\<close>

text \<open>
  The program mini_mc.py talks to two outside parties: the local operating system
  (the modules os, shutil, hashlib and the built-in open) and a remote host (a paramiko
  SSH client and its SFTP channel). Neither is code of the program, so both are
  parameters of the model: a \<open>world\<close> answers every external call, and its answer may
  depend on every call made before (the history), so the outside may change between
  two calls in any deterministic way.

  Python exceptions are values. Three classes are told apart, because the program has
  three kinds of handler: \<open>except OSError\<close> / \<open>except IOError\<close> (one class in Python 3),
  \<open>except Exception\<close>, and the bare \<open>except:\<close>. The string is what \<open>str(e)\<close> gives.
\<close>

datatype exn =
    OSError string        \<comment> \<open>OSError and its subclasses; IOError is the same class\<close>
  | Exception string      \<comment> \<open>any other subclass of Exception (ValueError, SSHException, RecursionError)\<close>
  | BaseException string  \<comment> \<open>outside Exception (KeyboardInterrupt, SystemExit)\<close>

fun str_exn :: "exn \<Rightarrow> string" where
  "str_exn (OSError m) = m"
| "str_exn (Exception m) = m"
| "str_exn (BaseException m) = m"

fun is_OSError :: "exn \<Rightarrow> bool" where
  "is_OSError (OSError m) = True"
| "is_OSError (Exception m) = False"
| "is_OSError (BaseException m) = False"

fun is_Exception :: "exn \<Rightarrow> bool" where
  "is_Exception (OSError m) = True"
| "is_Exception (Exception m) = True"
| "is_Exception (BaseException m) = False"

fun is_anything :: "exn \<Rightarrow> bool" where
  "is_anything e = True"

type_synonym bytes = "8 word list"

text \<open>Every call that leaves the program, with its arguments.\<close>

datatype call =
    OsPathIsfile string
  | OsPathIsdir string
  | OsPathExists string
  | OsPathGetsize string
  | OsScandir string
  | OpenRead string
  | OsMkdir string
  | OsRemove string
  | ShutilRmtree string
  | ExecCommand string
  | SftpStat string
  | SftpListdirAttr string
  | SftpMkdir string
  | SftpPut string string
  | SftpGet string string
  | SftpRemove string
  | SftpRmdir string

text \<open>
  The answers of the outside. \<open>exec_command\<close> stands for \<open>ssh.exec_command\<close> together
  with reading the two streams and the exit status: the decoded standard output, the
  decoded standard error and the exit status, or the exception one of these steps
  raised. \<open>open_read\<close> stands for opening a file in binary mode and reading it to its
  end: the content, or the OSError raised on the way. \<open>hashlib_new\<close> is
  \<open>hashlib.new\<close>: None for a name hashlib rejects with ValueError; for a name it
  accepts, the function from the bytes fed to the hash object to what \<open>hexdigest()\<close>
  then does: it returns the hex digest, or it raises (for the names shake_128 and
  shake_256 a TypeError, as their \<open>hexdigest\<close> wants a length). Which names hashlib
  accepts, and which algorithm it takes a name for, is the world's: hashlib takes the
  name MD5 for md5 as well.
\<close>

record world =
  os_path_isfile :: "call list \<Rightarrow> string \<Rightarrow> bool"
  os_path_isdir :: "call list \<Rightarrow> string \<Rightarrow> bool"
  os_path_exists :: "call list \<Rightarrow> string \<Rightarrow> bool"
  os_path_getsize :: "call list \<Rightarrow> string \<Rightarrow> exn + int"
  os_scandir :: "call list \<Rightarrow> string \<Rightarrow> exn + (string \<times> bool) list"
  open_read :: "call list \<Rightarrow> string \<Rightarrow> exn + bytes"
  os_mkdir :: "call list \<Rightarrow> string \<Rightarrow> exn + unit"
  os_remove :: "call list \<Rightarrow> string \<Rightarrow> exn + unit"
  shutil_rmtree :: "call list \<Rightarrow> string \<Rightarrow> exn + unit"
  hashlib_new :: "string \<Rightarrow> (bytes \<Rightarrow> exn + string) option"
  exec_command :: "call list \<Rightarrow> string \<Rightarrow> exn + (string \<times> string \<times> int)"
  sftp_stat :: "call list \<Rightarrow> string \<Rightarrow> exn + int"
  sftp_listdir_attr :: "call list \<Rightarrow> string \<Rightarrow> exn + (string \<times> int) list"
  sftp_mkdir :: "call list \<Rightarrow> string \<Rightarrow> exn + unit"
  sftp_put :: "call list \<Rightarrow> string \<Rightarrow> string \<Rightarrow> exn + unit"
  sftp_get :: "call list \<Rightarrow> string \<Rightarrow> string \<Rightarrow> exn + unit"
  sftp_remove :: "call list \<Rightarrow> string \<Rightarrow> exn + unit"
  sftp_rmdir :: "call list \<Rightarrow> string \<Rightarrow> exn + unit"

text \<open>
  The state of a run: the module-level list \<open>cmd_log\<close> and the history of external
  calls, oldest first.
\<close>

record pstate =
  cmd_log :: "string list"
  hist :: "call list"

text \<open>
  A statement of the program takes the state and gives a result and the new state; the
  result is \<open>Inl e\<close> when the statement raised \<open>e\<close>. The state at a raise is kept:
  what was done before the exception stays done.
\<close>

type_synonym 'a py = "pstate \<Rightarrow> (exn + 'a) \<times> pstate"

definition ret :: "'a \<Rightarrow> 'a py" where
  "ret x s = (Inr x, s)"

definition raise :: "exn \<Rightarrow> 'a py" where
  "raise e s = (Inl e, s)"

definition bind :: "'a py \<Rightarrow> ('a \<Rightarrow> 'b py) \<Rightarrow> 'b py" where
  "bind m f s = (case m s of (Inl e, s') \<Rightarrow> (Inl e, s') | (Inr x, s') \<Rightarrow> f x s')"

text \<open>\<open>try: m except <class> as e: h e\<close>, the class given as a predicate.\<close>

definition try_except :: "'a py \<Rightarrow> (exn \<Rightarrow> bool) \<Rightarrow> (exn \<Rightarrow> 'a py) \<Rightarrow> 'a py" where
  "try_except m cls h s =
     (case m s of
        (Inl e, s') \<Rightarrow> if cls e then h e s' else (Inl e, s')
      | (Inr x, s') \<Rightarrow> (Inr x, s'))"

text \<open>\<open>for x in xs: body x\<close>: the bodies in order, left at the first that raises.\<close>

primrec for_each :: "'a list \<Rightarrow> ('a \<Rightarrow> unit py) \<Rightarrow> unit py" where
  "for_each [] body = ret ()"
| "for_each (x # xs) body = bind (body x) (\<lambda>_. for_each xs body)"

text \<open>An external call: it is recorded in the history, and the world's answer returned.\<close>

definition ext :: "call \<Rightarrow> (call list \<Rightarrow> exn + 'a) \<Rightarrow> 'a py" where
  "ext c answer s = (answer (hist s), s\<lparr>hist := hist s @ [c]\<rparr>)"

definition ext_pure :: "call \<Rightarrow> (call list \<Rightarrow> 'a) \<Rightarrow> 'a py" where
  "ext_pure c answer s = (Inr (answer (hist s)), s\<lparr>hist := hist s @ [c]\<rparr>)"

section \<open>Configuration\<close>

definition PARTIAL_MB :: nat where
  "PARTIAL_MB = 5"

definition LARGE_FILE_MB :: int where
  "LARGE_FILE_MB = 10"

definition CMD_LOG_MAX :: nat where
  "CMD_LOG_MAX = 5"

section \<open>The diagnostic log\<close>

text \<open>
  \<^verbatim>\<open>
  def log_command(cmd: str):
      global cmd_log
      cmd_log.append(cmd)
      if len(cmd_log) > CMD_LOG_MAX:
          cmd_log.pop(0)
  \<close>
  \<open>pop(0)\<close> is only reached on a list of more than five entries, where it removes
  the first.
\<close>

definition log_append :: "string list \<Rightarrow> string \<Rightarrow> string list" where
  "log_append l cmd =
     (let l1 = l @ [cmd] in if length l1 > CMD_LOG_MAX then tl l1 else l1)"

definition log_command :: "string \<Rightarrow> unit py" where
  "log_command cmd s = (Inr (), s\<lparr>cmd_log := log_append (cmd_log s) cmd\<rparr>)"

text \<open>A sequence of appends, one call of \<open>log_command\<close> after the other.\<close>

definition log_commands :: "string list \<Rightarrow> unit py" where
  "log_commands cmds = for_each cmds log_command"

section \<open>Python strings\<close>

text \<open>
  Strings are lists of characters, a character being a code point below 256; the
  operations below are Python's on such text (text with code points from 256 on is
  outside the model). \<open>py_isspace\<close> is the whitespace of \<open>str.strip()\<close> and
  \<open>str.split()\<close>: tab, line feed, vertical tab, form feed, carriage return, the four
  separators 0x1C to 0x1F, the space, the next-line character 0x85 and the no-break
  space 0xA0.
\<close>

definition py_isspace :: "char \<Rightarrow> bool" where
  "py_isspace c = (c \<in> {CHR 0x09, CHR 0x0A, CHR 0x0B, CHR 0x0C, CHR 0x0D,
                          CHR 0x1C, CHR 0x1D, CHR 0x1E, CHR 0x1F, CHR 0x20,
                          CHR 0x85, CHR 0xA0})"

definition py_strip :: "string \<Rightarrow> string" where
  "py_strip s = rev (dropWhile py_isspace (rev (dropWhile py_isspace s)))"

text \<open>\<open>s.split()\<close>: the maximal runs of non-whitespace, in order.\<close>

function py_split :: "string \<Rightarrow> string list" where
  "py_split s =
     (let t = dropWhile py_isspace s in
      if t = [] then []
      else takeWhile (\<lambda>c. \<not> py_isspace c) t # py_split (dropWhile (\<lambda>c. \<not> py_isspace c) t))"
  by pat_completeness auto
termination
proof (relation "measure length")
  show "wf (measure length)" by simp
next
  fix s t :: string
  assume t: "t = dropWhile py_isspace s" and ne: "t \<noteq> []"
  have "\<not> py_isspace (hd t)"
    using t ne hd_dropWhile by metis
  then have "dropWhile (\<lambda>c. \<not> py_isspace c) t = dropWhile (\<lambda>c. \<not> py_isspace c) (tl t)"
    using ne by (cases t) auto
  then have "length (dropWhile (\<lambda>c. \<not> py_isspace c) t) \<le> length (tl t)"
    by (metis length_dropWhile_le)
  also have "\<dots> < length t"
    using ne by (cases t) auto
  also have "\<dots> \<le> length s"
    using t by (simp add: length_dropWhile_le)
  finally show "(dropWhile (\<lambda>c. \<not> py_isspace c) t, s) \<in> measure length"
    by simp
qed

declare py_split.simps [simp del]

text \<open>\<open>s.rstrip('/')\<close>.\<close>

definition rstrip_slash :: "string \<Rightarrow> string" where
  "rstrip_slash s = rev (dropWhile (\<lambda>c. c = CHR ''/'') (rev s))"

text \<open>\<open>str(n)\<close> for a natural number, as an f-string prints it.\<close>

definition digit_char :: "nat \<Rightarrow> char" where
  "digit_char d = ''0123456789'' ! d"

fun str_nat :: "nat \<Rightarrow> string" where
  "str_nat n = (if n < 10 then [digit_char n] else str_nat (n div 10) @ [digit_char (n mod 10)])"

declare str_nat.simps [simp del]

text \<open>\<open>s.isdigit()\<close> and \<open>int(s)\<close> on ASCII decimal digits.\<close>

definition is_digit :: "char \<Rightarrow> bool" where
  "is_digit c = (CHR ''0'' \<le> c \<and> c \<le> CHR ''9'')"

definition py_isdigit :: "string \<Rightarrow> bool" where
  "py_isdigit s = (s \<noteq> [] \<and> list_all is_digit s)"

definition py_int :: "string \<Rightarrow> int" where
  "py_int s = foldl (\<lambda>a c. 10 * a + (of_char c - 48)) 0 s"

text \<open>
  \<open>s.lower()\<close>: the letters A to Z, and the capital letters 0xC0 to 0xDE of the
  Latin-1 range (all but the multiplication sign 0xD7), go to the letter 32 code points on.
\<close>

definition upper_letters :: string where
  "upper_letters = ''ABCDEFGHIJKLMNOPQRSTUVWXYZ'' @
     [
        CHR 0xC0, CHR 0xC1, CHR 0xC2, CHR 0xC3, CHR 0xC4, CHR 0xC5, CHR 0xC6, CHR 0xC7,
        CHR 0xC8, CHR 0xC9, CHR 0xCA, CHR 0xCB, CHR 0xCC, CHR 0xCD, CHR 0xCE, CHR 0xCF,
        CHR 0xD0, CHR 0xD1, CHR 0xD2, CHR 0xD3, CHR 0xD4, CHR 0xD5, CHR 0xD6, CHR 0xD8,
        CHR 0xD9, CHR 0xDA, CHR 0xDB, CHR 0xDC, CHR 0xDD, CHR 0xDE]"

definition lower_letters :: string where
  "lower_letters = ''abcdefghijklmnopqrstuvwxyz'' @
     [
        CHR 0xE0, CHR 0xE1, CHR 0xE2, CHR 0xE3, CHR 0xE4, CHR 0xE5, CHR 0xE6, CHR 0xE7,
        CHR 0xE8, CHR 0xE9, CHR 0xEA, CHR 0xEB, CHR 0xEC, CHR 0xED, CHR 0xEE, CHR 0xEF,
        CHR 0xF0, CHR 0xF1, CHR 0xF2, CHR 0xF3, CHR 0xF4, CHR 0xF5, CHR 0xF6, CHR 0xF8,
        CHR 0xF9, CHR 0xFA, CHR 0xFB, CHR 0xFC, CHR 0xFD, CHR 0xFE]"

definition lower_char :: "char \<Rightarrow> char" where
  "lower_char c =
     (case map_of (zip upper_letters lower_letters) c of
        None \<Rightarrow> c
      | Some l \<Rightarrow> l)"

definition py_lower :: "string \<Rightarrow> string" where
  "py_lower s = map lower_char s"

text \<open>
  \<open>os.path.join(a, b)\<close> for two components on a POSIX host (Python's posixpath):
  \<open>b\<close> alone when it starts with a slash, \<open>a + b\<close> when \<open>a\<close> is empty or ends
  with a slash, \<open>a + '/' + b\<close> otherwise.
\<close>

definition os_path_join :: "string \<Rightarrow> string \<Rightarrow> string" where
  "os_path_join a b =
     (if b \<noteq> [] \<and> hd b = CHR ''/'' then b
      else if a = [] \<or> last a = CHR ''/'' then a @ b
      else a @ ''/'' @ b)"

text \<open>
  The remote child path, written out at every place of the source that needs it:
  \<^verbatim>\<open>
  if remote_path == "/":
      dst_child = "/" + entry.name
  else:
      dst_child = remote_path.rstrip('/') + "/" + entry.name
  \<close>
\<close>

definition remote_join :: "string \<Rightarrow> string \<Rightarrow> string" where
  "remote_join remote_path name =
     (if remote_path = ''/'' then ''/'' @ name else rstrip_slash remote_path @ ''/'' @ name)"

text \<open>The truth value of an optional string in a condition: None and the empty string are false.\<close>

fun truthy_str :: "string option \<Rightarrow> bool" where
  "truthy_str None = False"
| "truthy_str (Some s) = (s \<noteq> [])"

text \<open>\<open>bool(st_mode & 0o040000)\<close>: the directory bit of a mode.\<close>

definition mode_is_dir :: "int \<Rightarrow> bool" where
  "mode_is_dir st_mode = (st_mode AND 16384 \<noteq> 0)"

section \<open>Checksums\<close>

text \<open>
  The read loop of \<open>compute_local_checksum\<close> over the content of the opened file:
  \<^verbatim>\<open>
  bytes_read = 0
  while True:
      chunk = f.read(chunk_size)
      if not chunk:
          break
      h.update(chunk)
      bytes_read += len(chunk)
      if max_bytes is not None and bytes_read >= max_bytes:
          break
  \<close>
  \<open>rest\<close> is what the file still holds and \<open>fed\<close> what the digest object has been
  given; the result is what it has been given at the end.
\<close>

function read_loop :: "bytes \<Rightarrow> nat \<Rightarrow> nat option \<Rightarrow> nat \<Rightarrow> bytes \<Rightarrow> bytes" where
  "read_loop rest chunk_size max_bytes bytes_read fed =
     (let chunk = take chunk_size rest in
      if chunk = [] then fed
      else
        let fed' = fed @ chunk; bytes_read' = bytes_read + length chunk in
        if (case max_bytes of None \<Rightarrow> False | Some m \<Rightarrow> bytes_read' \<ge> m) then fed'
        else read_loop (drop chunk_size rest) chunk_size max_bytes bytes_read' fed')"
  by pat_completeness auto
termination
  by (relation "measure (\<lambda>(rest, chunk_size, max_bytes, bytes_read, fed). length rest)") auto

declare read_loop.simps [simp del]

text \<open>
  \<^verbatim>\<open>
  def compute_local_checksum(path, algo='md5', full=True, partial_mb=PARTIAL_MB, chunk_size=65536):
      if not os.path.isfile(path):
          return None
      h = hashlib.new(algo)
      max_bytes = None if full else (partial_mb * 1024 * 1024)
      try:
          with open(path, 'rb') as f:
              ... the read loop ...
          return h.hexdigest()
      except OSError:
          return None
  \<close>
  \<open>hashlib.new\<close> is called outside the \<open>try\<close>, so its ValueError leaves the
  function; \<open>hexdigest()\<close> is called inside it, so what it raises leaves the function
  unless it is an OSError.
\<close>

definition compute_local_checksum ::
  "world \<Rightarrow> string \<Rightarrow> string \<Rightarrow> bool \<Rightarrow> nat \<Rightarrow> nat \<Rightarrow> string option py" where
  "compute_local_checksum w path algo full partial_mb chunk_size =
     bind (ext_pure (OsPathIsfile path) (\<lambda>h. os_path_isfile w h path)) (\<lambda>isfile.
       if \<not> isfile then ret None
       else
         (case hashlib_new w algo of
            None \<Rightarrow> raise (Exception (''unsupported hash type '' @ algo))
          | Some digest \<Rightarrow>
              let max_bytes = (if full then None else Some (partial_mb * 1024 * 1024)) in
              try_except
                (bind (ext (OpenRead path) (\<lambda>h. open_read w h path)) (\<lambda>content.
                   case digest (read_loop content chunk_size max_bytes 0 []) of
                     Inl e \<Rightarrow> raise e
                   | Inr hex \<Rightarrow> ret (Some hex)))
                is_OSError
                (\<lambda>e. ret None)))"

text \<open>
  \<^verbatim>\<open>
  def remote_file_exists(ssh, remote_path):
      check_cmd = f"[ -f '{remote_path}' ]"
      log_command(check_cmd)
      stdin, stdout, stderr = ssh.exec_command(check_cmd)
      exit_status = stdout.channel.recv_exit_status()
      return (exit_status == 0)
  \<close>
\<close>

definition exists_cmd :: "string \<Rightarrow> string" where
  "exists_cmd remote_path = ''[ -f '' @ [CHR 0x27] @ remote_path @ [CHR 0x27] @ '' ]''"

definition remote_file_exists :: "world \<Rightarrow> string \<Rightarrow> bool py" where
  "remote_file_exists w remote_path =
     (let check_cmd = exists_cmd remote_path in
      bind (log_command check_cmd) (\<lambda>_.
      bind (ext (ExecCommand check_cmd) (\<lambda>h. exec_command w h check_cmd))
        (\<lambda>(out_data, err_data, exit_status). ret (exit_status = 0))))"

text \<open>
  \<^verbatim>\<open>
  def compute_remote_checksum(ssh, remote_path, algo='md5', full=True, partial_mb=PARTIAL_MB):
      if not remote_file_exists(ssh, remote_path):
          return None
      command_map = {'md5': 'md5sum', 'sha256': 'sha256sum', 'sha1': 'sha1sum'}
      sum_cmd = command_map.get(algo, 'md5sum')
      if full:
          cmd = f"{sum_cmd} '{remote_path}'"
      else:
          cmd = f"dd if='{remote_path}' bs=1M count={partial_mb} 2>/dev/null | {sum_cmd}"
      log_command(cmd)
      try:
          stdin, stdout, stderr = ssh.exec_command(cmd)
          out_data = stdout.read().decode('utf-8', errors='ignore').strip()
          err_data = stderr.read().decode('utf-8', errors='ignore').strip()
          exit_status = stdout.channel.recv_exit_status()
          if exit_status != 0:
              return None
          parts = out_data.split()
          if len(parts) > 0:
              return parts[0]
          else:
              return None
      except Exception:
          return None
  \<close>
\<close>

definition command_map :: "(string \<times> string) list" where
  "command_map = [(''md5'', ''md5sum''), (''sha256'', ''sha256sum''), (''sha1'', ''sha1sum'')]"

definition sum_cmd_of :: "string \<Rightarrow> string" where
  "sum_cmd_of algo = (case map_of command_map algo of None \<Rightarrow> ''md5sum'' | Some c \<Rightarrow> c)"

definition checksum_cmd :: "string \<Rightarrow> string \<Rightarrow> bool \<Rightarrow> nat \<Rightarrow> string" where
  "checksum_cmd remote_path algo full partial_mb =
     (if full then sum_cmd_of algo @ '' '' @ [CHR 0x27] @ remote_path @ [CHR 0x27]
      else ''dd if='' @ [CHR 0x27] @ remote_path @ [CHR 0x27] @ '' bs=1M count='' @ str_nat partial_mb
             @ '' 2>/dev/null | '' @ sum_cmd_of algo)"

definition compute_remote_checksum ::
  "world \<Rightarrow> string \<Rightarrow> string \<Rightarrow> bool \<Rightarrow> nat \<Rightarrow> string option py" where
  "compute_remote_checksum w remote_path algo full partial_mb =
     bind (remote_file_exists w remote_path) (\<lambda>ex.
       if \<not> ex then ret None
       else
         let cmd = checksum_cmd remote_path algo full partial_mb in
         bind (log_command cmd) (\<lambda>_.
           try_except
             (bind (ext (ExecCommand cmd) (\<lambda>h. exec_command w h cmd))
                (\<lambda>(out, err, exit_status).
                   let out_data = py_strip out; err_data = py_strip err in
                   if exit_status \<noteq> 0 then ret None
                   else
                     let parts = py_split out_data in
                     if length parts > 0 then ret (Some (hd parts)) else ret None))
             is_Exception
             (\<lambda>e. ret None)))"

text \<open>
  \<^verbatim>\<open>
  def remote_file_size(ssh, remote_path):
      cmd = f"stat -c %s '{remote_path}'"
      log_command(cmd)
      try:
          stdin, stdout, stderr = ssh.exec_command(cmd)
          out_data = stdout.read().decode('utf-8', errors='ignore').strip()
          exit_status = stdout.channel.recv_exit_status()
          if exit_status == 0 and out_data.isdigit():
              return int(out_data)
          else:
              return None
      except Exception:
          return None
  \<close>
\<close>

definition size_cmd :: "string \<Rightarrow> string" where
  "size_cmd remote_path = ''stat -c %s '' @ [CHR 0x27] @ remote_path @ [CHR 0x27]"

definition remote_file_size :: "world \<Rightarrow> string \<Rightarrow> int option py" where
  "remote_file_size w remote_path =
     (let cmd = size_cmd remote_path in
      bind (log_command cmd) (\<lambda>_.
        try_except
          (bind (ext (ExecCommand cmd) (\<lambda>h. exec_command w h cmd))
             (\<lambda>(out, err, exit_status).
                let out_data = py_strip out in
                if exit_status = 0 \<and> py_isdigit out_data then ret (Some (py_int out_data))
                else ret None))
          is_Exception
          (\<lambda>e. ret None)))"

section \<open>Directory listings\<close>

text \<open>
  \<^verbatim>\<open>
  def list_local_dir(path):
      try:
          items = []
          for entry in os.scandir(path):
              items.append((entry.name, entry.is_dir()))
          items.sort(key=lambda x: (not x[1], x[0].lower()))
          if path not in ('/', ''):
              items.insert(0, ('..', True))
          return items
      except OSError:
          return []
  \<close>
  \<open>os_scandir\<close> answers with the entries as pairs of name and \<open>is_dir()\<close>.
  Python's sort is stable, as \<open>sort_key\<close> is.
\<close>

definition sort_entries :: "(string \<times> bool) list \<Rightarrow> (string \<times> bool) list" where
  "sort_entries items = sort_key (\<lambda>x. (\<not> snd x, py_lower (fst x))) items"

definition with_parent :: "string \<Rightarrow> (string \<times> bool) list \<Rightarrow> (string \<times> bool) list" where
  "with_parent path items =
     (if path \<noteq> ''/'' \<and> path \<noteq> [] then (''..'', True) # items else items)"

definition list_local_dir :: "world \<Rightarrow> string \<Rightarrow> (string \<times> bool) list py" where
  "list_local_dir w path =
     try_except
       (bind (ext (OsScandir path) (\<lambda>h. os_scandir w h path)) (\<lambda>entries.
          ret (with_parent path (sort_entries entries))))
       is_OSError
       (\<lambda>e. ret [])"

text \<open>
  \<^verbatim>\<open>
  def list_remote_dir(sftp, path):
      try:
          items = []
          for x in sftp.listdir_attr(path):
              fname = x.filename
              is_dir = bool(x.st_mode & 0o040000)
              items.append((fname, is_dir))
          items.sort(key=lambda x: (not x[1], x[0].lower()))
          if path not in ('/', ''):
              items.insert(0, ('..', True))
          return items
      except IOError:
          return []
  \<close>
  \<open>sftp_listdir_attr\<close> answers with the attributes as pairs of \<open>filename\<close> and
  \<open>st_mode\<close>.
\<close>

definition list_remote_dir :: "world \<Rightarrow> string \<Rightarrow> (string \<times> bool) list py" where
  "list_remote_dir w path =
     try_except
       (bind (ext (SftpListdirAttr path) (\<lambda>h. sftp_listdir_attr w h path)) (\<lambda>attrs.
          ret (with_parent path
                 (sort_entries (map (\<lambda>x. (fst x, mode_is_dir (snd x))) attrs)))))
       is_OSError
       (\<lambda>e. ret [])"

section \<open>Smart copy, local to remote\<close>

text \<open>
  The file branch of \<open>smart_copy_local_to_remote\<close> (the \<open>else\<close> of its first test):
  \<^verbatim>\<open>
  size_local = os.path.getsize(local_path)
  if remote_file_exists(ssh, remote_path):
      if size_local > LARGE_FILE_MB * 1024 * 1024:
          csum_loc_part = compute_local_checksum(local_path, full=False)
          csum_rem_part = compute_remote_checksum(ssh, remote_path, full=False)
          if csum_loc_part and csum_rem_part and csum_loc_part == csum_rem_part:
              csum_loc_full = compute_local_checksum(local_path, full=True)
              csum_rem_full = compute_remote_checksum(ssh, remote_path, full=True)
              if csum_loc_full == csum_rem_full:
                  log_command(f"SKIP identical: {local_path} -> {remote_path}")
                  return
  else:
      pass
  cmd = f"PUT {local_path} -> {remote_path}"
  log_command(cmd)
  try:
      sftp.put(local_path, remote_path)
  except Exception as e:
      log_command(f"Fehler: {e}")
  \<close>
  The three nested tests give one truth value, \<open>identical\<close>: true exactly where the
  source reaches its \<open>return\<close>. The last five lines are \<open>put_file\<close>.
\<close>

definition put_file :: "world \<Rightarrow> string \<Rightarrow> string \<Rightarrow> unit py" where
  "put_file w local_path remote_path =
     bind (log_command (''PUT '' @ local_path @ '' -> '' @ remote_path)) (\<lambda>_.
       try_except
         (ext (SftpPut local_path remote_path) (\<lambda>h. sftp_put w h local_path remote_path))
         is_Exception
         (\<lambda>e. log_command (''Fehler: '' @ str_exn e)))"

definition smart_copy_file_local_to_remote :: "world \<Rightarrow> string \<Rightarrow> string \<Rightarrow> unit py" where
  "smart_copy_file_local_to_remote w local_path remote_path =
     bind (ext (OsPathGetsize local_path) (\<lambda>h. os_path_getsize w h local_path)) (\<lambda>size_local.
     bind (remote_file_exists w remote_path) (\<lambda>ex.
     bind
       (if ex \<and> size_local > LARGE_FILE_MB * 1024 * 1024 then
          bind (compute_local_checksum w local_path ''md5'' False PARTIAL_MB 65536) (\<lambda>csum_loc_part.
          bind (compute_remote_checksum w remote_path ''md5'' False PARTIAL_MB) (\<lambda>csum_rem_part.
            if truthy_str csum_loc_part \<and> truthy_str csum_rem_part \<and> csum_loc_part = csum_rem_part then
              bind (compute_local_checksum w local_path ''md5'' True PARTIAL_MB 65536) (\<lambda>csum_loc_full.
              bind (compute_remote_checksum w remote_path ''md5'' True PARTIAL_MB) (\<lambda>csum_rem_full.
                ret (csum_loc_full = csum_rem_full)))
            else ret False))
        else ret False)
       (\<lambda>identical.
          if identical then
            log_command (''SKIP identical: '' @ local_path @ '' -> '' @ remote_path)
          else put_file w local_path remote_path)))"

text \<open>
  \<^verbatim>\<open>
  def smart_copy_local_to_remote(sftp, ssh, local_path, remote_path):
      if os.path.isdir(local_path):
          try:
              sftp.mkdir(remote_path)
          except IOError:
              pass
          for entry in os.scandir(local_path):
              src_child = os.path.join(local_path, entry.name)
              if remote_path == "/":
                  dst_child = "/" + entry.name
              else:
                  dst_child = remote_path.rstrip('/') + "/" + entry.name
              smart_copy_local_to_remote(sftp, ssh, src_child, dst_child)
      else:
          ... the file branch ...
  \<close>
  The first argument is the number of nested calls the interpreter still allows: Python
  bounds the depth of recursion, and a call beyond the bound raises RecursionError.
\<close>

fun smart_copy_local_to_remote :: "nat \<Rightarrow> world \<Rightarrow> string \<Rightarrow> string \<Rightarrow> unit py" where
  "smart_copy_local_to_remote 0 w local_path remote_path =
     raise (Exception ''maximum recursion depth exceeded'')"
| "smart_copy_local_to_remote (Suc d) w local_path remote_path =
     bind (ext_pure (OsPathIsdir local_path) (\<lambda>h. os_path_isdir w h local_path)) (\<lambda>isdir.
       if isdir then
         bind (try_except
                 (ext (SftpMkdir remote_path) (\<lambda>h. sftp_mkdir w h remote_path))
                 is_OSError
                 (\<lambda>e. ret ())) (\<lambda>_.
         bind (ext (OsScandir local_path) (\<lambda>h. os_scandir w h local_path)) (\<lambda>entries.
           for_each entries (\<lambda>entry.
             smart_copy_local_to_remote d w
               (os_path_join local_path (fst entry)) (remote_join remote_path (fst entry)))))
       else smart_copy_file_local_to_remote w local_path remote_path)"

section \<open>Smart copy, remote to local\<close>

text \<open>
  The file branch of \<open>smart_copy_remote_to_local\<close>:
  \<^verbatim>\<open>
  if os.path.exists(local_path):
      size_remote = remote_file_size(ssh, remote_path)
      if size_remote and size_remote > LARGE_FILE_MB * 1024 * 1024:
          csum_rem_part = compute_remote_checksum(ssh, remote_path, full=False)
          csum_loc_part = compute_local_checksum(local_path, full=False)
          if csum_rem_part and csum_loc_part and csum_rem_part == csum_loc_part:
              csum_rem_full = compute_remote_checksum(ssh, remote_path, full=True)
              csum_loc_full = compute_local_checksum(local_path, full=True)
              if csum_rem_full == csum_loc_full:
                  log_command(f"SKIP identical: {remote_path} -> {local_path}")
                  return
  cmd = f"GET {remote_path} -> {local_path}"
  log_command(cmd)
  try:
      sftp.get(remote_path, local_path)
  except Exception as e:
      log_command(f"Fehler: {e}")
  \<close>
  \<open>size_remote and size_remote > ...\<close> is false for None and for 0. The last five
  lines are \<open>get_file\<close>.
\<close>

definition get_file :: "world \<Rightarrow> string \<Rightarrow> string \<Rightarrow> unit py" where
  "get_file w remote_path local_path =
     bind (log_command (''GET '' @ remote_path @ '' -> '' @ local_path)) (\<lambda>_.
       try_except
         (ext (SftpGet remote_path local_path) (\<lambda>h. sftp_get w h remote_path local_path))
         is_Exception
         (\<lambda>e. log_command (''Fehler: '' @ str_exn e)))"

definition large_size :: "int option \<Rightarrow> bool" where
  "large_size size_remote =
     (case size_remote of
        None \<Rightarrow> False
      | Some n \<Rightarrow> n \<noteq> 0 \<and> n > LARGE_FILE_MB * 1024 * 1024)"

definition smart_copy_file_remote_to_local :: "world \<Rightarrow> string \<Rightarrow> string \<Rightarrow> unit py" where
  "smart_copy_file_remote_to_local w remote_path local_path =
     bind (ext_pure (OsPathExists local_path) (\<lambda>h. os_path_exists w h local_path)) (\<lambda>ex.
     bind
       (if ex then
          bind (remote_file_size w remote_path) (\<lambda>size_remote.
            if large_size size_remote then
              bind (compute_remote_checksum w remote_path ''md5'' False PARTIAL_MB) (\<lambda>csum_rem_part.
              bind (compute_local_checksum w local_path ''md5'' False PARTIAL_MB 65536) (\<lambda>csum_loc_part.
                if truthy_str csum_rem_part \<and> truthy_str csum_loc_part \<and> csum_rem_part = csum_loc_part then
                  bind (compute_remote_checksum w remote_path ''md5'' True PARTIAL_MB) (\<lambda>csum_rem_full.
                  bind (compute_local_checksum w local_path ''md5'' True PARTIAL_MB 65536) (\<lambda>csum_loc_full.
                    ret (csum_rem_full = csum_loc_full)))
                else ret False))
            else ret False)
        else ret False)
       (\<lambda>identical.
          if identical then
            log_command (''SKIP identical: '' @ remote_path @ '' -> '' @ local_path)
          else get_file w remote_path local_path))"

text \<open>
  \<^verbatim>\<open>
  def smart_copy_remote_to_local(sftp, ssh, remote_path, local_path):
      try:
          attr = sftp.stat(remote_path)
          is_dir = bool(attr.st_mode & 0o040000)
      except IOError:
          return
      if is_dir:
          if not os.path.exists(local_path):
              try:
                  os.mkdir(local_path)
              except OSError:
                  pass
          try:
              entries = sftp.listdir_attr(remote_path)
              for e in entries:
                  rname = e.filename
                  remote_child = remote_path.rstrip('/') + "/" + rname if remote_path != "/" else "/" + rname
                  local_child = os.path.join(local_path, rname)
                  smart_copy_remote_to_local(sftp, ssh, remote_child, local_child)
          except IOError:
              pass
      else:
          ... the file branch ...
  \<close>
  The handler around the loop also receives an OSError that leaves a nested call.
\<close>

fun smart_copy_remote_to_local :: "nat \<Rightarrow> world \<Rightarrow> string \<Rightarrow> string \<Rightarrow> unit py" where
  "smart_copy_remote_to_local 0 w remote_path local_path =
     raise (Exception ''maximum recursion depth exceeded'')"
| "smart_copy_remote_to_local (Suc d) w remote_path local_path =
     bind (try_except
             (bind (ext (SftpStat remote_path) (\<lambda>h. sftp_stat w h remote_path)) (\<lambda>st_mode.
                ret (Some (mode_is_dir st_mode))))
             is_OSError
             (\<lambda>e. ret None)) (\<lambda>stat.
       case stat of
         None \<Rightarrow> ret ()
       | Some is_dir \<Rightarrow>
           if is_dir then
             bind (bind (ext_pure (OsPathExists local_path) (\<lambda>h. os_path_exists w h local_path)) (\<lambda>ex.
                     if \<not> ex then
                       try_except
                         (ext (OsMkdir local_path) (\<lambda>h. os_mkdir w h local_path))
                         is_OSError
                         (\<lambda>e. ret ())
                     else ret ())) (\<lambda>_.
               try_except
                 (bind (ext (SftpListdirAttr remote_path) (\<lambda>h. sftp_listdir_attr w h remote_path)) (\<lambda>entries.
                    for_each entries (\<lambda>e.
                      smart_copy_remote_to_local d w
                        (remote_join remote_path (fst e)) (os_path_join local_path (fst e)))))
                 is_OSError
                 (\<lambda>e. ret ()))
           else smart_copy_file_remote_to_local w remote_path local_path)"

section \<open>Copy, move, delete\<close>

definition copy_file_local_to_remote :: "nat \<Rightarrow> world \<Rightarrow> string \<Rightarrow> string \<Rightarrow> unit py" where
  "copy_file_local_to_remote d w local_path remote_path =
     smart_copy_local_to_remote d w local_path remote_path"

definition copy_file_remote_to_local :: "nat \<Rightarrow> world \<Rightarrow> string \<Rightarrow> string \<Rightarrow> unit py" where
  "copy_file_remote_to_local d w remote_path local_path =
     smart_copy_remote_to_local d w remote_path local_path"

text \<open>
  \<^verbatim>\<open>
  def move_file_local_to_remote(sftp, ssh, local_path, remote_path):
      smart_copy_local_to_remote(sftp, ssh, local_path, remote_path)
      try:
          if os.path.isfile(local_path):
              os.remove(local_path)
              log_command(f"RM LOCAL {local_path}")
          else:
              import shutil
              shutil.rmtree(local_path)
              log_command(f"RM LOCAL DIR {local_path}")
      except Exception as e:
          log_command(f"Fehler bei rm local: {e}")
  \<close>
\<close>

definition move_file_local_to_remote :: "nat \<Rightarrow> world \<Rightarrow> string \<Rightarrow> string \<Rightarrow> unit py" where
  "move_file_local_to_remote d w local_path remote_path =
     bind (smart_copy_local_to_remote d w local_path remote_path) (\<lambda>_.
       try_except
         (bind (ext_pure (OsPathIsfile local_path) (\<lambda>h. os_path_isfile w h local_path)) (\<lambda>isfile.
            if isfile then
              bind (ext (OsRemove local_path) (\<lambda>h. os_remove w h local_path)) (\<lambda>_.
                log_command (''RM LOCAL '' @ local_path))
            else
              bind (ext (ShutilRmtree local_path) (\<lambda>h. shutil_rmtree w h local_path)) (\<lambda>_.
                log_command (''RM LOCAL DIR '' @ local_path))))
         is_Exception
         (\<lambda>e. log_command (''Fehler bei rm local: '' @ str_exn e)))"

text \<open>
  \<^verbatim>\<open>
  def remove_remote_dir_recursive(sftp, path):
      try:
          for item in sftp.listdir_attr(path):
              fname = item.filename
              fullp = path.rstrip('/') + '/' + fname if path != '/' else '/' + fname
              if bool(item.st_mode & 0o040000):
                  remove_remote_dir_recursive(sftp, fullp)
              else:
                  sftp.remove(fullp)
          sftp.rmdir(path)
      except:
          pass
  \<close>
  One pass of the loop is \<open>remove_item\<close>; the nested call is its first argument.
\<close>

definition remove_item :: "(string \<Rightarrow> unit py) \<Rightarrow> world \<Rightarrow> string \<Rightarrow> string \<times> int \<Rightarrow> unit py" where
  "remove_item recurse w path item =
     (let fname = fst item; fullp = remote_join path fname in
      if mode_is_dir (snd item) then recurse fullp
      else ext (SftpRemove fullp) (\<lambda>h. sftp_remove w h fullp))"

fun remove_remote_dir_recursive :: "nat \<Rightarrow> world \<Rightarrow> string \<Rightarrow> unit py" where
  "remove_remote_dir_recursive 0 w path =
     raise (Exception ''maximum recursion depth exceeded'')"
| "remove_remote_dir_recursive (Suc d) w path =
     try_except
       (bind (ext (SftpListdirAttr path) (\<lambda>h. sftp_listdir_attr w h path)) (\<lambda>items.
        bind (for_each items (remove_item (remove_remote_dir_recursive d w) w path)) (\<lambda>_.
          ext (SftpRmdir path) (\<lambda>h. sftp_rmdir w h path))))
       is_anything
       (\<lambda>e. ret ())"

text \<open>
  \<^verbatim>\<open>
  def move_file_remote_to_local(sftp, ssh, remote_path, local_path):
      smart_copy_remote_to_local(sftp, ssh, remote_path, local_path)
      try:
          attr = sftp.stat(remote_path)
          is_dir = bool(attr.st_mode & 0o040000)
          if is_dir:
              remove_remote_dir_recursive(sftp, remote_path)
              log_command(f"RM REMOTE DIR {remote_path}")
          else:
              sftp.remove(remote_path)
              log_command(f"RM REMOTE {remote_path}")
      except Exception as e:
          log_command(f"Fehler bei rm remote: {e}")
  \<close>
\<close>

definition move_file_remote_to_local :: "nat \<Rightarrow> world \<Rightarrow> string \<Rightarrow> string \<Rightarrow> unit py" where
  "move_file_remote_to_local d w remote_path local_path =
     bind (smart_copy_remote_to_local d w remote_path local_path) (\<lambda>_.
       try_except
         (bind (ext (SftpStat remote_path) (\<lambda>h. sftp_stat w h remote_path)) (\<lambda>st_mode.
            if mode_is_dir st_mode then
              bind (remove_remote_dir_recursive d w remote_path) (\<lambda>_.
                log_command (''RM REMOTE DIR '' @ remote_path))
            else
              bind (ext (SftpRemove remote_path) (\<lambda>h. sftp_remove w h remote_path)) (\<lambda>_.
                log_command (''RM REMOTE '' @ remote_path))))
         is_Exception
         (\<lambda>e. log_command (''Fehler bei rm remote: '' @ str_exn e)))"

text \<open>
  \<^verbatim>\<open>
  def delete_local_file_or_dir(path):
      cmd = f"DEL LOCAL {path}"
      log_command(cmd)
      if os.path.isdir(path):
          import shutil
          try:
              shutil.rmtree(path)
          except Exception as e:
              log_command(f"Fehler: {e}")
      else:
          try:
              os.remove(path)
          except Exception as e:
              log_command(f"Fehler: {e}")
  \<close>
\<close>

definition delete_local_file_or_dir :: "world \<Rightarrow> string \<Rightarrow> unit py" where
  "delete_local_file_or_dir w path =
     bind (log_command (''DEL LOCAL '' @ path)) (\<lambda>_.
     bind (ext_pure (OsPathIsdir path) (\<lambda>h. os_path_isdir w h path)) (\<lambda>isdir.
       if isdir then
         try_except (ext (ShutilRmtree path) (\<lambda>h. shutil_rmtree w h path))
           is_Exception (\<lambda>e. log_command (''Fehler: '' @ str_exn e))
       else
         try_except (ext (OsRemove path) (\<lambda>h. os_remove w h path))
           is_Exception (\<lambda>e. log_command (''Fehler: '' @ str_exn e))))"

text \<open>
  \<^verbatim>\<open>
  def delete_remote_file_or_dir(sftp, path, ssh):
      cmd = f"DEL REMOTE {path}"
      log_command(cmd)
      try:
          attr = sftp.stat(path)
          is_dir = bool(attr.st_mode & 0o040000)
          if is_dir:
              remove_remote_dir_recursive(sftp, path)
          else:
              sftp.remove(path)
      except Exception as e:
          log_command(f"Fehler: {e}")
  \<close>
\<close>

definition delete_remote_file_or_dir :: "nat \<Rightarrow> world \<Rightarrow> string \<Rightarrow> unit py" where
  "delete_remote_file_or_dir d w path =
     bind (log_command (''DEL REMOTE '' @ path)) (\<lambda>_.
       try_except
         (bind (ext (SftpStat path) (\<lambda>h. sftp_stat w h path)) (\<lambda>st_mode.
            if mode_is_dir st_mode then remove_remote_dir_recursive d w path
            else ext (SftpRemove path) (\<lambda>h. sftp_remove w h path)))
         is_Exception
         (\<lambda>e. log_command (''Fehler: '' @ str_exn e)))"

section \<open>Directory comparison\<close>

text \<open>
  \<^verbatim>\<open>
  def compare_directories(local_path, remote_path, ssh, sftp, algo='md5', full=False):
      local_entries = list_local_dir(local_path)
      remote_entries = list_remote_dir(sftp, remote_path)
      local_files = [n for (n, d) in local_entries if not d and n != '..']
      remote_files = [n for (n, d) in remote_entries if not d and n != '..']
      set_local = set(local_files)
      set_remote = set(remote_files)
      common = set_local.intersection(set_remote)
      only_local = set_local - common
      only_remote = set_remote - common
      different = set()
      same = set()
      for fname in common:
          local_fp = os.path.join(local_path, fname)
          remote_fp = remote_path.rstrip('/') + '/' + fname if remote_path != '/' else '/' + fname
          csum_loc = compute_local_checksum(local_fp, algo=algo, full=full)
          csum_rem = compute_remote_checksum(ssh, remote_fp, algo=algo, full=full)
          if csum_loc is None or csum_rem is None:
              different.add(fname)
          else:
              if csum_loc == csum_rem:
                  same.add(fname)
              else:
                  different.add(fname)
      return only_local, only_remote, different, same
  \<close>
  Python leaves the order in which a set is iterated open (it follows the hashes of the
  strings), so the order is a parameter: \<open>set_order S\<close> is the list in which the
  loop visits the set \<open>S\<close>.
\<close>

definition file_names :: "(string \<times> bool) list \<Rightarrow> string list" where
  "file_names entries = map fst (filter (\<lambda>x. \<not> snd x \<and> fst x \<noteq> ''..'') entries)"

fun compare_loop ::
  "world \<Rightarrow> string \<Rightarrow> string \<Rightarrow> string \<Rightarrow> bool \<Rightarrow> string list
     \<Rightarrow> string set \<times> string set \<Rightarrow> (string set \<times> string set) py" where
  "compare_loop w local_path remote_path algo full [] (different, same) = ret (different, same)"
| "compare_loop w local_path remote_path algo full (fname # rest) (different, same) =
     (let local_fp = os_path_join local_path fname;
          remote_fp = remote_join remote_path fname in
      bind (compute_local_checksum w local_fp algo full PARTIAL_MB 65536) (\<lambda>csum_loc.
      bind (compute_remote_checksum w remote_fp algo full PARTIAL_MB) (\<lambda>csum_rem.
        compare_loop w local_path remote_path algo full rest
          (if csum_loc = None \<or> csum_rem = None then (insert fname different, same)
           else if csum_loc = csum_rem then (different, insert fname same)
           else (insert fname different, same)))))"

definition compare_directories ::
  "(string set \<Rightarrow> string list) \<Rightarrow> world \<Rightarrow> string \<Rightarrow> string \<Rightarrow> string \<Rightarrow> bool
     \<Rightarrow> (string set \<times> string set \<times> string set \<times> string set) py" where
  "compare_directories set_order w local_path remote_path algo full =
     bind (list_local_dir w local_path) (\<lambda>local_entries.
     bind (list_remote_dir w remote_path) (\<lambda>remote_entries.
       let local_files = file_names local_entries;
           remote_files = file_names remote_entries;
           set_local = set local_files;
           set_remote = set remote_files;
           common = set_local \<inter> set_remote;
           only_local = set_local - common;
           only_remote = set_remote - common
       in
       bind (compare_loop w local_path remote_path algo full (set_order common) ({}, {}))
         (\<lambda>r. ret (only_local, only_remote, fst r, snd r))))"

section \<open>Notions used to state the properties\<close>

text \<open>The last \<open>n\<close> entries of a list, in their order.\<close>

definition last_n :: "nat \<Rightarrow> 'a list \<Rightarrow> 'a list" where
  "last_n n xs = drop (length xs - n) xs"

text \<open>Classes of external calls: the byte transfers, and the removals.\<close>

fun is_transfer :: "call \<Rightarrow> bool" where
  "is_transfer (SftpPut l r) = True"
| "is_transfer (SftpGet r l) = True"
| "is_transfer c = False"


text \<open>
  \<open>adds_only P m\<close>: whatever the state, the statement \<open>m\<close> only appends to the
  history, and every call it appends satisfies \<open>P\<close>.
\<close>

definition adds_only :: "(call \<Rightarrow> bool) \<Rightarrow> 'a py \<Rightarrow> bool" where
  "adds_only P m = (\<forall>s. \<exists>cs. hist (snd (m s)) = hist s @ cs \<and> list_all P cs)"

text \<open>
  The state after one more external call, and after one more line in the log; the size
  above which a file counts as large, in bytes.
\<close>

definition called :: "call \<Rightarrow> pstate \<Rightarrow> pstate" where
  "called c s = s\<lparr>hist := hist s @ [c]\<rparr>"

definition logged :: "string \<Rightarrow> pstate \<Rightarrow> pstate" where
  "logged cmd s = s\<lparr>cmd_log := log_append (cmd_log s) cmd\<rparr>"

definition large_limit :: int where
  "large_limit = LARGE_FILE_MB * 1024 * 1024"

text \<open>
  The states the queries leave when they run to their end: \<open>remote_file_exists\<close> logs
  and runs its test command; \<open>compute_remote_checksum\<close> on an existing file then logs
  and runs the digest command; \<open>compute_local_checksum\<close> on a file asks
  \<open>os.path.isfile\<close> and opens the file; \<open>remote_file_size\<close> logs and runs the
  stat command.
\<close>

definition after_exists :: "string \<Rightarrow> pstate \<Rightarrow> pstate" where
  "after_exists p s = called (ExecCommand (exists_cmd p)) (logged (exists_cmd p) s)"

definition after_remote_checksum :: "string \<Rightarrow> string \<Rightarrow> bool \<Rightarrow> nat \<Rightarrow> pstate \<Rightarrow> pstate" where
  "after_remote_checksum p algo full pm s =
     called (ExecCommand (checksum_cmd p algo full pm))
       (logged (checksum_cmd p algo full pm) (after_exists p s))"

definition after_local_checksum :: "string \<Rightarrow> pstate \<Rightarrow> pstate" where
  "after_local_checksum p s = called (OpenRead p) (called (OsPathIsfile p) s)"

definition after_size :: "string \<Rightarrow> pstate \<Rightarrow> pstate" where
  "after_size p s = called (ExecCommand (size_cmd p)) (logged (size_cmd p) s)"

text \<open>What \<open>compute_remote_checksum\<close> reads from the output of the digest command.\<close>

definition first_token :: "string \<Rightarrow> string option" where
  "first_token out = (case py_split (py_strip out) of [] \<Rightarrow> None | x # xs \<Rightarrow> Some x)"

text \<open>
  \<open>transfer_failure w h c\<close>: the call \<open>c\<close>, made after the history \<open>h\<close>, is a byte
  transfer that raised an exception of class Exception; the result is that exception.
\<close>

fun transfer_failure :: "world \<Rightarrow> call list \<Rightarrow> call \<Rightarrow> exn option" where
  "transfer_failure w h (SftpPut l r) =
     (case sftp_put w h l r of Inl e \<Rightarrow> if is_Exception e then Some e else None | Inr u \<Rightarrow> None)"
| "transfer_failure w h (SftpGet r l) =
     (case sftp_get w h r l of Inl e \<Rightarrow> if is_Exception e then Some e else None | Inr u \<Rightarrow> None)"
| "transfer_failure w h c = None"

text \<open>
  \<open>survives_failures w m\<close>: whenever the last external call of the statement \<open>m\<close> is
  a transfer that failed so, \<open>m\<close> has returned normally and the last line of the log
  is the report of that failure. \<open>appends m\<close>: \<open>m\<close> only appends to the history.
  \<open>always_calls m\<close>: \<open>m\<close> makes at least one external call.
\<close>

definition survives_failures :: "world \<Rightarrow> unit py \<Rightarrow> bool" where
  "survives_failures w m =
     (\<forall>s res s' cs c e.
        m s = (res, s') \<and> hist s' = hist s @ cs @ [c] \<and> transfer_failure w (hist s @ cs) c = Some e
        \<longrightarrow> res = Inr () \<and> cmd_log s' \<noteq> [] \<and> last (cmd_log s') = ''Fehler: '' @ str_exn e)"

definition appends :: "'a py \<Rightarrow> bool" where
  "appends m = (\<forall>s. \<exists>cs. hist (snd (m s)) = hist s @ cs)"

definition always_calls :: "'a py \<Rightarrow> bool" where
  "always_calls m = (\<forall>s. hist (snd (m s)) \<noteq> hist s)"

text \<open>
  \<open>child_paths lp rp names\<close>: the local and the remote path reached from \<open>lp\<close> and
  \<open>rp\<close> by going down the same entry names, the local one built with
  \<open>os.path.join\<close>, the remote one with the slash concatenation. \<open>walk_call lp rp c\<close>:
  the call \<open>c\<close>, when it is a transfer, the creation of a directory or the listing
  of one, addresses such paths.
\<close>

definition child_paths :: "string \<Rightarrow> string \<Rightarrow> string list \<Rightarrow> string \<times> string" where
  "child_paths lp rp names = (foldl os_path_join lp names, foldl remote_join rp names)"

fun walk_call :: "string \<Rightarrow> string \<Rightarrow> call \<Rightarrow> bool" where
  "walk_call lp rp (SftpPut l r) = (\<exists>names. child_paths lp rp names = (l, r))"
| "walk_call lp rp (SftpGet r l) = (\<exists>names. child_paths lp rp names = (l, r))"
| "walk_call lp rp (SftpMkdir r) = (\<exists>names. snd (child_paths lp rp names) = r)"
| "walk_call lp rp (SftpListdirAttr r) = (\<exists>names. snd (child_paths lp rp names) = r)"
| "walk_call lp rp (OsMkdir l) = (\<exists>names. fst (child_paths lp rp names) = l)"
| "walk_call lp rp (OsScandir l) = (\<exists>names. fst (child_paths lp rp names) = l)"
| "walk_call lp rp c = True"

section \<open>Example worlds\<close>

text \<open>
  Concrete worlds on which the properties below are run. The digest functions of the
  examples stand in for hashlib's: a tag for the algorithm and the number of bytes
  digested. Their hashlib knows md5, also under the name MD5, sha512, and shake_128,
  whose \<open>hexdigest()\<close> raises a TypeError. A file of \<open>n\<close> zero bytes is
  \<open>zeros n\<close>.
\<close>

definition toy_md5 :: "bytes \<Rightarrow> string" where
  "toy_md5 bs = ''m'' @ str_nat (length bs)"

definition toy_sha512 :: "bytes \<Rightarrow> string" where
  "toy_sha512 bs = ''s'' @ str_nat (length bs)"

definition hexdigest_needs_length :: exn where
  "hexdigest_needs_length =
     Exception (''hexdigest() missing required argument '' @ [CHR 0x27] @ ''length''
                @ [CHR 0x27] @ '' (pos 1)'')"

definition toy_hashlib :: "string \<Rightarrow> (bytes \<Rightarrow> exn + string) option" where
  "toy_hashlib algo =
     (if algo = ''md5'' \<or> algo = ''MD5'' then Some (\<lambda>bs. Inr (toy_md5 bs))
      else if algo = ''sha512'' then Some (\<lambda>bs. Inr (toy_sha512 bs))
      else if algo = ''shake_128'' then Some (\<lambda>bs. Inl hexdigest_needs_length)
      else None)"

definition zeros :: "nat \<Rightarrow> bytes" where
  "zeros n = replicate n 0"

text \<open>
  The empty world: no local file, no remote file, every command exits with status 1,
  every SFTP request and every local request fails with an OSError.
\<close>

definition no_such_file :: exn where
  "no_such_file = OSError ''[Errno 2] No such file''"

definition empty_world :: world where
  "empty_world = \<lparr>
     os_path_isfile = (\<lambda>h p. False),
     os_path_isdir = (\<lambda>h p. False),
     os_path_exists = (\<lambda>h p. False),
     os_path_getsize = (\<lambda>h p. Inl no_such_file),
     os_scandir = (\<lambda>h p. Inl no_such_file),
     open_read = (\<lambda>h p. Inl no_such_file),
     os_mkdir = (\<lambda>h p. Inl no_such_file),
     os_remove = (\<lambda>h p. Inl no_such_file),
     shutil_rmtree = (\<lambda>h p. Inl no_such_file),
     hashlib_new = toy_hashlib,
     exec_command = (\<lambda>h c. Inr ([], [], 1)),
     sftp_stat = (\<lambda>h p. Inl no_such_file),
     sftp_listdir_attr = (\<lambda>h p. Inl no_such_file),
     sftp_mkdir = (\<lambda>h p. Inl no_such_file),
     sftp_put = (\<lambda>h l r. Inl no_such_file),
     sftp_get = (\<lambda>h r l. Inl no_such_file),
     sftp_remove = (\<lambda>h p. Inl no_such_file),
     sftp_rmdir = (\<lambda>h p. Inl no_such_file)
   \<rparr>"

definition initial_state :: pstate where
  "initial_state = \<lparr>cmd_log = [], hist = []\<rparr>"

text \<open>
  One large file on both sides: \<open>/src/big.bin\<close> locally and \<open>/dst/big.bin\<close>
  remotely, 11000000 zero bytes each; the remote digest commands print what
  \<open>toy_md5\<close> gives, followed by the file name as md5sum does.
\<close>

definition big_exec :: "string \<Rightarrow> exn + (string \<times> string \<times> int)" where
  "big_exec c =
     (if c = ''[ -f '' @ [CHR 0x27] @ ''/dst/big.bin'' @ [CHR 0x27] @ '' ]'' then Inr ([], [], 0)
      else if c = ''stat -c %s '' @ [CHR 0x27] @ ''/dst/big.bin'' @ [CHR 0x27]
        then Inr (''11000000'' @ [CHR 0x0A], [], 0)
      else if c = ''dd if='' @ [CHR 0x27] @ ''/dst/big.bin'' @ [CHR 0x27]
                  @ '' bs=1M count=5 2>/dev/null | md5sum''
        then Inr (''m5242880  -'' @ [CHR 0x0A], [], 0)
      else if c = ''md5sum '' @ [CHR 0x27] @ ''/dst/big.bin'' @ [CHR 0x27]
        then Inr (''m11000000  /dst/big.bin'' @ [CHR 0x0A], [], 0)
      else Inr ([], [], 1))"

definition big_world :: world where
  "big_world = empty_world \<lparr>
     os_path_isfile := (\<lambda>h p. p = ''/src/big.bin''),
     os_path_exists := (\<lambda>h p. p = ''/src/big.bin''),
     os_path_getsize := (\<lambda>h p. if p = ''/src/big.bin'' then Inr 11000000 else Inl no_such_file),
     open_read := (\<lambda>h p. if p = ''/src/big.bin'' then Inr (zeros 11000000) else Inl no_such_file),
     exec_command := (\<lambda>h c. big_exec c),
     sftp_stat := (\<lambda>h p. if p = ''/dst/big.bin'' then Inr 33188 else Inl no_such_file),
     sftp_put := (\<lambda>h l r. Inr ()),
     sftp_get := (\<lambda>h r l. Inr ())
   \<rparr>"

text \<open>
  The same two files, the remote one changed behind its first 5 MB: its full digest is
  another one.
\<close>

definition changed_world :: world where
  "changed_world = big_world \<lparr>
     exec_command := (\<lambda>h c.
       if c = ''md5sum '' @ [CHR 0x27] @ ''/dst/big.bin'' @ [CHR 0x27]
       then Inr (''x11000000  /dst/big.bin'' @ [CHR 0x0A], [], 0)
       else big_exec c)
   \<rparr>"

text \<open>
  The two large files again, on failing disks: the first 5 MB can be read on both sides,
  but the second read of the local file fails with an input/output error, and the remote
  md5sum over the whole file exits with status 1.
\<close>

definition io_error :: exn where
  "io_error = OSError ''[Errno 5] Input/output error''"

definition failing_disk_world :: world where
  "failing_disk_world = big_world \<lparr>
     open_read := (\<lambda>h p.
       if p = ''/src/big.bin'' then (if OpenRead p \<in> set h then Inl io_error else Inr (zeros 11000000))
       else Inl no_such_file),
     exec_command := (\<lambda>h c.
       if c = ''md5sum '' @ [CHR 0x27] @ ''/dst/big.bin'' @ [CHR 0x27]
       then Inr ([], ''md5sum: /dst/big.bin: Input/output error'', 1)
       else big_exec c)
   \<rparr>"

text \<open>
  A small file, the same on both sides: \<open>/src/a.txt\<close> locally and \<open>/dst/a.txt\<close>
  remotely, three bytes each.
\<close>

definition small_exec :: "string \<Rightarrow> exn + (string \<times> string \<times> int)" where
  "small_exec c =
     (if c = ''[ -f '' @ [CHR 0x27] @ ''/dst/a.txt'' @ [CHR 0x27] @ '' ]'' then Inr ([], [], 0)
      else if c = ''stat -c %s '' @ [CHR 0x27] @ ''/dst/a.txt'' @ [CHR 0x27]
        then Inr (''3'' @ [CHR 0x0A], [], 0)
      else Inr ([], [], 1))"

definition small_world :: world where
  "small_world = empty_world \<lparr>
     os_path_isfile := (\<lambda>h p. p = ''/src/a.txt''),
     os_path_exists := (\<lambda>h p. p = ''/src/a.txt''),
     os_path_getsize := (\<lambda>h p. if p = ''/src/a.txt'' then Inr 3 else Inl no_such_file),
     open_read := (\<lambda>h p. if p = ''/src/a.txt'' then Inr [97, 98, 99] else Inl no_such_file),
     exec_command := (\<lambda>h c. small_exec c),
     sftp_stat := (\<lambda>h p. if p = ''/dst/a.txt'' then Inr 33188 else Inl no_such_file),
     sftp_put := (\<lambda>h l r. Inr ()),
     sftp_get := (\<lambda>h r l. Inr ())
   \<rparr>"

text \<open>
  Two directories: \<open>/l\<close> locally with the files x.txt, y.txt, z.txt and the directory
  sub (holding w.txt), \<open>/r\<close> remotely with the files z.txt and y.txt and the directory
  old. z.txt is the same on both sides, y.txt is not.
\<close>

definition dir_exec :: "string \<Rightarrow> exn + (string \<times> string \<times> int)" where
  "dir_exec c =
     (if c = ''[ -f '' @ [CHR 0x27] @ ''/r/y.txt'' @ [CHR 0x27] @ '' ]''
         \<or> c = ''[ -f '' @ [CHR 0x27] @ ''/r/z.txt'' @ [CHR 0x27] @ '' ]''
        then Inr ([], [], 0)
      else if c = ''stat -c %s '' @ [CHR 0x27] @ ''/r/y.txt'' @ [CHR 0x27]
        then Inr (''5'' @ [CHR 0x0A], [], 0)
      else if c = ''stat -c %s '' @ [CHR 0x27] @ ''/r/z.txt'' @ [CHR 0x27]
        then Inr (''3'' @ [CHR 0x0A], [], 0)
      else if c = ''dd if='' @ [CHR 0x27] @ ''/r/y.txt'' @ [CHR 0x27]
                  @ '' bs=1M count=5 2>/dev/null | md5sum''
        then Inr (''m5  -'' @ [CHR 0x0A], [], 0)
      else if c = ''dd if='' @ [CHR 0x27] @ ''/r/z.txt'' @ [CHR 0x27]
                  @ '' bs=1M count=5 2>/dev/null | md5sum''
        then Inr (''m3  -'' @ [CHR 0x0A], [], 0)
      else Inr ([], [], 1))"

definition dir_world :: world where
  "dir_world = empty_world \<lparr>
     os_path_isfile := (\<lambda>h p. p \<in> {''/l/x.txt'', ''/l/y.txt'', ''/l/z.txt'', ''/l/sub/w.txt''}),
     os_path_isdir := (\<lambda>h p. p \<in> {''/l'', ''/l/sub''}),
     os_path_exists := (\<lambda>h p. p \<in> {''/l'', ''/l/sub'', ''/l/x.txt'', ''/l/y.txt'', ''/l/z.txt'',
                                       ''/l/sub/w.txt''}),
     os_path_getsize := (\<lambda>h p.
       if p = ''/l/y.txt'' then Inr 2
       else if p \<in> {''/l/x.txt'', ''/l/z.txt'', ''/l/sub/w.txt''} then Inr 3
       else Inl no_such_file),
     os_scandir := (\<lambda>h p.
       if p = ''/l'' then Inr [(''y.txt'', False), (''sub'', True), (''x.txt'', False), (''z.txt'', False)]
       else if p = ''/l/sub'' then Inr [(''w.txt'', False)]
       else Inl no_such_file),
     open_read := (\<lambda>h p.
       if p = ''/l/y.txt'' then Inr [1, 2]
       else if p \<in> {''/l/x.txt'', ''/l/z.txt'', ''/l/sub/w.txt''} then Inr [1, 2, 3]
       else Inl no_such_file),
     exec_command := (\<lambda>h c. dir_exec c),
     sftp_stat := (\<lambda>h p.
       if p \<in> {''/r'', ''/r/old''} then Inr 16877
       else if p \<in> {''/r/y.txt'', ''/r/z.txt''} then Inr 33188
       else Inl no_such_file),
     sftp_listdir_attr := (\<lambda>h p.
       if p = ''/r'' then Inr [(''z.txt'', 33188), (''old'', 16877), (''y.txt'', 33188)]
       else if p = ''/r/old'' then Inr []
       else Inl no_such_file),
     sftp_mkdir := (\<lambda>h p. if p = ''/r'' then Inl (OSError ''Failure'') else Inr ()),
     os_mkdir := (\<lambda>h p. Inr ()),
     os_remove := (\<lambda>h p. Inr ()),
     shutil_rmtree := (\<lambda>h p. Inr ()),
     sftp_put := (\<lambda>h l r. Inr ()),
     sftp_get := (\<lambda>h r l. Inr ()),
     sftp_remove := (\<lambda>h p. Inr ()),
     sftp_rmdir := (\<lambda>h p. Inr ())
   \<rparr>"

text \<open>An iteration order for sets of names: the order of a fixed list.\<close>

definition order_of :: "string list \<Rightarrow> string set \<Rightarrow> string list" where
  "order_of names S = filter (\<lambda>n. n \<in> S) names"

text \<open>
  Remote directories that cannot be emptied: \<open>/d\<close> holds the files a and b, and a
  cannot be removed; \<open>/e\<close> holds the directory sub and the file b, and the file c
  inside sub cannot be removed.
\<close>

definition permission_denied :: exn where
  "permission_denied = OSError ''[Errno 13] Permission denied''"

definition stuck_world :: world where
  "stuck_world = empty_world \<lparr>
     sftp_stat := (\<lambda>h p.
       if p \<in> {''/d'', ''/e'', ''/e/sub''} then Inr 16877
       else if p \<in> {''/d/a'', ''/d/b'', ''/e/b'', ''/e/sub/c''} then Inr 33188
       else Inl no_such_file),
     sftp_listdir_attr := (\<lambda>h p.
       if p = ''/d'' then Inr [(''a'', 33188), (''b'', 33188)]
       else if p = ''/e'' then Inr [(''sub'', 16877), (''b'', 33188)]
       else if p = ''/e/sub'' then Inr [(''c'', 33188)]
       else Inl no_such_file),
     sftp_remove := (\<lambda>h p. if p \<in> {''/d/a'', ''/e/sub/c''} then Inl permission_denied else Inr ()),
     sftp_rmdir := (\<lambda>h p. Inl (OSError ''Failure''))
   \<rparr>"

text \<open>
  The two directories with a broken entry: the size of \<open>/l/x.txt\<close> cannot be read
  (as for a dangling symbolic link).
\<close>

definition broken_world :: world where
  "broken_world = dir_world \<lparr>
     os_path_getsize := (\<lambda>h p.
       if p = ''/l/x.txt'' then Inl no_such_file else os_path_getsize dir_world h p)
   \<rparr>"

text \<open>
  A local directory given as \<open>/l//\<close> and a remote directory given as \<open>/r//\<close>, each
  holding the one file x.txt; nothing exists on the other side.
\<close>

definition slash_world :: world where
  "slash_world = empty_world \<lparr>
     os_path_isdir := (\<lambda>h p. p = ''/l//''),
     os_scandir := (\<lambda>h p. if p = ''/l//'' then Inr [(''x.txt'', False)] else Inl no_such_file),
     os_path_getsize := (\<lambda>h p. if p = ''/l//x.txt'' then Inr 3 else Inl no_such_file),
     os_path_exists := (\<lambda>h p. False),
     os_mkdir := (\<lambda>h p. Inr ()),
     sftp_stat := (\<lambda>h p.
       if p = ''/r//'' then Inr 16877
       else if p = ''/r/x.txt'' then Inr 33188
       else Inl no_such_file),
     sftp_listdir_attr := (\<lambda>h p.
       if p = ''/r//'' then Inr [(''x.txt'', 33188)] else Inl no_such_file),
     sftp_mkdir := (\<lambda>h p. Inr ()),
     sftp_put := (\<lambda>h l r. Inr ()),
     sftp_get := (\<lambda>h r l. Inr ())
   \<rparr>"

section \<open>Unfolding the statements\<close>

lemmas py_defs = ret_def raise_def bind_def try_except_def ext_def ext_pure_def log_command_def

section \<open>The read loop\<close>

text \<open>
  With a positive chunk size the loop gives the digest object the whole content in full
  mode, and the first \<open>m\<close> bytes in partial mode when the chunk size divides
  \<open>m\<close>, as 65536 divides 5 MB.
\<close>

lemma read_loop_full:
  "chunk_size > 0 \<Longrightarrow> read_loop rest chunk_size None bytes_read fed = fed @ rest"
proof (induction rest chunk_size "None :: nat option" bytes_read fed rule: read_loop.induct)
  case (1 rest chunk_size bytes_read fed)
  show ?case
  proof (cases "take chunk_size rest = []")
    case True
    with "1.prems" have "rest = []" by (cases rest) auto
    then show ?thesis by (subst read_loop.simps) simp
  next
    case False
    have "read_loop rest chunk_size None bytes_read fed =
          read_loop (drop chunk_size rest) chunk_size None
            (bytes_read + length (take chunk_size rest)) (fed @ take chunk_size rest)"
      using False by (subst read_loop.simps) (simp add: Let_def)
    also have "\<dots> = (fed @ take chunk_size rest) @ drop chunk_size rest"
      using False "1.prems" by (intro "1.hyps") (auto simp: Let_def)
    finally show ?thesis by simp
  qed
qed

lemma read_loop_partial:
  "chunk_size > 0 \<Longrightarrow> bytes_read < m \<Longrightarrow> chunk_size dvd (m - bytes_read) \<Longrightarrow>
   read_loop rest chunk_size (Some m) bytes_read fed = fed @ take (m - bytes_read) rest"
proof (induction rest chunk_size "Some m" bytes_read fed rule: read_loop.induct)
  case (1 rest chunk_size bytes_read fed)
  from "1.prems" have ge: "chunk_size \<le> m - bytes_read"
    by (auto intro!: dvd_imp_le)
  show ?case
  proof (cases "take chunk_size rest = []")
    case True
    with "1.prems" have "rest = []" by (cases rest) auto
    then show ?thesis by (subst read_loop.simps) simp
  next
    case False
    let ?chunk = "take chunk_size rest"
    show ?thesis
    proof (cases "length rest < chunk_size")
      case True
      then have short: "take chunk_size rest = rest" "drop chunk_size rest = []" by simp_all
      have more: "\<not> m \<le> bytes_read + length rest"
        using True ge "1.prems" by simp
      have "read_loop rest chunk_size (Some m) bytes_read fed =
            read_loop [] chunk_size (Some m) (bytes_read + length rest) (fed @ rest)"
        using False short more by (subst read_loop.simps) (simp add: Let_def)
      also have "\<dots> = fed @ rest"
        by (subst read_loop.simps) simp
      finally have "read_loop rest chunk_size (Some m) bytes_read fed = fed @ rest" .
      moreover have "take (m - bytes_read) rest = rest"
        using True ge by simp
      ultimately show ?thesis by simp
    next
      case long: False
      then have len: "length ?chunk = chunk_size" by simp
      show ?thesis
      proof (cases "bytes_read + chunk_size \<ge> m")
        case True
        with ge "1.prems" have "m - bytes_read = chunk_size" by simp
        moreover have "read_loop rest chunk_size (Some m) bytes_read fed = fed @ ?chunk"
          using False True len by (subst read_loop.simps) (simp add: Let_def)
        ultimately show ?thesis by simp
      next
        case notyet: False
        have dvd': "chunk_size dvd (m - (bytes_read + length ?chunk))"
          using "1.prems" notyet len
          by (metis diff_diff_left dvd_diff_nat dvd_refl)
        have "read_loop rest chunk_size (Some m) bytes_read fed =
              read_loop (drop chunk_size rest) chunk_size (Some m)
                (bytes_read + length ?chunk) (fed @ ?chunk)"
          using False notyet len by (subst read_loop.simps) (simp add: Let_def)
        also have "\<dots> = (fed @ ?chunk) @ take (m - (bytes_read + length ?chunk)) (drop chunk_size rest)"
          using False notyet len "1.prems" dvd'
          by (intro "1.hyps") (auto simp: Let_def)
        also have "\<dots> = fed @ take (chunk_size + (m - (bytes_read + chunk_size))) rest"
          unfolding len by (simp add: take_add)
        also have "chunk_size + (m - (bytes_read + chunk_size)) = m - bytes_read"
          using notyet by simp
        finally show ?thesis .
      qed
    qed
  qed
qed

lemma read_loop_default_partial:
  "read_loop content 65536 (Some 5242880) 0 [] = take 5242880 content"
  using read_loop_partial [of 65536 0 "5242880" content "[]"]
  by simp

text \<open>The line appended to the log is its last line afterwards.\<close>

lemma log_append_last: "log_append l c \<noteq> [] \<and> last (log_append l c) = c"
  by (cases l) (auto simp: log_append_def Let_def CMD_LOG_MAX_def)


section \<open>Which calls a statement makes\<close>



lemma adds_onlyI:
  "(\<And>s. \<exists>cs. hist (snd (m s)) = hist s @ cs \<and> list_all P cs) \<Longrightarrow> adds_only P m"
  by (simp add: adds_only_def)

lemma adds_onlyD:
  "adds_only P m \<Longrightarrow> \<exists>cs. hist (snd (m s)) = hist s @ cs \<and> list_all P cs"
  by (simp add: adds_only_def)

lemma adds_only_ret [intro!, simp]: "adds_only P (ret x)"
  by (simp add: adds_only_def ret_def)

lemma adds_only_raise [intro!, simp]: "adds_only P (raise e)"
  by (simp add: adds_only_def raise_def)

lemma adds_only_log_command [intro!, simp]: "adds_only P (log_command c)"
  by (simp add: adds_only_def log_command_def)

lemma adds_only_ext [intro!]: "P c \<Longrightarrow> adds_only P (ext c a)"
  by (simp add: adds_only_def ext_def)

lemma adds_only_ext_pure [intro!]: "P c \<Longrightarrow> adds_only P (ext_pure c a)"
  by (simp add: adds_only_def ext_pure_def)

lemma adds_only_bind [intro!]:
  assumes m: "adds_only P m" and f: "\<And>x. adds_only P (f x)"
  shows "adds_only P (bind m f)"
proof (rule adds_onlyI)
  fix s
  obtain r s1 where ms: "m s = (r, s1)" by (cases "m s")
  from adds_onlyD [OF m, of s] ms obtain cs where cs: "hist s1 = hist s @ cs" "list_all P cs"
    by auto
  show "\<exists>cs. hist (snd (bind m f s)) = hist s @ cs \<and> list_all P cs"
  proof (cases r)
    case (Inl e)
    with ms cs show ?thesis by (auto simp: bind_def)
  next
    case (Inr x)
    from adds_onlyD [OF f, of x s1] obtain ds where
      ds: "hist (snd (f x s1)) = hist s1 @ ds" "list_all P ds" by auto
    with ms cs Inr show ?thesis by (auto simp: bind_def)
  qed
qed

lemma adds_only_try_except [intro!]:
  assumes m: "adds_only P m" and h: "\<And>e. adds_only P (h e)"
  shows "adds_only P (try_except m cls h)"
proof (rule adds_onlyI)
  fix s
  obtain r s1 where ms: "m s = (r, s1)" by (cases "m s")
  from adds_onlyD [OF m, of s] ms obtain cs where cs: "hist s1 = hist s @ cs" "list_all P cs"
    by auto
  show "\<exists>cs. hist (snd (try_except m cls h s)) = hist s @ cs \<and> list_all P cs"
  proof (cases r)
    case (Inr x)
    with ms cs show ?thesis by (auto simp: try_except_def)
  next
    case (Inl e)
    from adds_onlyD [OF h, of e s1] obtain ds where
      ds: "hist (snd (h e s1)) = hist s1 @ ds" "list_all P ds" by auto
    with ms cs Inl show ?thesis by (auto simp: try_except_def)
  qed
qed

lemma adds_only_for_each [intro!]:
  "(\<And>x. adds_only P (body x)) \<Longrightarrow> adds_only P (for_each xs body)"
  by (induction xs) auto

lemma adds_only_if [intro!]:
  "(b \<Longrightarrow> adds_only P m) \<Longrightarrow> (\<not> b \<Longrightarrow> adds_only P n) \<Longrightarrow> adds_only P (if b then m else n)"
  by simp

lemma adds_only_case_prod [intro!]:
  "(\<And>a b. adds_only P (f a b)) \<Longrightarrow> adds_only P (case_prod f x)"
  by (cases x) simp

lemma adds_only_case_option [intro!]:
  "adds_only P m \<Longrightarrow> (\<And>x. adds_only P (f x)) \<Longrightarrow> adds_only P (case_option m f x)"
  by (cases x) simp_all

lemma adds_only_Let [intro!]:
  "adds_only P (f x) \<Longrightarrow> adds_only P (Let x f)"
  by simp

lemma adds_only_remote_file_exists:
  "(\<And>c. P (ExecCommand c)) \<Longrightarrow> adds_only P (remote_file_exists w p)"
  unfolding remote_file_exists_def by auto

lemma adds_only_compute_remote_checksum:
  "(\<And>c. P (ExecCommand c)) \<Longrightarrow> adds_only P (compute_remote_checksum w p algo full pm)"
  unfolding compute_remote_checksum_def by (auto intro!: adds_only_remote_file_exists)

lemma adds_only_remote_file_size:
  "(\<And>c. P (ExecCommand c)) \<Longrightarrow> adds_only P (remote_file_size w p)"
  unfolding remote_file_size_def by auto

lemma adds_only_compute_local_checksum:
  "P (OsPathIsfile p) \<Longrightarrow> P (OpenRead p) \<Longrightarrow> adds_only P (compute_local_checksum w p algo full pm cs)"
  unfolding compute_local_checksum_def by (auto split: sum.splits)

section \<open>Checksum commands and evaluation on the example worlds\<close>

lemma sum_cmd_of_fallback:
  "algo \<notin> {''md5'', ''sha1'', ''sha256''} \<Longrightarrow> sum_cmd_of algo = sum_cmd_of ''md5''"
  by (simp add: sum_cmd_of_def command_map_def)

lemma checksum_cmd_fallback:
  assumes "algo \<notin> {''md5'', ''sha1'', ''sha256''}"
  shows "checksum_cmd remote_path algo full partial_mb = checksum_cmd remote_path ''md5'' full partial_mb"
  unfolding checksum_cmd_def sum_cmd_of_fallback [OF assms] ..

lemma compute_local_checksum_success:
  assumes "os_path_isfile w (hist s) path"
    and "hashlib_new w algo = Some digest"
    and "open_read w (hist s @ [OsPathIsfile path]) path = Inr content"
  shows "compute_local_checksum w path algo full partial_mb chunk_size s =
           (case digest (read_loop content chunk_size
                           (if full then None else Some (partial_mb * 1024 * 1024)) 0 []) of
              Inl e \<Rightarrow> if is_OSError e then Inr None else Inl e
            | Inr hex \<Rightarrow> Inr (Some hex),
            s\<lparr>hist := hist s @ [OsPathIsfile path, OpenRead path]\<rparr>)"
  using assms by (simp add: compute_local_checksum_def py_defs split: sum.splits)

lemmas world_defs = big_world_def empty_world_def initial_state_def big_exec_def
  toy_hashlib_def toy_md5_def toy_sha512_def no_such_file_def

lemma length_zeros: "length (zeros n) = n" by (simp add: zeros_def)
lemma take_zeros: "take m (zeros n) = zeros (min m n)" by (simp add: zeros_def)

lemmas str_nat_numeral = str_nat.simps [of "numeral k" for k] str_nat.simps [of 0] str_nat.simps [of "Suc 0"]
  str_nat.simps [of 1]

lemmas eval_defs = compute_remote_checksum_def remote_file_exists_def remote_file_size_def
  exists_cmd_def size_cmd_def
  checksum_cmd_def sum_cmd_of_def command_map_def PARTIAL_MB_def LARGE_FILE_MB_def CMD_LOG_MAX_def
  digit_char_def str_nat_numeral py_strip_def py_isspace_def log_append_def
  py_isdigit_def is_digit_def py_int_def Let_def

lemmas eval_simps = py_defs world_defs eval_defs compute_local_checksum_success read_loop_default_partial
   read_loop_full length_zeros take_zeros

section \<open>The branches of a file copy\<close>

lemmas st_defs = called_def logged_def large_limit_def

lemma py_split_nonempty: "x \<in> set (py_split s) \<Longrightarrow> x \<noteq> []"
proof (induction s rule: py_split.induct)
  case (1 s)
  let ?t = "dropWhile py_isspace s"
  show ?case
  proof (cases "?t = []")
    case True
    with "1.prems" show ?thesis by (subst (asm) py_split.simps) (simp add: Let_def)
  next
    case False
    then have hd: "\<not> py_isspace (hd ?t)" by (metis hd_dropWhile)
    from "1.prems" False have
      "x = takeWhile (\<lambda>c. \<not> py_isspace c) ?t \<or> x \<in> set (py_split (dropWhile (\<lambda>c. \<not> py_isspace c) ?t))"
      by (subst (asm) py_split.simps) (auto simp: Let_def split: if_splits)
    then show ?thesis
    proof
      assume "x = takeWhile (\<lambda>c. \<not> py_isspace c) ?t"
      with False hd show ?thesis by (cases ?t) auto
    next
      assume "x \<in> set (py_split (dropWhile (\<lambda>c. \<not> py_isspace c) ?t))"
      with "1.IH" [OF refl False] show ?thesis by simp
    qed
  qed
qed

lemma compute_remote_checksum_nonempty:
  assumes "compute_remote_checksum w p algo full pm s = (Inr (Some b), s')"
  shows "b \<noteq> []"
proof -
  have "\<And>out. py_split out \<noteq> [] \<Longrightarrow> hd (py_split out) \<noteq> []"
    using py_split_nonempty by (metis list.set_sel(1))
  with assms show ?thesis
    by (auto simp: compute_remote_checksum_def py_defs Let_def
        split: prod.splits sum.splits if_splits)
qed

subsection \<open>The transfer itself\<close>

lemma put_file_ok:
  "sftp_put w (hist s) lp rp = Inr () \<Longrightarrow>
   put_file w lp rp s = (Inr (), called (SftpPut lp rp) (logged (''PUT '' @ lp @ '' -> '' @ rp) s))"
  by (simp add: put_file_def py_defs st_defs)

lemma put_file_caught:
  "sftp_put w (hist s) lp rp = Inl e \<Longrightarrow> is_Exception e \<Longrightarrow>
   put_file w lp rp s =
     (Inr (), logged (''Fehler: '' @ str_exn e)
                (called (SftpPut lp rp) (logged (''PUT '' @ lp @ '' -> '' @ rp) s)))"
  by (simp add: put_file_def py_defs st_defs)

lemma put_file_uncaught:
  "sftp_put w (hist s) lp rp = Inl e \<Longrightarrow> \<not> is_Exception e \<Longrightarrow>
   put_file w lp rp s = (Inl e, called (SftpPut lp rp) (logged (''PUT '' @ lp @ '' -> '' @ rp) s))"
  by (simp add: put_file_def py_defs st_defs)

lemma hist_put_file: "hist (snd (put_file w lp rp s)) = hist s @ [SftpPut lp rp]"
  by (simp add: put_file_def py_defs split: sum.splits)

lemma get_file_ok:
  "sftp_get w (hist s) rp lp = Inr () \<Longrightarrow>
   get_file w rp lp s = (Inr (), called (SftpGet rp lp) (logged (''GET '' @ rp @ '' -> '' @ lp) s))"
  by (simp add: get_file_def py_defs st_defs)

lemma get_file_caught:
  "sftp_get w (hist s) rp lp = Inl e \<Longrightarrow> is_Exception e \<Longrightarrow>
   get_file w rp lp s =
     (Inr (), logged (''Fehler: '' @ str_exn e)
                (called (SftpGet rp lp) (logged (''GET '' @ rp @ '' -> '' @ lp) s)))"
  by (simp add: get_file_def py_defs st_defs)

lemma get_file_uncaught:
  "sftp_get w (hist s) rp lp = Inl e \<Longrightarrow> \<not> is_Exception e \<Longrightarrow>
   get_file w rp lp s = (Inl e, called (SftpGet rp lp) (logged (''GET '' @ rp @ '' -> '' @ lp) s))"
  by (simp add: get_file_def py_defs st_defs)

lemma hist_get_file: "hist (snd (get_file w rp lp s)) = hist s @ [SftpGet rp lp]"
  by (simp add: get_file_def py_defs split: sum.splits)

subsection \<open>The file branch, local to remote\<close>

lemma smart_copy_local_to_remote_file:
  "\<not> os_path_isdir w (hist s) lp \<Longrightarrow>
   smart_copy_local_to_remote (Suc d) w lp rp s =
     smart_copy_file_local_to_remote w lp rp (called (OsPathIsdir lp) s)"
  by (simp add: py_defs st_defs)

lemma l2r_small:
  assumes "os_path_getsize w (hist s) lp = Inr sz" and "sz \<le> large_limit"
    and "remote_file_exists w rp (called (OsPathGetsize lp) s) = (Inr ex, s1)"
  shows "smart_copy_file_local_to_remote w lp rp s = put_file w lp rp s1"
  using assms
  by (simp add: smart_copy_file_local_to_remote_def bind_def ext_def ret_def st_defs)

lemma l2r_absent:
  assumes "os_path_getsize w (hist s) lp = Inr sz"
    and "remote_file_exists w rp (called (OsPathGetsize lp) s) = (Inr False, s1)"
  shows "smart_copy_file_local_to_remote w lp rp s = put_file w lp rp s1"
  using assms
  by (simp add: smart_copy_file_local_to_remote_def bind_def ext_def ret_def st_defs)

lemma l2r_partial_mismatch:
  assumes "os_path_getsize w (hist s) lp = Inr sz" and "sz > large_limit"
    and "remote_file_exists w rp (called (OsPathGetsize lp) s) = (Inr True, s1)"
    and "compute_local_checksum w lp ''md5'' False PARTIAL_MB 65536 s1 = (Inr pa, s2)"
    and "compute_remote_checksum w rp ''md5'' False PARTIAL_MB s2 = (Inr pb, s3)"
    and "\<not> (truthy_str pa \<and> truthy_str pb \<and> pa = pb)"
  shows "smart_copy_file_local_to_remote w lp rp s = put_file w lp rp s3"
  using assms
  by (auto simp: smart_copy_file_local_to_remote_def bind_def ext_def ret_def st_defs)

lemma l2r_full:
  assumes "os_path_getsize w (hist s) lp = Inr sz" and "sz > large_limit"
    and "remote_file_exists w rp (called (OsPathGetsize lp) s) = (Inr True, s1)"
    and "compute_local_checksum w lp ''md5'' False PARTIAL_MB 65536 s1 = (Inr pa, s2)"
    and "compute_remote_checksum w rp ''md5'' False PARTIAL_MB s2 = (Inr pb, s3)"
    and "truthy_str pa" "truthy_str pb" "pa = pb"
    and "compute_local_checksum w lp ''md5'' True PARTIAL_MB 65536 s3 = (Inr fa, s4)"
    and "compute_remote_checksum w rp ''md5'' True PARTIAL_MB s4 = (Inr fb, s5)"
  shows "smart_copy_file_local_to_remote w lp rp s =
           (if fa = fb then (Inr (), logged (''SKIP identical: '' @ lp @ '' -> '' @ rp) s5)
            else put_file w lp rp s5)"
  using assms
  by (simp add: smart_copy_file_local_to_remote_def bind_def ext_def ret_def log_command_def st_defs)

subsection \<open>The file branch, remote to local\<close>

lemma smart_copy_remote_to_local_file:
  "sftp_stat w (hist s) rp = Inr st_mode \<Longrightarrow> \<not> mode_is_dir st_mode \<Longrightarrow>
   smart_copy_remote_to_local (Suc d) w rp lp s =
     smart_copy_file_remote_to_local w rp lp (called (SftpStat rp) s)"
  by (simp add: py_defs st_defs)

lemma r2l_absent:
  assumes "\<not> os_path_exists w (hist s) lp"
  shows "smart_copy_file_remote_to_local w rp lp s = get_file w rp lp (called (OsPathExists lp) s)"
  using assms
  by (simp add: smart_copy_file_remote_to_local_def bind_def ext_pure_def ret_def st_defs)

lemma r2l_small:
  assumes "os_path_exists w (hist s) lp"
    and "remote_file_size w rp (called (OsPathExists lp) s) = (Inr sz, s1)"
    and "\<not> large_size sz"
  shows "smart_copy_file_remote_to_local w rp lp s = get_file w rp lp s1"
  using assms
  by (simp add: smart_copy_file_remote_to_local_def bind_def ext_pure_def ret_def st_defs)

lemma r2l_partial_mismatch:
  assumes "os_path_exists w (hist s) lp"
    and "remote_file_size w rp (called (OsPathExists lp) s) = (Inr sz, s1)"
    and "large_size sz"
    and "compute_remote_checksum w rp ''md5'' False PARTIAL_MB s1 = (Inr pb, s2)"
    and "compute_local_checksum w lp ''md5'' False PARTIAL_MB 65536 s2 = (Inr pa, s3)"
    and "\<not> (truthy_str pb \<and> truthy_str pa \<and> pb = pa)"
  shows "smart_copy_file_remote_to_local w rp lp s = get_file w rp lp s3"
  using assms
  by (auto simp: smart_copy_file_remote_to_local_def bind_def ext_pure_def ret_def st_defs)

lemma r2l_full:
  assumes "os_path_exists w (hist s) lp"
    and "remote_file_size w rp (called (OsPathExists lp) s) = (Inr sz, s1)"
    and "large_size sz"
    and "compute_remote_checksum w rp ''md5'' False PARTIAL_MB s1 = (Inr pb, s2)"
    and "compute_local_checksum w lp ''md5'' False PARTIAL_MB 65536 s2 = (Inr pa, s3)"
    and "truthy_str pb" "truthy_str pa" "pb = pa"
    and "compute_remote_checksum w rp ''md5'' True PARTIAL_MB s3 = (Inr fb, s4)"
    and "compute_local_checksum w lp ''md5'' True PARTIAL_MB 65536 s4 = (Inr fa, s5)"
  shows "smart_copy_file_remote_to_local w rp lp s =
           (if fb = fa then (Inr (), logged (''SKIP identical: '' @ rp @ '' -> '' @ lp) s5)
            else get_file w rp lp s5)"
  using assms
  by (simp add: smart_copy_file_remote_to_local_def bind_def ext_pure_def ret_def log_command_def st_defs)

section \<open>The queries make no transfer\<close>



lemma adds_only_filter:
  assumes "adds_only (\<lambda>c. \<not> P c) m" and "m s = (r, s')"
  shows "filter P (hist s') = filter P (hist s)"
proof -
  from adds_onlyD [OF assms(1), of s] assms(2)
  obtain cs where "hist s' = hist s @ cs" "list_all (\<lambda>c. \<not> P c) cs" by auto
  then show ?thesis by (simp add: list_all_iff)
qed

lemma no_transfer_remote_file_exists:
  "remote_file_exists w p s = (r, s') \<Longrightarrow> filter is_transfer (hist s') = filter is_transfer (hist s)"
  by (rule adds_only_filter [OF adds_only_remote_file_exists]) simp_all

lemma no_transfer_remote_file_size:
  "remote_file_size w p s = (r, s') \<Longrightarrow> filter is_transfer (hist s') = filter is_transfer (hist s)"
  by (rule adds_only_filter [OF adds_only_remote_file_size]) simp_all

lemma no_transfer_compute_remote_checksum:
  "compute_remote_checksum w p algo full pm s = (r, s') \<Longrightarrow>
   filter is_transfer (hist s') = filter is_transfer (hist s)"
  by (rule adds_only_filter [OF adds_only_compute_remote_checksum]) simp_all

lemma no_transfer_compute_local_checksum:
  "compute_local_checksum w p algo full pm cs s = (r, s') \<Longrightarrow>
   filter is_transfer (hist s') = filter is_transfer (hist s)"
  by (rule adds_only_filter [OF adds_only_compute_local_checksum]) simp_all


section \<open>Large files whose destination exists\<close>

lemma l2r_large_transfer_partial:
  assumes "\<not> os_path_isdir w (hist s) lp"
    and "os_path_getsize w (hist (called (OsPathIsdir lp) s)) lp = Inr sz"
    and "sz > 10 * 1024 * 1024"
    and "remote_file_exists w rp (called (OsPathGetsize lp) (called (OsPathIsdir lp) s)) = (Inr True, s1)"
    and "compute_local_checksum w lp ''md5'' False PARTIAL_MB 65536 s1 = (Inr pa, s2)"
    and "compute_remote_checksum w rp ''md5'' False PARTIAL_MB s2 = (Inr pb, s3)"
    and "pa \<noteq> pb \<or> pa = None \<or> pb = None"
  shows "hist (snd (smart_copy_local_to_remote (Suc d) w lp rp s)) = hist s3 @ [SftpPut lp rp]"
proof -
  have "\<not> (truthy_str pa \<and> truthy_str pb \<and> pa = pb)"
    using assms(7) by auto
  then have "smart_copy_file_local_to_remote w lp rp (called (OsPathIsdir lp) s) = put_file w lp rp s3"
    using assms(2-6)
    by (intro l2r_partial_mismatch [where sz = sz and pa = pa and pb = pb and ?s1.0 = s1 and ?s2.0 = s2])
       (simp_all add: large_limit_def LARGE_FILE_MB_def)
  with assms(1) show ?thesis
    by (simp add: smart_copy_local_to_remote_file hist_put_file del: smart_copy_local_to_remote.simps)
qed

lemma l2r_large_full:
  assumes "\<not> os_path_isdir w (hist s) lp"
    and "os_path_getsize w (hist (called (OsPathIsdir lp) s)) lp = Inr sz"
    and "sz > 10 * 1024 * 1024"
    and "remote_file_exists w rp (called (OsPathGetsize lp) (called (OsPathIsdir lp) s)) = (Inr True, s1)"
    and "compute_local_checksum w lp ''md5'' False PARTIAL_MB 65536 s1 = (Inr pa, s2)"
    and "compute_remote_checksum w rp ''md5'' False PARTIAL_MB s2 = (Inr pb, s3)"
    and "pa = pb" "pa \<noteq> None"
    and "compute_local_checksum w lp ''md5'' True PARTIAL_MB 65536 s3 = (Inr fa, s4)"
    and "compute_remote_checksum w rp ''md5'' True PARTIAL_MB s4 = (Inr fb, s5)"
  shows "smart_copy_local_to_remote (Suc d) w lp rp s =
           (if fa = fb then (Inr (), logged (''SKIP identical: '' @ lp @ '' -> '' @ rp) s5)
            else put_file w lp rp s5)"
    and "filter is_transfer (hist s5) = filter is_transfer (hist s)"
proof -
  from assms(7,8) obtain x where x: "pa = Some x" "pb = Some x" by auto
  with assms(6) have "x \<noteq> []" by (auto dest: compute_remote_checksum_nonempty)
  with x have t: "truthy_str pa" "truthy_str pb" by simp_all
  have "smart_copy_file_local_to_remote w lp rp (called (OsPathIsdir lp) s) =
           (if fa = fb then (Inr (), logged (''SKIP identical: '' @ lp @ '' -> '' @ rp) s5)
            else put_file w lp rp s5)"
    using assms(2-6) t assms(7,9,10)
    by (intro l2r_full [where sz = sz and pa = pa and pb = pb and ?s1.0 = s1 and ?s2.0 = s2
          and ?s3.0 = s3 and ?s4.0 = s4])
       (simp_all add: large_limit_def LARGE_FILE_MB_def)
  with assms(1) show "smart_copy_local_to_remote (Suc d) w lp rp s =
           (if fa = fb then (Inr (), logged (''SKIP identical: '' @ lp @ '' -> '' @ rp) s5)
            else put_file w lp rp s5)"
    by (simp add: smart_copy_local_to_remote_file del: smart_copy_local_to_remote.simps)
  have "filter is_transfer (hist s5) = filter is_transfer (hist s4)"
    using assms(10) by (rule no_transfer_compute_remote_checksum)
  also have "\<dots> = filter is_transfer (hist s3)"
    using assms(9) by (rule no_transfer_compute_local_checksum)
  also have "\<dots> = filter is_transfer (hist s2)"
    using assms(6) by (rule no_transfer_compute_remote_checksum)
  also have "\<dots> = filter is_transfer (hist s1)"
    using assms(5) by (rule no_transfer_compute_local_checksum)
  also have "\<dots> = filter is_transfer (hist (called (OsPathGetsize lp) (called (OsPathIsdir lp) s)))"
    using assms(4) by (rule no_transfer_remote_file_exists)
  also have "\<dots> = filter is_transfer (hist s)"
    by (simp add: called_def)
  finally show "filter is_transfer (hist s5) = filter is_transfer (hist s)" .
qed

lemma r2l_large_transfer_partial:
  assumes "sftp_stat w (hist s) rp = Inr st_mode" and "\<not> mode_is_dir st_mode"
    and "os_path_exists w (hist (called (SftpStat rp) s)) lp"
    and "remote_file_size w rp (called (OsPathExists lp) (called (SftpStat rp) s)) = (Inr (Some sz), s1)"
    and "sz > 10 * 1024 * 1024"
    and "compute_remote_checksum w rp ''md5'' False PARTIAL_MB s1 = (Inr pb, s2)"
    and "compute_local_checksum w lp ''md5'' False PARTIAL_MB 65536 s2 = (Inr pa, s3)"
    and "pa \<noteq> pb \<or> pa = None \<or> pb = None"
  shows "hist (snd (smart_copy_remote_to_local (Suc d) w rp lp s)) = hist s3 @ [SftpGet rp lp]"
proof -
  have "\<not> (truthy_str pb \<and> truthy_str pa \<and> pb = pa)"
    using assms(8) by auto
  then have "smart_copy_file_remote_to_local w rp lp (called (SftpStat rp) s) = get_file w rp lp s3"
    using assms(3-7)
    by (intro r2l_partial_mismatch [where sz = "Some sz" and pa = pa and pb = pb and ?s1.0 = s1 and ?s2.0 = s2])
       (simp_all add: large_size_def LARGE_FILE_MB_def)
  with assms(1,2) show ?thesis
    by (simp add: smart_copy_remote_to_local_file hist_get_file del: smart_copy_remote_to_local.simps)
qed

lemma r2l_large_full:
  assumes "sftp_stat w (hist s) rp = Inr st_mode" and "\<not> mode_is_dir st_mode"
    and "os_path_exists w (hist (called (SftpStat rp) s)) lp"
    and "remote_file_size w rp (called (OsPathExists lp) (called (SftpStat rp) s)) = (Inr (Some sz), s1)"
    and "sz > 10 * 1024 * 1024"
    and "compute_remote_checksum w rp ''md5'' False PARTIAL_MB s1 = (Inr pb, s2)"
    and "compute_local_checksum w lp ''md5'' False PARTIAL_MB 65536 s2 = (Inr pa, s3)"
    and "pa = pb" "pa \<noteq> None"
    and "compute_remote_checksum w rp ''md5'' True PARTIAL_MB s3 = (Inr fb, s4)"
    and "compute_local_checksum w lp ''md5'' True PARTIAL_MB 65536 s4 = (Inr fa, s5)"
  shows "smart_copy_remote_to_local (Suc d) w rp lp s =
           (if fa = fb then (Inr (), logged (''SKIP identical: '' @ rp @ '' -> '' @ lp) s5)
            else get_file w rp lp s5)"
    and "filter is_transfer (hist s5) = filter is_transfer (hist s)"
proof -
  from assms(8,9) obtain x where x: "pa = Some x" "pb = Some x" by auto
  with assms(6) have "x \<noteq> []" by (auto dest: compute_remote_checksum_nonempty)
  with x have t: "truthy_str pb" "truthy_str pa" by simp_all
  have "smart_copy_file_remote_to_local w rp lp (called (SftpStat rp) s) =
           (if fb = fa then (Inr (), logged (''SKIP identical: '' @ rp @ '' -> '' @ lp) s5)
            else get_file w rp lp s5)"
    using assms(3-7) t assms(8,10,11)
    by (intro r2l_full [where sz = "Some sz" and pa = pa and pb = pb and ?s1.0 = s1 and ?s2.0 = s2
          and ?s3.0 = s3 and ?s4.0 = s4])
       (simp_all add: large_size_def LARGE_FILE_MB_def)
  with assms(1,2) show "smart_copy_remote_to_local (Suc d) w rp lp s =
           (if fa = fb then (Inr (), logged (''SKIP identical: '' @ rp @ '' -> '' @ lp) s5)
            else get_file w rp lp s5)"
    by (simp add: smart_copy_remote_to_local_file eq_commute [of fa fb]
        del: smart_copy_remote_to_local.simps)
  have "filter is_transfer (hist s5) = filter is_transfer (hist s4)"
    using assms(11) by (rule no_transfer_compute_local_checksum)
  also have "\<dots> = filter is_transfer (hist s3)"
    using assms(10) by (rule no_transfer_compute_remote_checksum)
  also have "\<dots> = filter is_transfer (hist s2)"
    using assms(7) by (rule no_transfer_compute_local_checksum)
  also have "\<dots> = filter is_transfer (hist s1)"
    using assms(6) by (rule no_transfer_compute_remote_checksum)
  also have "\<dots> = filter is_transfer (hist (called (OsPathExists lp) (called (SftpStat rp) s)))"
    using assms(4) by (rule no_transfer_remote_file_size)
  also have "\<dots> = filter is_transfer (hist s)"
    by (simp add: called_def)
  finally show "filter is_transfer (hist s5) = filter is_transfer (hist s)" .
qed

section \<open>The queries, written out\<close>

lemma hist_called [simp]: "hist (called c s) = hist s @ [c]"
  by (simp add: called_def)

lemma hist_logged [simp]: "hist (logged c s) = hist s"
  by (simp add: logged_def)

lemma cmd_log_called [simp]: "cmd_log (called c s) = cmd_log s"
  by (simp add: called_def)

lemma cmd_log_logged [simp]: "cmd_log (logged c s) = log_append (cmd_log s) c"
  by (simp add: logged_def)

lemma hist_after [simp]:
  "hist (after_exists p s) = hist s @ [ExecCommand (exists_cmd p)]"
  "hist (after_remote_checksum p algo full pm s) =
     hist s @ [ExecCommand (exists_cmd p), ExecCommand (checksum_cmd p algo full pm)]"
  "hist (after_local_checksum p s) = hist s @ [OsPathIsfile p, OpenRead p]"
  "hist (after_size p s) = hist s @ [ExecCommand (size_cmd p)]"
  by (simp_all add: after_exists_def after_remote_checksum_def after_local_checksum_def after_size_def)

lemma cmd_log_after [simp]:
  "cmd_log (after_exists p s) = log_append (cmd_log s) (exists_cmd p)"
  "cmd_log (after_remote_checksum p algo full pm s) =
     log_append (log_append (cmd_log s) (exists_cmd p)) (checksum_cmd p algo full pm)"
  "cmd_log (after_local_checksum p s) = cmd_log s"
  "cmd_log (after_size p s) = log_append (cmd_log s) (size_cmd p)"
  by (simp_all add: after_exists_def after_remote_checksum_def after_local_checksum_def after_size_def)

lemma remote_file_exists_eval:
  "remote_file_exists w p s =
     (case exec_command w (hist s) (exists_cmd p) of
        Inl e \<Rightarrow> (Inl e, after_exists p s)
      | Inr r \<Rightarrow> (Inr (snd (snd r) = 0), after_exists p s))"
  by (simp add: remote_file_exists_def py_defs st_defs after_exists_def Let_def
      split: sum.splits prod.splits)

lemma compute_remote_checksum_eval:
  "compute_remote_checksum w p algo full pm s =
     (case exec_command w (hist s) (exists_cmd p) of
        Inl e \<Rightarrow> (Inl e, after_exists p s)
      | Inr r \<Rightarrow>
          if snd (snd r) \<noteq> 0 then (Inr None, after_exists p s)
          else
            (case exec_command w (hist (after_exists p s)) (checksum_cmd p algo full pm) of
               Inl e \<Rightarrow> (if is_Exception e then Inr None else Inl e,
                         after_remote_checksum p algo full pm s)
             | Inr r2 \<Rightarrow> (Inr (if snd (snd r2) \<noteq> 0 then None else first_token (fst r2)),
                          after_remote_checksum p algo full pm s)))"
  by (simp add: compute_remote_checksum_def remote_file_exists_eval py_defs Let_def
      after_remote_checksum_def st_defs first_token_def after_exists_def
      split: sum.splits prod.splits list.splits)

lemma compute_local_checksum_eval:
  "compute_local_checksum w p algo full pm cs s =
     (if \<not> os_path_isfile w (hist s) p then (Inr None, called (OsPathIsfile p) s)
      else
        (case hashlib_new w algo of
           None \<Rightarrow> (Inl (Exception (''unsupported hash type '' @ algo)), called (OsPathIsfile p) s)
         | Some digest \<Rightarrow>
             (case open_read w (hist s @ [OsPathIsfile p]) p of
                Inl e \<Rightarrow> (if is_OSError e then Inr None else Inl e, after_local_checksum p s)
              | Inr content \<Rightarrow>
                  (case digest (read_loop content cs
                                  (if full then None else Some (pm * 1024 * 1024)) 0 []) of
                     Inl e \<Rightarrow> if is_OSError e then Inr None else Inl e
                   | Inr hex \<Rightarrow> Inr (Some hex),
                   after_local_checksum p s))))"
  by (simp add: compute_local_checksum_def py_defs Let_def st_defs after_local_checksum_def
      split: sum.splits option.splits)

lemma remote_file_size_eval:
  "remote_file_size w p s =
     (case exec_command w (hist s) (size_cmd p) of
        Inl e \<Rightarrow> (if is_Exception e then Inr None else Inl e, after_size p s)
      | Inr r \<Rightarrow>
          (Inr (if snd (snd r) = 0 \<and> py_isdigit (py_strip (fst r))
                then Some (py_int (py_strip (fst r))) else None),
           after_size p s))"
  by (simp add: remote_file_size_def py_defs Let_def st_defs after_size_def
      split: sum.splits prod.splits)

lemma put_file_eval:
  "put_file w lp rp s =
     (case sftp_put w (hist s) lp rp of
        Inr u \<Rightarrow> (Inr (), called (SftpPut lp rp) (logged (''PUT '' @ lp @ '' -> '' @ rp) s))
      | Inl e \<Rightarrow>
          if is_Exception e
          then (Inr (), logged (''Fehler: '' @ str_exn e)
                          (called (SftpPut lp rp) (logged (''PUT '' @ lp @ '' -> '' @ rp) s)))
          else (Inl e, called (SftpPut lp rp) (logged (''PUT '' @ lp @ '' -> '' @ rp) s)))"
  by (simp add: put_file_def py_defs st_defs split: sum.splits)

lemma get_file_eval:
  "get_file w rp lp s =
     (case sftp_get w (hist s) rp lp of
        Inr u \<Rightarrow> (Inr (), called (SftpGet rp lp) (logged (''GET '' @ rp @ '' -> '' @ lp) s))
      | Inl e \<Rightarrow>
          if is_Exception e
          then (Inr (), logged (''Fehler: '' @ str_exn e)
                          (called (SftpGet rp lp) (logged (''GET '' @ rp @ '' -> '' @ lp) s)))
          else (Inl e, called (SftpGet rp lp) (logged (''GET '' @ rp @ '' -> '' @ lp) s)))"
  by (simp add: get_file_def py_defs st_defs split: sum.splits)

lemmas query_evals = remote_file_exists_eval compute_remote_checksum_eval compute_local_checksum_eval
  remote_file_size_eval put_file_eval get_file_eval

lemmas string_evals = first_token_def py_split.simps py_strip_def py_isspace_def py_isdigit_def
  is_digit_def py_int_def exists_cmd_def checksum_cmd_def size_cmd_def sum_cmd_of_def command_map_def
  str_nat_numeral digit_char_def Let_def

lemmas big_world_evals = big_world_def changed_world_def empty_world_def big_exec_def toy_hashlib_def
  toy_md5_def toy_sha512_def no_such_file_def initial_state_def PARTIAL_MB_def mode_is_dir_def
  read_loop_default_partial read_loop_full length_zeros take_zeros

lemmas more_world_evals = failing_disk_world_def io_error_def small_world_def small_exec_def

section \<open>The comparison loop and the listings\<close>

lemma compare_loop_partition:
  assumes "compare_loop w lp rp algo full xs (D, S) s = (Inr (D', S'), s')"
    and "distinct xs" and "set xs \<inter> (D \<union> S) = {}" and "D \<inter> S = {}"
  shows "D' \<inter> S' = {} \<and> D' \<union> S' = D \<union> S \<union> set xs"
  using assms
proof (induction xs arbitrary: D S s)
  case Nil
  then show ?case by (simp add: ret_def)
next
  case (Cons x xs)
  let ?lf = "compute_local_checksum w (os_path_join lp x) algo full PARTIAL_MB 65536"
  let ?rf = "compute_remote_checksum w (remote_join rp x) algo full PARTIAL_MB"
  obtain a s1 where l: "?lf s = (Inr a, s1)"
    using Cons.prems(1) by (cases "?lf s") (auto simp: bind_def Let_def split: sum.splits)
  obtain b s2 where r: "?rf s1 = (Inr b, s2)"
    using Cons.prems(1) l by (cases "?rf s1") (auto simp: bind_def Let_def split: sum.splits)
  let ?acc = "if a = None \<or> b = None then (insert x D, S)
              else if a = b then (D, insert x S) else (insert x D, S)"
  obtain D1 S1 where acc: "?acc = (D1, S1)" by (cases ?acc)
  have step: "compare_loop w lp rp algo full xs (D1, S1) s2 = (Inr (D', S'), s')"
    using Cons.prems(1) l r acc by (simp add: bind_def Let_def)
  have x: "x \<notin> D" "x \<notin> S" "x \<notin> set xs" using Cons.prems(2,3) by auto
  have inv: "set xs \<inter> (D1 \<union> S1) = {}" "D1 \<inter> S1 = {}" "D1 \<union> S1 = insert x (D \<union> S)"
    using acc Cons.prems(3,4) x by (auto split: if_splits)
  from Cons.IH [OF step _ inv(1,2)] Cons.prems(2) inv(3)
  show ?case by auto
qed

lemma set_file_names:
  "set (file_names entries) = {n. n \<noteq> ''..'' \<and> (n, False) \<in> set entries}"
  by (auto simp: file_names_def image_iff)

lemma list_local_dir_eval:
  "list_local_dir w p s =
     (case os_scandir w (hist s) p of
        Inl e \<Rightarrow> (if is_OSError e then Inr [] else Inl e, called (OsScandir p) s)
      | Inr es \<Rightarrow> (Inr (with_parent p (sort_entries es)), called (OsScandir p) s))"
  by (simp add: list_local_dir_def py_defs st_defs split: sum.splits)

lemma list_remote_dir_eval:
  "list_remote_dir w p s =
     (case sftp_listdir_attr w (hist s) p of
        Inl e \<Rightarrow> (if is_OSError e then Inr [] else Inl e, called (SftpListdirAttr p) s)
      | Inr attrs \<Rightarrow>
          (Inr (with_parent p (sort_entries (map (\<lambda>x. (fst x, mode_is_dir (snd x))) attrs))),
           called (SftpListdirAttr p) s))"
  by (simp add: list_remote_dir_def py_defs st_defs split: sum.splits)

lemma file_names_simps:
  "file_names [] = []"
  "file_names (x # xs) = (if \<not> snd x \<and> fst x \<noteq> ''..'' then fst x # file_names xs else file_names xs)"
  by (simp_all add: file_names_def)

lemma str_nat_small:
  "str_nat (Suc (Suc 0)) = ''2''" "str_nat (Suc (Suc (Suc 0))) = ''3''"
  by (simp_all add: str_nat.simps [of "Suc n" for n] digit_char_def)

lemmas listing_evals = list_local_dir_eval list_remote_dir_eval with_parent_def sort_entries_def
  py_lower_def lower_char_def upper_letters_def lower_letters_def less_eq_prod_def less_prod_def mode_is_dir_def file_names_simps
  str_nat_small

lemmas dir_world_evals = dir_world_def dir_exec_def empty_world_def toy_hashlib_def toy_md5_def
  no_such_file_def initial_state_def PARTIAL_MB_def read_loop_default_partial read_loop_full
  os_path_join_def remote_join_def rstrip_slash_def order_of_def

section \<open>Recursive removal\<close>

lemma remove_never_raises:
  "fst (remove_remote_dir_recursive (Suc d) w path s) = Inr ()"
  by (simp add: try_except_def ret_def split: prod.splits sum.splits)

lemma remove_loop_directory:
  assumes "mode_is_dir (snd x)"
  shows "for_each (x # xs) (remove_item (remove_remote_dir_recursive (Suc d) w) w path) s
         = for_each xs (remove_item (remove_remote_dir_recursive (Suc d) w) w path)
             (snd (remove_remote_dir_recursive (Suc d) w (remote_join path (fst x)) s))"
proof -
  obtain r s1 where rs: "remove_remote_dir_recursive (Suc d) w (remote_join path (fst x)) s = (r, s1)"
    by (cases "remove_remote_dir_recursive (Suc d) w (remote_join path (fst x)) s")
  with remove_never_raises [of d w "remote_join path (fst x)" s] have "r = Inr ()" by simp
  with rs assms show ?thesis
    by (simp add: remove_item_def bind_def Let_def del: remove_remote_dir_recursive.simps)
qed

lemma remove_loop_file_failure:
  assumes "\<not> mode_is_dir (snd x)" and "sftp_remove w (hist s) (remote_join path (fst x)) = Inl e"
  shows "for_each (x # xs) (remove_item recurse w path) s
         = (Inl e, called (SftpRemove (remote_join path (fst x))) s)"
  using assms by (simp add: remove_item_def bind_def ext_def Let_def called_def)

lemma remove_first_file_failure:
  assumes "sftp_listdir_attr w (hist s) path = Inr (x # xs)"
    and "\<not> mode_is_dir (snd x)"
    and "sftp_remove w (hist s @ [SftpListdirAttr path]) (remote_join path (fst x)) = Inl e"
  shows "remove_remote_dir_recursive (Suc d) w path s
         = (Inr (), called (SftpRemove (remote_join path (fst x))) (called (SftpListdirAttr path) s))"
proof -
  let ?s1 = "called (SftpListdirAttr path) s"
  have "for_each (x # xs) (remove_item (remove_remote_dir_recursive d w) w path) ?s1
        = (Inl e, called (SftpRemove (remote_join path (fst x))) ?s1)"
    using assms(2,3) by (intro remove_loop_file_failure) simp_all
  with assms(1) show ?thesis
    by (simp add: try_except_def bind_def ext_def ret_def called_def del: for_each.simps)
qed

lemmas stuck_world_evals = stuck_world_def permission_denied_def empty_world_def no_such_file_def
  initial_state_def mode_is_dir_def remote_join_def rstrip_slash_def

lemma remove_item_eval:
  "remove_item recurse w path item =
     (if mode_is_dir (snd item) then recurse (remote_join path (fst item))
      else ext (SftpRemove (remote_join path (fst item)))
             (\<lambda>h. sftp_remove w h (remote_join path (fst item))))"
  by (simp add: remove_item_def Let_def)

section \<open>A copy makes no removal\<close>

lemma adds_only_put_file: "P (SftpPut lp rp) \<Longrightarrow> adds_only P (put_file w lp rp)"
  unfolding put_file_def by auto

lemma adds_only_get_file: "P (SftpGet rp lp) \<Longrightarrow> adds_only P (get_file w rp lp)"
  unfolding get_file_def by auto

lemma adds_only_file_l2r:
  assumes "P (OsPathGetsize lp)" "\<And>c. P (ExecCommand c)" "P (OsPathIsfile lp)" "P (OpenRead lp)"
    "P (SftpPut lp rp)"
  shows "adds_only P (smart_copy_file_local_to_remote w lp rp)"
  unfolding smart_copy_file_local_to_remote_def
  by (intro adds_only_bind adds_only_if adds_only_ext adds_only_ret adds_only_log_command
      adds_only_remote_file_exists adds_only_compute_local_checksum
      adds_only_compute_remote_checksum adds_only_put_file assms)

lemma adds_only_file_r2l:
  assumes "P (OsPathExists lp)" "\<And>c. P (ExecCommand c)" "P (OsPathIsfile lp)" "P (OpenRead lp)"
    "P (SftpGet rp lp)"
  shows "adds_only P (smart_copy_file_remote_to_local w rp lp)"
  unfolding smart_copy_file_remote_to_local_def
  by (intro adds_only_bind adds_only_if adds_only_ext_pure adds_only_ret adds_only_log_command
      adds_only_remote_file_size adds_only_compute_local_checksum
      adds_only_compute_remote_checksum adds_only_get_file assms)



section \<open>Moves\<close>






section \<open>Running the walks on the example directories\<close>

lemmas dir_world_sel =
  arg_cong [where f = os_path_isfile, OF dir_world_def, unfolded empty_world_def, simplified]
  arg_cong [where f = os_path_isdir, OF dir_world_def, unfolded empty_world_def, simplified]
  arg_cong [where f = os_path_exists, OF dir_world_def, unfolded empty_world_def, simplified]
  arg_cong [where f = os_path_getsize, OF dir_world_def, unfolded empty_world_def, simplified]
  arg_cong [where f = os_scandir, OF dir_world_def, unfolded empty_world_def, simplified]
  arg_cong [where f = open_read, OF dir_world_def, unfolded empty_world_def, simplified]
  arg_cong [where f = os_mkdir, OF dir_world_def, unfolded empty_world_def, simplified]
  arg_cong [where f = os_remove, OF dir_world_def, unfolded empty_world_def, simplified]
  arg_cong [where f = shutil_rmtree, OF dir_world_def, unfolded empty_world_def, simplified]
  arg_cong [where f = hashlib_new, OF dir_world_def, unfolded empty_world_def, simplified]
  arg_cong [where f = exec_command, OF dir_world_def, unfolded empty_world_def, simplified]
  arg_cong [where f = sftp_stat, OF dir_world_def, unfolded empty_world_def, simplified]
  arg_cong [where f = sftp_listdir_attr, OF dir_world_def, unfolded empty_world_def, simplified]
  arg_cong [where f = sftp_mkdir, OF dir_world_def, unfolded empty_world_def, simplified]
  arg_cong [where f = sftp_put, OF dir_world_def, unfolded empty_world_def, simplified]
  arg_cong [where f = sftp_get, OF dir_world_def, unfolded empty_world_def, simplified]
  arg_cong [where f = sftp_remove, OF dir_world_def, unfolded empty_world_def, simplified]
  arg_cong [where f = sftp_rmdir, OF dir_world_def, unfolded empty_world_def, simplified]

lemmas broken_world_sel =
  arg_cong [where f = os_path_isfile, OF broken_world_def, simplified]
  arg_cong [where f = os_path_isdir, OF broken_world_def, simplified]
  arg_cong [where f = os_path_exists, OF broken_world_def, simplified]
  arg_cong [where f = os_path_getsize, OF broken_world_def, simplified]
  arg_cong [where f = os_scandir, OF broken_world_def, simplified]
  arg_cong [where f = open_read, OF broken_world_def, simplified]
  arg_cong [where f = os_mkdir, OF broken_world_def, simplified]
  arg_cong [where f = os_remove, OF broken_world_def, simplified]
  arg_cong [where f = shutil_rmtree, OF broken_world_def, simplified]
  arg_cong [where f = hashlib_new, OF broken_world_def, simplified]
  arg_cong [where f = exec_command, OF broken_world_def, simplified]
  arg_cong [where f = sftp_stat, OF broken_world_def, simplified]
  arg_cong [where f = sftp_listdir_attr, OF broken_world_def, simplified]
  arg_cong [where f = sftp_mkdir, OF broken_world_def, simplified]
  arg_cong [where f = sftp_put, OF broken_world_def, simplified]
  arg_cong [where f = sftp_get, OF broken_world_def, simplified]
  arg_cong [where f = sftp_remove, OF broken_world_def, simplified]
  arg_cong [where f = sftp_rmdir, OF broken_world_def, simplified]

lemmas applied_evals =
  smart_copy_local_to_remote.simps [THEN fun_cong]
  smart_copy_remote_to_local.simps [THEN fun_cong]
  remove_remote_dir_recursive.simps [THEN fun_cong]
  smart_copy_file_local_to_remote_def [THEN fun_cong]
  smart_copy_file_remote_to_local_def [THEN fun_cong]
  move_file_local_to_remote_def [THEN fun_cong]
  move_file_remote_to_local_def [THEN fun_cong]
  remove_item_def [THEN fun_cong]
  for_each.simps [THEN fun_cong]

lemmas walk_evals = applied_evals py_defs large_size_def LARGE_FILE_MB_def

lemmas dir_evals = dir_world_sel broken_world_sel dir_exec_def toy_hashlib_def toy_md5_def no_such_file_def
  initial_state_def PARTIAL_MB_def read_loop_default_partial read_loop_full os_path_join_def
  remote_join_def rstrip_slash_def str_nat_small mode_is_dir_def


section \<open>Statements that survive a failed transfer\<close>

lemma transfer_failure_is_transfer: "transfer_failure w h c = Some e \<Longrightarrow> is_transfer c"
  by (cases c) simp_all

lemma adds_only_mono: "adds_only P m \<Longrightarrow> (\<And>c. P c \<Longrightarrow> Q c) \<Longrightarrow> adds_only Q m"
  unfolding adds_only_def by (metis (mono_tags, lifting) list_all_iff)

lemma appends_adds_only: "adds_only P m \<Longrightarrow> appends m"
  unfolding adds_only_def appends_def by blast

lemma appendsD: "appends m \<Longrightarrow> m s = (r, s') \<Longrightarrow> \<exists>cs. hist s' = hist s @ cs"
  unfolding appends_def by (metis snd_conv)

lemma survives_ret [simp]: "survives_failures w (ret x)"
  by (simp add: survives_failures_def ret_def)

lemma survives_raise [simp]: "survives_failures w (raise e)"
  by (simp add: survives_failures_def raise_def)

lemma survives_log_command [simp]: "survives_failures w (log_command c)"
  by (simp add: survives_failures_def log_command_def)

lemma survives_put_file: "survives_failures w (put_file w lp rp)"
  unfolding survives_failures_def
  by (auto simp: put_file_eval log_append_last split: sum.splits if_splits)

lemma survives_get_file: "survives_failures w (get_file w rp lp)"
  unfolding survives_failures_def
  by (auto simp: get_file_eval log_append_last split: sum.splits if_splits)

lemma survives_bind:
  assumes m: "adds_only (\<lambda>c. \<not> is_transfer c) m"
    and f: "\<And>x. survives_failures w (f x)" and fa: "\<And>x. appends (f x)"
  shows "survives_failures w (bind m f)"
  unfolding survives_failures_def
proof (intro allI impI, elim conjE)
  fix s res s' cs c e
  assume run: "bind m f s = (res, s')" and h: "hist s' = hist s @ cs @ [c]"
    and fail: "transfer_failure w (hist s @ cs) c = Some e"
  obtain r1 s1 where ms: "m s = (r1, s1)" by (cases "m s")
  from adds_onlyD [OF m, of s] ms obtain cs1 where
    cs1: "hist s1 = hist s @ cs1" "list_all (\<lambda>c. \<not> is_transfer c) cs1" by auto
  have tr: "is_transfer c" using fail by (rule transfer_failure_is_transfer)
  show "res = Inr () \<and> cmd_log s' \<noteq> [] \<and> last (cmd_log s') = ''Fehler: '' @ str_exn e"
  proof (cases r1)
    case (Inl e1)
    with run ms have "s' = s1" by (simp add: bind_def)
    with h cs1 have "cs1 = cs @ [c]" by simp
    with cs1(2) tr show ?thesis by simp
  next
    case (Inr x)
    with run ms have fx: "f x s1 = (res, s')" by (simp add: bind_def)
    from appendsD [OF fa fx] obtain cs2 where cs2: "hist s' = hist s1 @ cs2" by auto
    show ?thesis
    proof (cases "cs2 = []")
      case True
      with cs2 h cs1 have "cs1 = cs @ [c]" by simp
      with cs1(2) tr show ?thesis by simp
    next
      case False
      then obtain cs3 c3 where c3: "cs2 = cs3 @ [c3]" by (metis rev_exhaust)
      with cs2 h cs1 have eq: "cs = cs1 @ cs3" "c3 = c" by simp_all
      from f [of x] fx cs2 c3 eq fail cs1(1) show ?thesis
        unfolding survives_failures_def by (metis append.assoc)
    qed
  qed
qed

lemma survives_if:
  "(b \<Longrightarrow> survives_failures w m) \<Longrightarrow> (\<not> b \<Longrightarrow> survives_failures w n) \<Longrightarrow>
   survives_failures w (if b then m else n)"
  by simp

lemma survives_try_ret:
  assumes "survives_failures w m"
  shows "survives_failures w (try_except m cls (\<lambda>e. ret ()))"
  unfolding survives_failures_def
proof (intro allI impI, elim conjE)
  fix s res s' cs c e
  assume run: "try_except m cls (\<lambda>e. ret ()) s = (res, s')" and h: "hist s' = hist s @ cs @ [c]"
    and fail: "transfer_failure w (hist s @ cs) c = Some e"
  obtain r1 s1 where ms: "m s = (r1, s1)" by (cases "m s")
  with run have s1: "s' = s1" by (auto simp: try_except_def ret_def split: sum.splits if_splits)
  from assms ms h fail s1 have r1: "r1 = Inr ()" "cmd_log s' \<noteq> []"
    "last (cmd_log s') = ''Fehler: '' @ str_exn e"
    unfolding survives_failures_def by blast+
  with run ms show "res = Inr () \<and> cmd_log s' \<noteq> [] \<and> last (cmd_log s') = ''Fehler: '' @ str_exn e"
    by (simp add: try_except_def)
qed

lemma appends_for_each: "(\<And>x. appends (body x)) \<Longrightarrow> appends (for_each xs body)"
proof -
  assume "\<And>x. appends (body x)"
  then have "\<And>x. adds_only (\<lambda>c. True) (body x)"
    by (simp add: appends_def adds_only_def list_all_iff)
  then have "adds_only (\<lambda>c. True) (for_each xs body)" by (rule adds_only_for_each)
  then show ?thesis by (rule appends_adds_only)
qed

lemma survives_for_each:
  assumes w: "\<And>x. survives_failures w (body x)" and a: "\<And>x. appends (body x)"
    and c: "\<And>x. always_calls (body x)"
  shows "survives_failures w (for_each xs body)"
proof (induction xs)
  case Nil
  show ?case by simp
next
  case (Cons x xs)
  show ?case
    unfolding survives_failures_def
  proof (intro allI impI, elim conjE)
    fix s res s' cs c e
    assume run: "for_each (x # xs) body s = (res, s')" and h: "hist s' = hist s @ cs @ [c]"
      and fail: "transfer_failure w (hist s @ cs) c = Some e"
    obtain r1 s1 where bs: "body x s = (r1, s1)" by (cases "body x s")
    from appendsD [OF a bs] obtain cs1 where cs1: "hist s1 = hist s @ cs1" by auto
    show "res = Inr () \<and> cmd_log s' \<noteq> [] \<and> last (cmd_log s') = ''Fehler: '' @ str_exn e"
    proof (cases r1)
      case (Inl e1)
      with run bs have "s' = s1" "res = Inl e1" by (simp_all add: bind_def)
      with w [of x] bs h fail Inl show ?thesis
        unfolding survives_failures_def by blast
    next
      case (Inr u)
      with run bs have rest: "for_each xs body s1 = (res, s')" by (simp add: bind_def)
      from appendsD [OF appends_for_each rest] a obtain cs2 where cs2: "hist s' = hist s1 @ cs2"
        by blast
      show ?thesis
      proof (cases "cs2 = []")
        case True
        have "xs = []"
        proof (rule ccontr)
          assume "xs \<noteq> []"
          then obtain y ys where xs: "xs = y # ys" by (cases xs) auto
          obtain r2 s2 where by2: "body y s1 = (r2, s2)" by (cases "body y s1")
          from c [of y] by2 have ne: "hist s2 \<noteq> hist s1"
            unfolding always_calls_def by (metis snd_conv)
          from appendsD [OF a by2] obtain d1 where d1: "hist s2 = hist s1 @ d1" by auto
          have "\<exists>d2. hist s' = hist s2 @ d2"
          proof (cases r2)
            case (Inl e2)
            with rest xs by2 show ?thesis by (simp add: bind_def)
          next
            case (Inr u2)
            with rest xs by2 have "for_each ys body s2 = (res, s')" by (simp add: bind_def)
            from appendsD [OF appends_for_each this] a show ?thesis by blast
          qed
          with d1 cs2 True ne show False by auto
        qed
        with rest have "res = Inr ()" "s' = s1" by (simp_all add: ret_def)
        with w [of x] bs h fail Inr show ?thesis
          unfolding survives_failures_def by (metis old.unit.exhaust)
      next
        case False
        then obtain cs3 c3 where c3: "cs2 = cs3 @ [c3]" by (metis rev_exhaust)
        with cs2 h cs1 have eq: "cs = cs1 @ cs3" "c3 = c" by simp_all
        from Cons.IH rest cs2 c3 eq fail cs1 show ?thesis
          unfolding survives_failures_def by (metis append.assoc)
      qed
    qed
  qed
qed

section \<open>The diagnostic log keeps the last five entries\<close>

lemma last_n_rev: "last_n n xs = rev (take n (rev xs))"
  by (simp add: last_n_def take_rev)

lemma last_n_append: "last_n n (last_n n xs @ ys) = last_n n (xs @ ys)"
  by (simp add: last_n_rev min_def)

lemma log_append_last_n:
  assumes "length l \<le> CMD_LOG_MAX"
  shows "log_append l cmd = last_n CMD_LOG_MAX (l @ [cmd])"
proof (cases "length l = CMD_LOG_MAX")
  case True
  then have "length (l @ [cmd]) - CMD_LOG_MAX = Suc 0" by simp
  then have "last_n CMD_LOG_MAX (l @ [cmd]) = tl (l @ [cmd])"
    using True unfolding last_n_def by (cases l) (simp_all add: drop_Suc CMD_LOG_MAX_def)
  with True show ?thesis by (simp add: log_append_def)
next
  case False
  with assms have "length (l @ [cmd]) - CMD_LOG_MAX = 0" by simp
  then have "last_n CMD_LOG_MAX (l @ [cmd]) = l @ [cmd]"
    unfolding last_n_def by simp
  with False assms show ?thesis by (simp add: log_append_def)
qed

lemma last_n_length: "length (last_n n xs) \<le> n"
  by (simp add: last_n_def)

lemma log_commands_Nil: "log_commands [] s = (Inr (), s)"
  by (simp add: log_commands_def ret_def)

lemma log_commands_Cons:
  "log_commands (c # cs) s = log_commands cs (s\<lparr>cmd_log := log_append (cmd_log s) c\<rparr>)"
  by (simp add: log_commands_def bind_def log_command_def)

lemma log_commands_result:
  "length (cmd_log s) \<le> CMD_LOG_MAX \<Longrightarrow>
   log_commands cmds s = (Inr (), s\<lparr>cmd_log := last_n CMD_LOG_MAX (cmd_log s @ cmds)\<rparr>)"
proof (induction cmds arbitrary: s)
  case Nil
  then show ?case by (simp add: log_commands_Nil last_n_def)
next
  case (Cons c cs)
  let ?s1 = "s\<lparr>cmd_log := log_append (cmd_log s) c\<rparr>"
  have eq: "cmd_log ?s1 = last_n CMD_LOG_MAX (cmd_log s @ [c])"
    using Cons.prems by (simp add: log_append_last_n)
  have len: "length (cmd_log ?s1) \<le> CMD_LOG_MAX"
    unfolding eq by (rule last_n_length)
  have "last_n CMD_LOG_MAX (cmd_log ?s1 @ cs) = last_n CMD_LOG_MAX (cmd_log s @ c # cs)"
    unfolding eq last_n_append by simp
  then show ?case
    using Cons.IH [OF len] by (simp add: log_commands_Cons)
qed

text \<open>
  Claim C8. The log is a first-in-first-out buffer of capacity 5. From any log of at most
  five entries (the program starts with the empty one, and every append keeps the bound),
  any sequence of appends leaves at most five entries; a sequence of more than five
  appends leaves exactly its last five, in the order in which they were appended.
\<close>

theorem log_keeps_last_five:
  "length (cmd_log s) \<le> CMD_LOG_MAX \<Longrightarrow>
     fst (log_commands cmds s) = Inr () \<and>
     length (cmd_log (snd (log_commands cmds s))) \<le> 5 \<and>
     (length cmds > 5 \<longrightarrow> cmd_log (snd (log_commands cmds s)) = drop (length cmds - 5) cmds)"
  by (auto simp: log_commands_result CMD_LOG_MAX_def last_n_def)

theorem log_keeps_last_five_witness:
  "cmd_log (snd (log_commands [''a'', ''b'', ''c'', ''d'', ''e'', ''f'', ''g'']
                   \<lparr>cmd_log = [''x'', ''y''], hist = []\<rparr>))
     = [''c'', ''d'', ''e'', ''f'', ''g'']"
  using log_keeps_last_five [of "\<lparr>cmd_log = [''x'', ''y''], hist = []\<rparr>"
      "[''a'', ''b'', ''c'', ''d'', ''e'', ''f'', ''g'']"]
  by (simp add: CMD_LOG_MAX_def)

section \<open>Checksums under an algorithm name the remote side does not know\<close>

text \<open>
  Claim C10 says that for every algorithm name outside md5, sha1 and sha256 the local
  checksum is that algorithm's digest, so that the two sides are compared under two
  different algorithms. The remote half holds, the local half does not hold for every
  such name. The name MD5 is outside the three, hashlib takes it for md5, and the two
  sides then compute the same algorithm: the local and the remote checksum of the two
  equal files of the example are equal. The name foo is outside the three and hashlib
  rejects it: the local call computes no digest, it raises the ValueError of
  \<open>hashlib.new\<close>. The name shake_128 is outside the three and hashlib knows it, but
  its \<open>hexdigest()\<close> wants a length: the local call reads the file and raises the
  TypeError.
\<close>

theorem unknown_algorithm_counterexample:
  "''MD5'' \<notin> {''md5'', ''sha1'', ''sha256''}
   \<and> hashlib_new big_world ''MD5'' = hashlib_new big_world ''md5''
   \<and> fst (compute_local_checksum big_world ''/src/big.bin'' ''MD5'' True PARTIAL_MB 65536 initial_state)
       = Inr (Some ''m11000000'')
   \<and> fst (compute_remote_checksum big_world ''/dst/big.bin'' ''MD5'' True PARTIAL_MB initial_state)
       = Inr (Some ''m11000000'')
   \<and> ''foo'' \<notin> {''md5'', ''sha1'', ''sha256''}
   \<and> hashlib_new big_world ''foo'' = None
   \<and> compute_local_checksum big_world ''/src/big.bin'' ''foo'' True PARTIAL_MB 65536 initial_state
       = (Inl (Exception ''unsupported hash type foo''),
          called (OsPathIsfile ''/src/big.bin'') initial_state)
   \<and> ''shake_128'' \<notin> {''md5'', ''sha1'', ''sha256''}
   \<and> compute_local_checksum big_world ''/src/big.bin'' ''shake_128'' True PARTIAL_MB 65536 initial_state
       = (Inl hexdigest_needs_length, after_local_checksum ''/src/big.bin'' initial_state)"
  by (simp add: query_evals string_evals big_world_evals hexdigest_needs_length_def)

text \<open>
  Claim C10 as amended. For every algorithm name outside md5, sha1 and sha256 the
  remote side runs md5sum: the digest program is md5sum, the command is the md5sum
  command on the path in full mode and the dd pipe into md5sum in partial mode, the
  call equals the call under the name md5 in result and state, and for an existing
  remote file it is this md5sum command that is logged last and run last. The local side
  asks hashlib for the name. For a path that is no file it returns None without asking.
  For a file and a name hashlib rejects it raises the ValueError. For a file that can
  be read and a name hashlib accepts it returns what \<open>hexdigest()\<close> gives, over the whole
  content in full mode and over its first 5 MB in partial mode, and raises what
  \<open>hexdigest()\<close> raises (unless that is an OSError, which gives None). So a comparison
  of the two sides under such a name compares the remote md5 digest with the digest of
  the algorithm hashlib takes the name for: where that is md5 itself, the local call
  equals the local call under the name md5.
\<close>

theorem unknown_algorithm_md5sum_against_hashlib:
  "algo \<notin> {''md5'', ''sha1'', ''sha256''} \<Longrightarrow>
     sum_cmd_of algo = ''md5sum''
     \<and> checksum_cmd remote_path algo True partial_mb
         = ''md5sum '' @ [CHR 0x27] @ remote_path @ [CHR 0x27]
     \<and> checksum_cmd remote_path algo False partial_mb
         = ''dd if='' @ [CHR 0x27] @ remote_path @ [CHR 0x27] @ '' bs=1M count=''
           @ str_nat partial_mb @ '' 2>/dev/null | md5sum''
     \<and> compute_remote_checksum w remote_path algo full partial_mb s
         = compute_remote_checksum w remote_path ''md5'' full partial_mb s
     \<and> (exec_command w (hist s) (exists_cmd remote_path) = Inr (out, err, 0) \<longrightarrow>
          hist (snd (compute_remote_checksum w remote_path algo True partial_mb s))
            = hist s @ [ExecCommand (exists_cmd remote_path),
                        ExecCommand (''md5sum '' @ [CHR 0x27] @ remote_path @ [CHR 0x27])]
          \<and> last (cmd_log (snd (compute_remote_checksum w remote_path algo True partial_mb s)))
            = ''md5sum '' @ [CHR 0x27] @ remote_path @ [CHR 0x27]
          \<and> hist (snd (compute_remote_checksum w remote_path algo False partial_mb s))
            = hist s @ [ExecCommand (exists_cmd remote_path),
                        ExecCommand (''dd if='' @ [CHR 0x27] @ remote_path @ [CHR 0x27]
                          @ '' bs=1M count='' @ str_nat partial_mb @ '' 2>/dev/null | md5sum'')]
          \<and> last (cmd_log (snd (compute_remote_checksum w remote_path algo False partial_mb s)))
            = ''dd if='' @ [CHR 0x27] @ remote_path @ [CHR 0x27] @ '' bs=1M count=''
              @ str_nat partial_mb @ '' 2>/dev/null | md5sum'')
     \<and> (\<not> os_path_isfile w (hist s) path \<longrightarrow>
          fst (compute_local_checksum w path algo full PARTIAL_MB 65536 s) = Inr None)
     \<and> (os_path_isfile w (hist s) path \<and> hashlib_new w algo = None \<longrightarrow>
          fst (compute_local_checksum w path algo full PARTIAL_MB 65536 s)
            = Inl (Exception (''unsupported hash type '' @ algo)))
     \<and> (os_path_isfile w (hist s) path \<and> hashlib_new w algo = Some digest
          \<and> open_read w (hist s @ [OsPathIsfile path]) path = Inr content \<longrightarrow>
          fst (compute_local_checksum w path algo True PARTIAL_MB 65536 s)
            = (case digest content of
                 Inr hex \<Rightarrow> Inr (Some hex)
               | Inl e \<Rightarrow> if is_OSError e then Inr None else Inl e)
          \<and> fst (compute_local_checksum w path algo False PARTIAL_MB 65536 s)
            = (case digest (take 5242880 content) of
                 Inr hex \<Rightarrow> Inr (Some hex)
               | Inl e \<Rightarrow> if is_OSError e then Inr None else Inl e))
     \<and> (hashlib_new w algo = hashlib_new w ''md5'' \<and> hashlib_new w ''md5'' \<noteq> None \<longrightarrow>
          compute_local_checksum w path algo full PARTIAL_MB 65536 s
            = compute_local_checksum w path ''md5'' full PARTIAL_MB 65536 s)"
proof (intro conjI impI)
  assume unknown: "algo \<notin> {''md5'', ''sha1'', ''sha256''}"
  then show md5sum: "sum_cmd_of algo = ''md5sum''"
    by (simp add: sum_cmd_of_def command_map_def)
  show full_cmd: "checksum_cmd remote_path algo True partial_mb
         = ''md5sum '' @ [CHR 0x27] @ remote_path @ [CHR 0x27]"
    by (simp add: checksum_cmd_def md5sum)
  show partial_cmd: "checksum_cmd remote_path algo False partial_mb
         = ''dd if='' @ [CHR 0x27] @ remote_path @ [CHR 0x27] @ '' bs=1M count=''
           @ str_nat partial_mb @ '' 2>/dev/null | md5sum''"
    by (simp add: checksum_cmd_def md5sum)
  show "compute_remote_checksum w remote_path algo full partial_mb s
       = compute_remote_checksum w remote_path ''md5'' full partial_mb s"
    unfolding compute_remote_checksum_def checksum_cmd_fallback [OF unknown] ..
  {
    assume ex: "exec_command w (hist s) (exists_cmd remote_path) = Inr (out, err, 0)"
    have st: "snd (compute_remote_checksum w remote_path algo fl partial_mb s)
                = after_remote_checksum remote_path algo fl partial_mb s" for fl
      using ex by (simp add: compute_remote_checksum_eval split: sum.splits)
    show "hist (snd (compute_remote_checksum w remote_path algo True partial_mb s))
            = hist s @ [ExecCommand (exists_cmd remote_path),
                        ExecCommand (''md5sum '' @ [CHR 0x27] @ remote_path @ [CHR 0x27])]"
      unfolding st by (simp add: full_cmd)
    show "last (cmd_log (snd (compute_remote_checksum w remote_path algo True partial_mb s)))
            = ''md5sum '' @ [CHR 0x27] @ remote_path @ [CHR 0x27]"
      unfolding st by (simp add: full_cmd log_append_last)
    show "hist (snd (compute_remote_checksum w remote_path algo False partial_mb s))
            = hist s @ [ExecCommand (exists_cmd remote_path),
                        ExecCommand (''dd if='' @ [CHR 0x27] @ remote_path @ [CHR 0x27]
                          @ '' bs=1M count='' @ str_nat partial_mb @ '' 2>/dev/null | md5sum'')]"
      unfolding st by (simp add: partial_cmd)
    show "last (cmd_log (snd (compute_remote_checksum w remote_path algo False partial_mb s)))
            = ''dd if='' @ [CHR 0x27] @ remote_path @ [CHR 0x27] @ '' bs=1M count=''
              @ str_nat partial_mb @ '' 2>/dev/null | md5sum''"
      unfolding st by (simp add: partial_cmd log_append_last)
  }
  {
    assume "\<not> os_path_isfile w (hist s) path"
    then show "fst (compute_local_checksum w path algo full PARTIAL_MB 65536 s) = Inr None"
      by (simp add: compute_local_checksum_eval)
  }
  {
    assume "os_path_isfile w (hist s) path \<and> hashlib_new w algo = None"
    then show "fst (compute_local_checksum w path algo full PARTIAL_MB 65536 s)
            = Inl (Exception (''unsupported hash type '' @ algo))"
      by (simp add: compute_local_checksum_eval)
  }
  {
    assume a: "os_path_isfile w (hist s) path \<and> hashlib_new w algo = Some digest
          \<and> open_read w (hist s @ [OsPathIsfile path]) path = Inr content"
    then show "fst (compute_local_checksum w path algo True PARTIAL_MB 65536 s)
            = (case digest content of
                 Inr hex \<Rightarrow> Inr (Some hex)
               | Inl e \<Rightarrow> if is_OSError e then Inr None else Inl e)"
      by (simp add: compute_local_checksum_success read_loop_full split: sum.splits)
    from a show "fst (compute_local_checksum w path algo False PARTIAL_MB 65536 s)
            = (case digest (take 5242880 content) of
                 Inr hex \<Rightarrow> Inr (Some hex)
               | Inl e \<Rightarrow> if is_OSError e then Inr None else Inl e)"
      by (simp add: compute_local_checksum_success read_loop_default_partial PARTIAL_MB_def
          split: sum.splits)
  }
  {
    assume "hashlib_new w algo = hashlib_new w ''md5'' \<and> hashlib_new w ''md5'' \<noteq> None"
    then show "compute_local_checksum w path algo full PARTIAL_MB 65536 s
            = compute_local_checksum w path ''md5'' full PARTIAL_MB 65536 s"
      by (auto simp: compute_local_checksum_eval)
  }
qed

theorem unknown_algorithm_md5sum_against_hashlib_witness:
  "''sha512'' \<notin> {''md5'', ''sha1'', ''sha256''}
   \<and> sum_cmd_of ''sha512'' = ''md5sum''
   \<and> fst (compute_remote_checksum big_world ''/dst/big.bin'' ''sha512'' False PARTIAL_MB initial_state)
       = Inr (Some ''m5242880'')
   \<and> hist (snd (compute_remote_checksum big_world ''/dst/big.bin'' ''sha512'' True PARTIAL_MB
                  initial_state))
       = [ExecCommand (exists_cmd ''/dst/big.bin''),
          ExecCommand (''md5sum '' @ [CHR 0x27] @ ''/dst/big.bin'' @ [CHR 0x27])]
   \<and> fst (compute_local_checksum big_world ''/src/big.bin'' ''sha512'' False PARTIAL_MB 65536 initial_state)
       = Inr (Some ''s5242880'')
   \<and> fst (compute_local_checksum big_world ''/src/big.bin'' ''sha512'' True PARTIAL_MB 65536 initial_state)
       = Inr (Some ''s11000000'')
   \<and> fst (compute_local_checksum big_world ''/src/big.bin'' ''shake_128'' True PARTIAL_MB 65536 initial_state)
       = Inl hexdigest_needs_length
   \<and> fst (compute_local_checksum big_world ''/src/big.bin'' ''foo'' True PARTIAL_MB 65536 initial_state)
       = Inl (Exception ''unsupported hash type foo'')
   \<and> fst (compute_local_checksum big_world ''/src/none'' ''foo'' True PARTIAL_MB 65536 initial_state)
       = Inr None
   \<and> compute_local_checksum big_world ''/src/big.bin'' ''MD5'' True PARTIAL_MB 65536 initial_state
       = compute_local_checksum big_world ''/src/big.bin'' ''md5'' True PARTIAL_MB 65536 initial_state"
proof -
  note sha512 = unknown_algorithm_md5sum_against_hashlib [where algo = "''sha512''"
      and w = big_world and remote_path = "''/dst/big.bin''" and partial_mb = PARTIAL_MB
      and s = initial_state and path = "''/src/big.bin''" and out = "[]" and err = "[]"
      and digest = "\<lambda>bs. Inr (toy_sha512 bs)" and content = "zeros 11000000" and full = False]
  note shake = unknown_algorithm_md5sum_against_hashlib [where algo = "''shake_128''"
      and w = big_world and remote_path = "''/dst/big.bin''" and partial_mb = PARTIAL_MB
      and s = initial_state and path = "''/src/big.bin''" and out = "[]" and err = "[]"
      and digest = "\<lambda>bs. Inl hexdigest_needs_length" and content = "zeros 11000000"
      and full = True]
  note foo = unknown_algorithm_md5sum_against_hashlib [where algo = "''foo''"
      and w = big_world and remote_path = "''/dst/big.bin''" and partial_mb = PARTIAL_MB
      and s = initial_state and path = "''/src/big.bin''" and full = True]
  note nofile = unknown_algorithm_md5sum_against_hashlib [where algo = "''foo''"
      and w = big_world and remote_path = "''/dst/big.bin''" and partial_mb = PARTIAL_MB
      and s = initial_state and path = "''/src/none''" and full = True]
  note upper = unknown_algorithm_md5sum_against_hashlib [where algo = "''MD5''"
      and w = big_world and remote_path = "''/dst/big.bin''" and partial_mb = PARTIAL_MB
      and s = initial_state and path = "''/src/big.bin''" and full = True]
  have remote: "fst (compute_remote_checksum big_world ''/dst/big.bin'' ''md5'' False PARTIAL_MB
                   initial_state) = Inr (Some ''m5242880'')"
    by (simp add: query_evals string_evals big_world_evals)
  have known: "hashlib_new big_world ''sha512'' = Some (\<lambda>bs. Inr (toy_sha512 bs))"
    "hashlib_new big_world ''shake_128'' = Some (\<lambda>bs. Inl hexdigest_needs_length)"
    "hashlib_new big_world ''foo'' = None"
    "hashlib_new big_world ''MD5'' = hashlib_new big_world ''md5''"
    "hashlib_new big_world ''md5'' \<noteq> None"
    by (simp_all add: big_world_evals)
  have files: "os_path_isfile big_world [] ''/src/big.bin''"
    "\<not> os_path_isfile big_world [] ''/src/none''"
    "open_read big_world [OsPathIsfile ''/src/big.bin''] ''/src/big.bin'' = Inr (zeros 11000000)"
    "exec_command big_world [] (exists_cmd ''/dst/big.bin'') = Inr ([], [], 0)"
    by (simp_all add: big_world_evals string_evals)
  have digests: "toy_sha512 (take 5242880 (zeros 11000000)) = ''s5242880''"
    "toy_sha512 (zeros 11000000) = ''s11000000''"
    "\<not> is_OSError hexdigest_needs_length" "hist initial_state = []"
    by (simp_all add: big_world_evals string_evals hexdigest_needs_length_def)
  from sha512 shake foo nofile upper remote show ?thesis
    by (simp add: known files digests)
qed

section \<open>Large files: skip or transfer\<close>

text \<open>
  Claim C2. The source is a file of more than 10 MB, the destination exists, and the two
  partial checksums have been computed (first conjunct: local to remote; second: remote
  to local). If the partial checksums differ, the copy ends with the transfer call, made
  right after the comparison. If they are equal and available, the full checksums are
  computed; if these differ, the copy again ends with the transfer call; if they are equal
  and available, the copy returns normally with the line "SKIP identical: source ->
  destination" appended to the log, so that it is the last line of the log when the copy
  returns, and no transfer call has been made since the copy began: the last external
  call is the one of the second full checksum.
\<close>

theorem large_file_skip_or_transfer:
  "(\<not> os_path_isdir w (hist s) lp
    \<and> os_path_getsize w (hist (called (OsPathIsdir lp) s)) lp = Inr sz
    \<and> sz > 10 * 1024 * 1024
    \<and> remote_file_exists w rp (called (OsPathGetsize lp) (called (OsPathIsdir lp) s)) = (Inr True, s1)
    \<and> compute_local_checksum w lp ''md5'' False PARTIAL_MB 65536 s1 = (Inr pa, s2)
    \<and> compute_remote_checksum w rp ''md5'' False PARTIAL_MB s2 = (Inr pb, s3)
    \<longrightarrow>
      (pa \<noteq> pb \<longrightarrow>
         hist (snd (smart_copy_local_to_remote (Suc d) w lp rp s)) = hist s3 @ [SftpPut lp rp])
      \<and> (pa = pb \<and> pa \<noteq> None
           \<and> compute_local_checksum w lp ''md5'' True PARTIAL_MB 65536 s3 = (Inr fa, s4)
           \<and> compute_remote_checksum w rp ''md5'' True PARTIAL_MB s4 = (Inr fb, s5)
         \<longrightarrow>
           (fa \<noteq> fb \<longrightarrow>
              hist (snd (smart_copy_local_to_remote (Suc d) w lp rp s)) = hist s5 @ [SftpPut lp rp])
           \<and> (fa = fb \<and> fa \<noteq> None \<longrightarrow>
                smart_copy_local_to_remote (Suc d) w lp rp s
                  = (Inr (), logged (''SKIP identical: '' @ lp @ '' -> '' @ rp) s5)
                \<and> filter is_transfer (hist s5) = filter is_transfer (hist s)
                \<and> cmd_log (snd (smart_copy_local_to_remote (Suc d) w lp rp s)) \<noteq> []
                \<and> last (cmd_log (snd (smart_copy_local_to_remote (Suc d) w lp rp s)))
                    = ''SKIP identical: '' @ lp @ '' -> '' @ rp
                \<and> hist (snd (smart_copy_local_to_remote (Suc d) w lp rp s)) = hist s5)))
   \<and>
   (sftp_stat w (hist t) rp = Inr st_mode \<and> \<not> mode_is_dir st_mode
    \<and> os_path_exists w (hist (called (SftpStat rp) t)) lp
    \<and> remote_file_size w rp (called (OsPathExists lp) (called (SftpStat rp) t)) = (Inr (Some rsz), t1)
    \<and> rsz > 10 * 1024 * 1024
    \<and> compute_remote_checksum w rp ''md5'' False PARTIAL_MB t1 = (Inr qb, t2)
    \<and> compute_local_checksum w lp ''md5'' False PARTIAL_MB 65536 t2 = (Inr qa, t3)
    \<longrightarrow>
      (qa \<noteq> qb \<longrightarrow>
         hist (snd (smart_copy_remote_to_local (Suc d) w rp lp t)) = hist t3 @ [SftpGet rp lp])
      \<and> (qa = qb \<and> qa \<noteq> None
           \<and> compute_remote_checksum w rp ''md5'' True PARTIAL_MB t3 = (Inr gb, t4)
           \<and> compute_local_checksum w lp ''md5'' True PARTIAL_MB 65536 t4 = (Inr ga, t5)
         \<longrightarrow>
           (ga \<noteq> gb \<longrightarrow>
              hist (snd (smart_copy_remote_to_local (Suc d) w rp lp t)) = hist t5 @ [SftpGet rp lp])
           \<and> (ga = gb \<and> ga \<noteq> None \<longrightarrow>
                smart_copy_remote_to_local (Suc d) w rp lp t
                  = (Inr (), logged (''SKIP identical: '' @ rp @ '' -> '' @ lp) t5)
                \<and> filter is_transfer (hist t5) = filter is_transfer (hist t)
                \<and> cmd_log (snd (smart_copy_remote_to_local (Suc d) w rp lp t)) \<noteq> []
                \<and> last (cmd_log (snd (smart_copy_remote_to_local (Suc d) w rp lp t)))
                    = ''SKIP identical: '' @ rp @ '' -> '' @ lp
                \<and> hist (snd (smart_copy_remote_to_local (Suc d) w rp lp t)) = hist t5)))"
proof (intro conjI impI; (elim conjE)?)
  assume "\<not> os_path_isdir w (hist s) lp"
    "os_path_getsize w (hist (called (OsPathIsdir lp) s)) lp = Inr sz" "sz > 10 * 1024 * 1024"
    "remote_file_exists w rp (called (OsPathGetsize lp) (called (OsPathIsdir lp) s)) = (Inr True, s1)"
    "compute_local_checksum w lp ''md5'' False PARTIAL_MB 65536 s1 = (Inr pa, s2)"
    "compute_remote_checksum w rp ''md5'' False PARTIAL_MB s2 = (Inr pb, s3)"
    "pa \<noteq> pb"
  then show "hist (snd (smart_copy_local_to_remote (Suc d) w lp rp s)) = hist s3 @ [SftpPut lp rp]"
    by (intro l2r_large_transfer_partial [where sz = sz and pa = pa and pb = pb]) simp_all
next
  assume a: "\<not> os_path_isdir w (hist s) lp"
    "os_path_getsize w (hist (called (OsPathIsdir lp) s)) lp = Inr sz" "sz > 10 * 1024 * 1024"
    "remote_file_exists w rp (called (OsPathGetsize lp) (called (OsPathIsdir lp) s)) = (Inr True, s1)"
    "compute_local_checksum w lp ''md5'' False PARTIAL_MB 65536 s1 = (Inr pa, s2)"
    "compute_remote_checksum w rp ''md5'' False PARTIAL_MB s2 = (Inr pb, s3)"
    "pa = pb" "pa \<noteq> None"
    "compute_local_checksum w lp ''md5'' True PARTIAL_MB 65536 s3 = (Inr fa, s4)"
    "compute_remote_checksum w rp ''md5'' True PARTIAL_MB s4 = (Inr fb, s5)"
  note full = l2r_large_full [OF a]
  {
    assume "fa \<noteq> fb"
    with full(1) show "hist (snd (smart_copy_local_to_remote (Suc d) w lp rp s)) = hist s5 @ [SftpPut lp rp]"
      by (simp add: hist_put_file del: smart_copy_local_to_remote.simps)
  }
  {
    assume "fa = fb"
    with full(1) show skip: "smart_copy_local_to_remote (Suc d) w lp rp s
                  = (Inr (), logged (''SKIP identical: '' @ lp @ '' -> '' @ rp) s5)"
      by (simp del: smart_copy_local_to_remote.simps)
    show "filter is_transfer (hist s5) = filter is_transfer (hist s)" by (rule full(2))
    show "cmd_log (snd (smart_copy_local_to_remote (Suc d) w lp rp s)) \<noteq> []"
      unfolding skip by (simp add: logged_def log_append_last)
    show "last (cmd_log (snd (smart_copy_local_to_remote (Suc d) w lp rp s)))
            = ''SKIP identical: '' @ lp @ '' -> '' @ rp"
      unfolding skip by (simp add: logged_def log_append_last)
    show "hist (snd (smart_copy_local_to_remote (Suc d) w lp rp s)) = hist s5"
      unfolding skip by (simp add: logged_def)
  }
next
  assume "sftp_stat w (hist t) rp = Inr st_mode" "\<not> mode_is_dir st_mode"
    "os_path_exists w (hist (called (SftpStat rp) t)) lp"
    "remote_file_size w rp (called (OsPathExists lp) (called (SftpStat rp) t)) = (Inr (Some rsz), t1)"
    "rsz > 10 * 1024 * 1024"
    "compute_remote_checksum w rp ''md5'' False PARTIAL_MB t1 = (Inr qb, t2)"
    "compute_local_checksum w lp ''md5'' False PARTIAL_MB 65536 t2 = (Inr qa, t3)"
    "qa \<noteq> qb"
  then show "hist (snd (smart_copy_remote_to_local (Suc d) w rp lp t)) = hist t3 @ [SftpGet rp lp]"
    by (intro r2l_large_transfer_partial [where sz = rsz and pa = qa and pb = qb and st_mode = st_mode])
       simp_all
next
  assume a: "sftp_stat w (hist t) rp = Inr st_mode" "\<not> mode_is_dir st_mode"
    "os_path_exists w (hist (called (SftpStat rp) t)) lp"
    "remote_file_size w rp (called (OsPathExists lp) (called (SftpStat rp) t)) = (Inr (Some rsz), t1)"
    "rsz > 10 * 1024 * 1024"
    "compute_remote_checksum w rp ''md5'' False PARTIAL_MB t1 = (Inr qb, t2)"
    "compute_local_checksum w lp ''md5'' False PARTIAL_MB 65536 t2 = (Inr qa, t3)"
    "qa = qb" "qa \<noteq> None"
    "compute_remote_checksum w rp ''md5'' True PARTIAL_MB t3 = (Inr gb, t4)"
    "compute_local_checksum w lp ''md5'' True PARTIAL_MB 65536 t4 = (Inr ga, t5)"
  note full = r2l_large_full [OF a]
  {
    assume "ga \<noteq> gb"
    with full(1) show "hist (snd (smart_copy_remote_to_local (Suc d) w rp lp t)) = hist t5 @ [SftpGet rp lp]"
      by (simp add: hist_get_file del: smart_copy_remote_to_local.simps)
  }
  {
    assume "ga = gb"
    with full(1) show skip: "smart_copy_remote_to_local (Suc d) w rp lp t
                  = (Inr (), logged (''SKIP identical: '' @ rp @ '' -> '' @ lp) t5)"
      by (simp del: smart_copy_remote_to_local.simps)
    show "filter is_transfer (hist t5) = filter is_transfer (hist t)" by (rule full(2))
    show "cmd_log (snd (smart_copy_remote_to_local (Suc d) w rp lp t)) \<noteq> []"
      unfolding skip by (simp add: logged_def log_append_last)
    show "last (cmd_log (snd (smart_copy_remote_to_local (Suc d) w rp lp t)))
            = ''SKIP identical: '' @ rp @ '' -> '' @ lp"
      unfolding skip by (simp add: logged_def log_append_last)
    show "hist (snd (smart_copy_remote_to_local (Suc d) w rp lp t)) = hist t5"
      unfolding skip by (simp add: logged_def)
  }
qed

theorem large_file_skip_or_transfer_witness:
  "smart_copy_local_to_remote 1 big_world ''/src/big.bin'' ''/dst/big.bin'' initial_state
     = (Inr (), logged ''SKIP identical: /src/big.bin -> /dst/big.bin''
         (after_remote_checksum ''/dst/big.bin'' ''md5'' True PARTIAL_MB
           (after_local_checksum ''/src/big.bin''
             (after_remote_checksum ''/dst/big.bin'' ''md5'' False PARTIAL_MB
               (after_local_checksum ''/src/big.bin''
                 (after_exists ''/dst/big.bin''
                   (called (OsPathGetsize ''/src/big.bin'')
                     (called (OsPathIsdir ''/src/big.bin'') initial_state))))))))
   \<and> smart_copy_remote_to_local 1 big_world ''/dst/big.bin'' ''/src/big.bin'' initial_state
     = (Inr (), logged ''SKIP identical: /dst/big.bin -> /src/big.bin''
         (after_local_checksum ''/src/big.bin''
           (after_remote_checksum ''/dst/big.bin'' ''md5'' True PARTIAL_MB
             (after_local_checksum ''/src/big.bin''
               (after_remote_checksum ''/dst/big.bin'' ''md5'' False PARTIAL_MB
                 (after_size ''/dst/big.bin''
                   (called (OsPathExists ''/src/big.bin'')
                     (called (SftpStat ''/dst/big.bin'') initial_state))))))))
   \<and> last (cmd_log (snd (smart_copy_local_to_remote 1 big_world ''/src/big.bin'' ''/dst/big.bin''
                            initial_state)))
     = ''SKIP identical: /src/big.bin -> /dst/big.bin''
   \<and> last (cmd_log (snd (smart_copy_remote_to_local 1 big_world ''/dst/big.bin'' ''/src/big.bin''
                            initial_state)))
     = ''SKIP identical: /dst/big.bin -> /src/big.bin''
   \<and> filter is_transfer (hist (snd (smart_copy_local_to_remote 1 big_world ''/src/big.bin''
                                      ''/dst/big.bin'' initial_state))) = []
   \<and> filter is_transfer (hist (snd (smart_copy_remote_to_local 1 big_world ''/dst/big.bin''
                                      ''/src/big.bin'' initial_state))) = []
   \<and> last (hist (snd (smart_copy_local_to_remote 1 changed_world ''/src/big.bin'' ''/dst/big.bin''
                         initial_state)))
     = SftpPut ''/src/big.bin'' ''/dst/big.bin''
   \<and> last (hist (snd (smart_copy_remote_to_local 1 changed_world ''/dst/big.bin'' ''/src/big.bin''
                         initial_state)))
     = SftpGet ''/dst/big.bin'' ''/src/big.bin''"
proof -
  let ?L = "''/src/big.bin''" and ?R = "''/dst/big.bin''"
  let ?s1 = "after_exists ?R (called (OsPathGetsize ?L) (called (OsPathIsdir ?L) initial_state))"
  let ?s2 = "after_local_checksum ?L ?s1"
  let ?s3 = "after_remote_checksum ?R ''md5'' False PARTIAL_MB ?s2"
  let ?s4 = "after_local_checksum ?L ?s3"
  let ?s5 = "after_remote_checksum ?R ''md5'' True PARTIAL_MB ?s4"
  let ?t1 = "after_size ?R (called (OsPathExists ?L) (called (SftpStat ?R) initial_state))"
  let ?t2 = "after_remote_checksum ?R ''md5'' False PARTIAL_MB ?t1"
  let ?t3 = "after_local_checksum ?L ?t2"
  let ?t4 = "after_remote_checksum ?R ''md5'' True PARTIAL_MB ?t3"
  let ?t5 = "after_local_checksum ?L ?t4"
  note same = large_file_skip_or_transfer [where w = big_world and s = initial_state
        and t = initial_state and lp = ?L and rp = ?R
        and d = 0 and sz = 11000000 and rsz = 11000000 and st_mode = 33188
        and pa = "Some ''m5242880''" and pb = "Some ''m5242880''"
        and fa = "Some ''m11000000''" and fb = "Some ''m11000000''"
        and qa = "Some ''m5242880''" and qb = "Some ''m5242880''"
        and ga = "Some ''m11000000''" and gb = "Some ''m11000000''"
        and ?s1.0 = ?s1 and ?s2.0 = ?s2 and ?s3.0 = ?s3 and ?s4.0 = ?s4 and ?s5.0 = ?s5
        and ?t1.0 = ?t1 and ?t2.0 = ?t2 and ?t3.0 = ?t3 and ?t4.0 = ?t4 and ?t5.0 = ?t5]
  note changed = large_file_skip_or_transfer [where w = changed_world and s = initial_state
        and t = initial_state and lp = ?L and rp = ?R
        and d = 0 and sz = 11000000 and rsz = 11000000 and st_mode = 33188
        and pa = "Some ''m5242880''" and pb = "Some ''m5242880''"
        and fa = "Some ''m11000000''" and fb = "Some ''x11000000''"
        and qa = "Some ''m5242880''" and qb = "Some ''m5242880''"
        and ga = "Some ''m11000000''" and gb = "Some ''x11000000''"
        and ?s1.0 = ?s1 and ?s2.0 = ?s2 and ?s3.0 = ?s3 and ?s4.0 = ?s4 and ?s5.0 = ?s5
        and ?t1.0 = ?t1 and ?t2.0 = ?t2 and ?t3.0 = ?t3 and ?t4.0 = ?t4 and ?t5.0 = ?t5]
  from same changed show ?thesis
    by (simp add: query_evals string_evals big_world_evals log_append_last
        del: smart_copy_local_to_remote.simps smart_copy_remote_to_local.simps)
qed

section \<open>Small files are always transferred\<close>

text \<open>
  Claim C3. A source file of at most 10 MB is transferred whether or not the destination
  exists and whatever it holds, and no checksum is computed. Local to remote: after the
  directory test, the size query and the remote existence test (whatever its answer),
  the next and last call is the transfer. Remote to local: after the stat of the source
  and the local existence test, the remote size is asked only if the destination exists,
  and the next and last call is the transfer. The calls listed are all the calls made: no
  file is opened for a digest and no digest command is run.
\<close>

theorem small_file_always_transferred:
  "(\<not> os_path_isdir w (hist s) lp
    \<and> os_path_getsize w (hist s @ [OsPathIsdir lp]) lp = Inr sz
    \<and> sz \<le> 10 * 1024 * 1024
    \<and> exec_command w (hist s @ [OsPathIsdir lp, OsPathGetsize lp]) (exists_cmd rp) = Inr r
    \<longrightarrow> hist (snd (smart_copy_local_to_remote (Suc d) w lp rp s))
          = hist s @ [OsPathIsdir lp, OsPathGetsize lp, ExecCommand (exists_cmd rp), SftpPut lp rp])
   \<and>
   (sftp_stat w (hist t) rp = Inr st_mode \<and> \<not> mode_is_dir st_mode
    \<longrightarrow>
      (\<not> os_path_exists w (hist t @ [SftpStat rp]) lp
       \<longrightarrow> hist (snd (smart_copy_remote_to_local (Suc d) w rp lp t))
             = hist t @ [SftpStat rp, OsPathExists lp, SftpGet rp lp])
      \<and> (os_path_exists w (hist t @ [SftpStat rp]) lp
          \<and> remote_file_size w rp (called (OsPathExists lp) (called (SftpStat rp) t)) = (Inr (Some rsz), t1)
          \<and> rsz \<le> 10 * 1024 * 1024
       \<longrightarrow> hist (snd (smart_copy_remote_to_local (Suc d) w rp lp t))
             = hist t @ [SftpStat rp, OsPathExists lp, ExecCommand (size_cmd rp), SftpGet rp lp]))"
proof (intro conjI impI; (elim conjE)?)
  assume a: "\<not> os_path_isdir w (hist s) lp"
    "os_path_getsize w (hist s @ [OsPathIsdir lp]) lp = Inr sz" "sz \<le> 10 * 1024 * 1024"
    "exec_command w (hist s @ [OsPathIsdir lp, OsPathGetsize lp]) (exists_cmd rp) = Inr r"
  let ?s0 = "called (OsPathIsdir lp) s"
  let ?s1 = "after_exists rp (called (OsPathGetsize lp) ?s0)"
  have "remote_file_exists w rp (called (OsPathGetsize lp) ?s0) = (Inr (snd (snd r) = 0), ?s1)"
    using a(4) by (simp add: remote_file_exists_eval)
  then have "smart_copy_file_local_to_remote w lp rp ?s0 = put_file w lp rp ?s1"
    using a(2,3) by (intro l2r_small [where sz = sz]) (simp_all add: large_limit_def LARGE_FILE_MB_def)
  with a(1) show "hist (snd (smart_copy_local_to_remote (Suc d) w lp rp s))
          = hist s @ [OsPathIsdir lp, OsPathGetsize lp, ExecCommand (exists_cmd rp), SftpPut lp rp]"
    by (simp add: smart_copy_local_to_remote_file hist_put_file del: smart_copy_local_to_remote.simps)
next
  assume a: "sftp_stat w (hist t) rp = Inr st_mode" "\<not> mode_is_dir st_mode"
    "\<not> os_path_exists w (hist t @ [SftpStat rp]) lp"
  then show "hist (snd (smart_copy_remote_to_local (Suc d) w rp lp t))
             = hist t @ [SftpStat rp, OsPathExists lp, SftpGet rp lp]"
    by (simp add: smart_copy_remote_to_local_file r2l_absent hist_get_file
        del: smart_copy_remote_to_local.simps)
next
  assume a: "sftp_stat w (hist t) rp = Inr st_mode" "\<not> mode_is_dir st_mode"
    "os_path_exists w (hist t @ [SftpStat rp]) lp"
    "remote_file_size w rp (called (OsPathExists lp) (called (SftpStat rp) t)) = (Inr (Some rsz), t1)"
    "rsz \<le> 10 * 1024 * 1024"
  have t1: "t1 = after_size rp (called (OsPathExists lp) (called (SftpStat rp) t))"
    using a(4) by (simp add: remote_file_size_eval split: sum.splits if_splits)
  have "smart_copy_file_remote_to_local w rp lp (called (SftpStat rp) t) = get_file w rp lp t1"
    using a(3-5) by (intro r2l_small [where sz = "Some rsz"]) (simp_all add: large_size_def LARGE_FILE_MB_def)
  with a(1,2) show "hist (snd (smart_copy_remote_to_local (Suc d) w rp lp t))
             = hist t @ [SftpStat rp, OsPathExists lp, ExecCommand (size_cmd rp), SftpGet rp lp]"
    by (simp add: smart_copy_remote_to_local_file hist_get_file t1 del: smart_copy_remote_to_local.simps)
qed

theorem small_file_always_transferred_witness:
  "hist (snd (smart_copy_local_to_remote 1 small_world ''/src/a.txt'' ''/dst/a.txt'' initial_state))
     = [OsPathIsdir ''/src/a.txt'', OsPathGetsize ''/src/a.txt'', ExecCommand (exists_cmd ''/dst/a.txt''),
        SftpPut ''/src/a.txt'' ''/dst/a.txt'']
   \<and> hist (snd (smart_copy_remote_to_local 1 small_world ''/dst/a.txt'' ''/src/a.txt'' initial_state))
     = [SftpStat ''/dst/a.txt'', OsPathExists ''/src/a.txt'', ExecCommand (size_cmd ''/dst/a.txt''),
        SftpGet ''/dst/a.txt'' ''/src/a.txt'']
   \<and> hist (snd (smart_copy_remote_to_local 1 small_world ''/dst/a.txt'' ''/tmp/new.txt'' initial_state))
     = [SftpStat ''/dst/a.txt'', OsPathExists ''/tmp/new.txt'', SftpGet ''/dst/a.txt'' ''/tmp/new.txt'']"
proof -
  note small_file_always_transferred [where w = small_world and s = initial_state and t = initial_state
      and lp = "''/src/a.txt''" and rp = "''/dst/a.txt''" and sz = 3 and r = "([], [], 0)" and d = 0
      and st_mode = 33188 and rsz = 3
      and ?t1.0 = "after_size ''/dst/a.txt''
                     (called (OsPathExists ''/src/a.txt'') (called (SftpStat ''/dst/a.txt'') initial_state))"]
    small_file_always_transferred [where w = small_world and s = initial_state and t = initial_state
      and lp = "''/tmp/new.txt''" and rp = "''/dst/a.txt''" and d = 0 and st_mode = 33188]
  then show ?thesis
    by (simp add: more_world_evals query_evals string_evals big_world_evals
        del: smart_copy_local_to_remote.simps smart_copy_remote_to_local.simps)
qed

section \<open>A skip without full checksums\<close>

text \<open>
  Claim C1. The claim lets the copy skip a large file only when both full checksums are
  available and equal. The source compares the partial checksums under the guard
  \<open>csum_loc_part and csum_rem_part\<close>, but the full checksums by
  \<open>csum_loc_full == csum_rem_full\<close> alone, and None equals None. On the
  failing-disk world both partial checksums are available and equal, both full checksums
  are None, and the copy, in either direction, logs "SKIP identical" and makes no
  transfer call. (With one full checksum available and the other not, the two differ and
  the file is transferred: that half of the claim holds, see the theorem on large files.)
\<close>

theorem skip_without_full_checksums:
  "fst (compute_local_checksum failing_disk_world ''/src/big.bin'' ''md5'' True PARTIAL_MB 65536
         (after_remote_checksum ''/dst/big.bin'' ''md5'' False PARTIAL_MB
           (after_local_checksum ''/src/big.bin''
             (after_exists ''/dst/big.bin''
               (called (OsPathGetsize ''/src/big.bin'')
                 (called (OsPathIsdir ''/src/big.bin'') initial_state)))))) = Inr None
   \<and> fst (compute_remote_checksum failing_disk_world ''/dst/big.bin'' ''md5'' True PARTIAL_MB
         (after_local_checksum ''/src/big.bin''
           (after_remote_checksum ''/dst/big.bin'' ''md5'' False PARTIAL_MB
             (after_local_checksum ''/src/big.bin''
               (after_exists ''/dst/big.bin''
                 (called (OsPathGetsize ''/src/big.bin'')
                   (called (OsPathIsdir ''/src/big.bin'') initial_state))))))) = Inr None
   \<and> smart_copy_local_to_remote 1 failing_disk_world ''/src/big.bin'' ''/dst/big.bin'' initial_state
     = (Inr (), logged ''SKIP identical: /src/big.bin -> /dst/big.bin''
         (after_remote_checksum ''/dst/big.bin'' ''md5'' True PARTIAL_MB
           (after_local_checksum ''/src/big.bin''
             (after_remote_checksum ''/dst/big.bin'' ''md5'' False PARTIAL_MB
               (after_local_checksum ''/src/big.bin''
                 (after_exists ''/dst/big.bin''
                   (called (OsPathGetsize ''/src/big.bin'')
                     (called (OsPathIsdir ''/src/big.bin'') initial_state))))))))
   \<and> filter is_transfer
         (hist (snd (smart_copy_local_to_remote 1 failing_disk_world ''/src/big.bin'' ''/dst/big.bin''
                       initial_state))) = []
   \<and> smart_copy_remote_to_local 1 failing_disk_world ''/dst/big.bin'' ''/src/big.bin'' initial_state
     = (Inr (), logged ''SKIP identical: /dst/big.bin -> /src/big.bin''
         (after_local_checksum ''/src/big.bin''
           (after_remote_checksum ''/dst/big.bin'' ''md5'' True PARTIAL_MB
             (after_local_checksum ''/src/big.bin''
               (after_remote_checksum ''/dst/big.bin'' ''md5'' False PARTIAL_MB
                 (after_size ''/dst/big.bin''
                   (called (OsPathExists ''/src/big.bin'')
                     (called (SftpStat ''/dst/big.bin'') initial_state))))))))
   \<and> filter is_transfer
         (hist (snd (smart_copy_remote_to_local 1 failing_disk_world ''/dst/big.bin'' ''/src/big.bin''
                       initial_state))) = []"
  by (simp add: smart_copy_file_local_to_remote_def smart_copy_file_remote_to_local_def
      bind_def ret_def ext_def ext_pure_def try_except_def log_command_def large_size_def
      LARGE_FILE_MB_def logged_def [symmetric] called_def [symmetric]
      more_world_evals query_evals string_evals big_world_evals)

section \<open>The comparison of two directories is a partition\<close>

text \<open>
  Claim C4. Whenever \<open>compare_directories\<close> returns, its four sets are pairwise
  disjoint and their union is the set of all names that stand as a non-directory entry
  other than ".." in one of the two listings. The listings are those the function itself
  obtained; the loop visits every common name once, in whatever order the set is iterated.
\<close>

theorem compare_directories_partition:
  assumes "list_local_dir w lp s = (Inr local_entries, s1)"
    and "list_remote_dir w rp s1 = (Inr remote_entries, s2)"
    and "distinct (set_order (set (file_names local_entries) \<inter> set (file_names remote_entries)))"
    and "set (set_order (set (file_names local_entries) \<inter> set (file_names remote_entries)))
           = set (file_names local_entries) \<inter> set (file_names remote_entries)"
    and "compare_directories set_order w lp rp algo full s
           = (Inr (only_local, only_remote, different, same), s')"
  shows "only_local \<inter> only_remote = {} \<and> only_local \<inter> different = {} \<and> only_local \<inter> same = {}
         \<and> only_remote \<inter> different = {} \<and> only_remote \<inter> same = {} \<and> different \<inter> same = {}
         \<and> only_local \<union> only_remote \<union> different \<union> same
             = {n. n \<noteq> ''..'' \<and> ((n, False) \<in> set local_entries \<or> (n, False) \<in> set remote_entries)}"
proof -
  let ?L = "set (file_names local_entries)" and ?R = "set (file_names remote_entries)"
  let ?loop = "compare_loop w lp rp algo full (set_order (?L \<inter> ?R)) ({}, {})"
  obtain D S where loop: "?loop s2 = (Inr (D, S), s')"
    and res: "only_local = ?L - ?L \<inter> ?R" "only_remote = ?R - ?L \<inter> ?R" "different = D" "same = S"
    using assms(1,2,5)
    by (cases "?loop s2")
       (auto simp: compare_directories_def bind_def ret_def Let_def split: sum.splits)
  from compare_loop_partition [OF loop assms(3)] assms(4)
  have "D \<inter> S = {}" "D \<union> S = ?L \<inter> ?R" by auto
  with res show ?thesis
    unfolding set_file_names by auto
qed

theorem compare_directories_partition_witness:
  "fst (compare_directories (order_of [''z.txt'', ''x.txt'', ''y.txt'']) dir_world ''/l'' ''/r'' ''md5'' False
          initial_state)
     = Inr ({''x.txt''}, {}, {''y.txt''}, {''z.txt''})
   \<and> {''x.txt''} \<union> {} \<union> {''y.txt''} \<union> {''z.txt''}
     = {n. n \<noteq> ''..'' \<and>
          ((n, False) \<in> set [(''..'', True), (''sub'', True), (''x.txt'', False), (''y.txt'', False),
                              (''z.txt'', False)]
           \<or> (n, False) \<in> set [(''..'', True), (''old'', True), (''y.txt'', False), (''z.txt'', False)])}"
proof -
  let ?ord = "order_of [''z.txt'', ''x.txt'', ''y.txt'']"
  let ?s1 = "called (OsScandir ''/l'') initial_state"
  let ?s2 = "called (SftpListdirAttr ''/r'') ?s1"
  let ?s3 = "after_remote_checksum ''/r/y.txt'' ''md5'' False PARTIAL_MB
               (after_local_checksum ''/l/y.txt''
                 (after_remote_checksum ''/r/z.txt'' ''md5'' False PARTIAL_MB
                   (after_local_checksum ''/l/z.txt'' ?s2)))"
  have e1: "list_local_dir dir_world ''/l'' initial_state
              = (Inr [(''..'', True), (''sub'', True), (''x.txt'', False), (''y.txt'', False),
                      (''z.txt'', False)], ?s1)"
    by (simp add: listing_evals dir_world_evals)
  have e2: "list_remote_dir dir_world ''/r'' ?s1
              = (Inr [(''..'', True), (''old'', True), (''y.txt'', False), (''z.txt'', False)], ?s2)"
    by (simp add: listing_evals dir_world_evals)
  have e3: "compare_directories ?ord dir_world ''/l'' ''/r'' ''md5'' False initial_state
              = (Inr ({''x.txt''}, {}, {''y.txt''}, {''z.txt''}), ?s3)"
    by (simp add: compare_directories_def bind_def ret_def listing_evals dir_world_evals
        query_evals string_evals insert_Diff_if)
  have d: "distinct (?ord (set (file_names [(''..'', True), (''sub'', True), (''x.txt'', False),
                                             (''y.txt'', False), (''z.txt'', False)])
                          \<inter> set (file_names [(''..'', True), (''old'', True), (''y.txt'', False),
                                               (''z.txt'', False)])))"
    by (simp add: order_of_def file_names_simps)
  have st: "set (?ord (set (file_names [(''..'', True), (''sub'', True), (''x.txt'', False),
                                             (''y.txt'', False), (''z.txt'', False)])
                          \<inter> set (file_names [(''..'', True), (''old'', True), (''y.txt'', False),
                                               (''z.txt'', False)])))
            = set (file_names [(''..'', True), (''sub'', True), (''x.txt'', False),
                                             (''y.txt'', False), (''z.txt'', False)])
                          \<inter> set (file_names [(''..'', True), (''old'', True), (''y.txt'', False),
                                               (''z.txt'', False)])"
    by (auto simp: order_of_def file_names_simps)
  from compare_directories_partition [OF e1 e2 d st e3] e3 show ?thesis
    by simp
qed

section \<open>Recursive removal stops at a file it cannot remove\<close>

text \<open>
  Claim C7 says that a failure on one child never stops the removal of its siblings. The
  handler of \<open>remove_remote_dir_recursive\<close> is around the whole loop, so that holds
  for a child directory only (its own call swallows what happens inside it), not for a
  child file: in \<open>/d\<close>, with the files a and b, the failure to remove a ends the
  call, and the removal of b is never attempted.
\<close>

theorem remove_tree_counterexample:
  "sftp_listdir_attr stuck_world [] ''/d'' = Inr [(''a'', 33188), (''b'', 33188)]
   \<and> sftp_remove stuck_world [SftpListdirAttr ''/d''] ''/d/a'' = Inl permission_denied
   \<and> hist (snd (remove_remote_dir_recursive 2 stuck_world ''/d'' initial_state))
       = [SftpListdirAttr ''/d'', SftpRemove ''/d/a'']
   \<and> SftpRemove ''/d/b'' \<notin> set (hist (snd (remove_remote_dir_recursive 2 stuck_world ''/d'' initial_state)))"
  by (simp add: numeral_2_eq_2 try_except_def bind_def ext_def ret_def remove_item_eval
      stuck_world_evals)

text \<open>
  Claim C7 as amended. The removal never raises. A child directory, whatever happens
  inside it, does not stop the loop: the loop goes on with its siblings from the state
  the nested call left. A child file that cannot be removed ends the loop at once; when
  it is the first entry, the whole call consists of the listing and that one failed
  removal, without the siblings and without the final rmdir, and returns normally.
\<close>

theorem remove_tree_stops_at_failing_file:
  "fst (remove_remote_dir_recursive (Suc d) w path s) = Inr ()
   \<and> (mode_is_dir (snd x) \<longrightarrow>
        for_each (x # xs) (remove_item (remove_remote_dir_recursive (Suc d) w) w path) s
        = for_each xs (remove_item (remove_remote_dir_recursive (Suc d) w) w path)
            (snd (remove_remote_dir_recursive (Suc d) w (remote_join path (fst x)) s)))
   \<and> (\<not> mode_is_dir (snd x) \<and> sftp_remove w (hist s) (remote_join path (fst x)) = Inl e \<longrightarrow>
        for_each (x # xs) (remove_item (remove_remote_dir_recursive d w) w path) s
        = (Inl e, called (SftpRemove (remote_join path (fst x))) s))
   \<and> (sftp_listdir_attr w (hist s) path = Inr (x # xs) \<and> \<not> mode_is_dir (snd x)
       \<and> sftp_remove w (hist s @ [SftpListdirAttr path]) (remote_join path (fst x)) = Inl e \<longrightarrow>
        remove_remote_dir_recursive (Suc d) w path s
        = (Inr (), called (SftpRemove (remote_join path (fst x))) (called (SftpListdirAttr path) s)))"
  using remove_never_raises remove_loop_directory remove_loop_file_failure remove_first_file_failure
  by (intro conjI impI) (simp_all del: remove_remote_dir_recursive.simps for_each.simps)

theorem remove_tree_stops_at_failing_file_witness:
  "remove_remote_dir_recursive 2 stuck_world ''/d'' initial_state
     = (Inr (), called (SftpRemove ''/d/a'') (called (SftpListdirAttr ''/d'') initial_state))
   \<and> hist (snd (remove_remote_dir_recursive 2 stuck_world ''/e'' initial_state))
     = [SftpListdirAttr ''/e'', SftpListdirAttr ''/e/sub'', SftpRemove ''/e/sub/c'',
        SftpRemove ''/e/b'', SftpRmdir ''/e'']"
proof -
  note remove_tree_stops_at_failing_file [where d = 1 and w = stuck_world and path = "''/d''"
      and s = initial_state and x = "(''a'', 33188)" and xs = "[(''b'', 33188)]"
      and e = permission_denied]
    remove_tree_stops_at_failing_file [where d = 0 and w = stuck_world and path = "''/e''"
      and s = "called (SftpListdirAttr ''/e'') initial_state" and x = "(''sub'', 16877)"
      and xs = "[(''b'', 33188)]"]
  then show ?thesis
    by (simp add: numeral_2_eq_2 try_except_def bind_def ext_def ret_def remove_item_eval
      stuck_world_evals called_def)
qed

section \<open>A move removes its source only after the copy has returned\<close>



section \<open>The paths of the children in a directory copy\<close>

lemma child_paths_root: "child_paths lp rp [] = (lp, rp)"
  by (simp add: child_paths_def)

lemma child_paths_child:
  "child_paths lp rp names = (l, r) \<Longrightarrow>
   child_paths lp rp (names @ [name]) = (os_path_join l name, remote_join r name)"
  by (simp add: child_paths_def)

lemma walk_calls_l2r:
  "child_paths lp rp names = (l, r) \<Longrightarrow>
   adds_only (walk_call lp rp) (smart_copy_local_to_remote d w l r)"
proof (induction d arbitrary: l r names)
  case 0
  show ?case by simp
next
  case (Suc d)
  have here: "\<exists>ns. child_paths lp rp ns = (l, r)" using Suc.prems by blast
  have l: "\<exists>ns. fst (child_paths lp rp ns) = l" and r: "\<exists>ns. snd (child_paths lp rp ns) = r"
    using Suc.prems by (metis fst_conv, metis snd_conv)
  show ?case
    unfolding smart_copy_local_to_remote.simps
    by (intro adds_only_bind adds_only_if adds_only_ext adds_only_ext_pure adds_only_ret
        adds_only_try_except adds_only_for_each adds_only_file_l2r
        Suc.IH [OF child_paths_child [OF Suc.prems]])
       (simp_all add: here l r)
qed

lemma walk_calls_r2l:
  "child_paths lp rp names = (l, r) \<Longrightarrow>
   adds_only (walk_call lp rp) (smart_copy_remote_to_local d w r l)"
proof (induction d arbitrary: l r names)
  case 0
  show ?case by simp
next
  case (Suc d)
  have here: "\<exists>ns. child_paths lp rp ns = (l, r)" using Suc.prems by blast
  have l: "\<exists>ns. fst (child_paths lp rp ns) = l" and r: "\<exists>ns. snd (child_paths lp rp ns) = r"
    using Suc.prems by (metis fst_conv, metis snd_conv)
  show ?case
    unfolding smart_copy_remote_to_local.simps
    by (intro adds_only_bind adds_only_if adds_only_ext adds_only_ext_pure adds_only_ret
        adds_only_try_except adds_only_for_each adds_only_case_option adds_only_file_r2l
        Suc.IH [OF child_paths_child [OF Suc.prems]])
       (simp_all add: here l r)
qed

lemmas slash_world_sel =
  arg_cong [where f = os_path_isfile, OF slash_world_def, unfolded empty_world_def, simplified]
  arg_cong [where f = os_path_isdir, OF slash_world_def, unfolded empty_world_def, simplified]
  arg_cong [where f = os_path_exists, OF slash_world_def, unfolded empty_world_def, simplified]
  arg_cong [where f = os_path_getsize, OF slash_world_def, unfolded empty_world_def, simplified]
  arg_cong [where f = os_scandir, OF slash_world_def, unfolded empty_world_def, simplified]
  arg_cong [where f = open_read, OF slash_world_def, unfolded empty_world_def, simplified]
  arg_cong [where f = os_mkdir, OF slash_world_def, unfolded empty_world_def, simplified]
  arg_cong [where f = hashlib_new, OF slash_world_def, unfolded empty_world_def, simplified]
  arg_cong [where f = exec_command, OF slash_world_def, unfolded empty_world_def, simplified]
  arg_cong [where f = sftp_stat, OF slash_world_def, unfolded empty_world_def, simplified]
  arg_cong [where f = sftp_listdir_attr, OF slash_world_def, unfolded empty_world_def, simplified]
  arg_cong [where f = sftp_mkdir, OF slash_world_def, unfolded empty_world_def, simplified]
  arg_cong [where f = sftp_put, OF slash_world_def, unfolded empty_world_def, simplified]
  arg_cong [where f = sftp_get, OF slash_world_def, unfolded empty_world_def, simplified]

lemmas slash_evals = slash_world_sel no_such_file_def initial_state_def os_path_join_def
  remote_join_def rstrip_slash_def mode_is_dir_def

text \<open>
  Claim C9 says that in a directory copy both child locations, the source one and the
  destination one, are built with the path grammar of the destination side. The code
  builds each child location with the grammar of its own side: the local one always
  with \<open>os.path.join\<close>, the remote one always with the slash concatenation, in both
  directions. The two grammars differ on a parent path that ends in two slashes. Copying
  the local directory \<open>/l//\<close> to the remote \<open>/r\<close>, the source child is
  \<open>/l//x.txt\<close>, where the slash concatenation of the destination side gives
  \<open>/l/x.txt\<close>. Copying the remote directory \<open>/r//\<close> to the local \<open>/l\<close>, the
  source child is \<open>/r/x.txt\<close>, where the \<open>os.path.join\<close> of the destination side
  gives \<open>/r//x.txt\<close>.
\<close>

theorem child_paths_counterexample:
  "hist (snd (smart_copy_local_to_remote (Suc (Suc 0)) slash_world ''/l//'' ''/r'' initial_state))
     = [OsPathIsdir ''/l//'', SftpMkdir ''/r'', OsScandir ''/l//'',
        OsPathIsdir ''/l//x.txt'', OsPathGetsize ''/l//x.txt'',
        ExecCommand (exists_cmd ''/r/x.txt''), SftpPut ''/l//x.txt'' ''/r/x.txt'']
   \<and> remote_join ''/l//'' ''x.txt'' = ''/l/x.txt''
   \<and> hist (snd (smart_copy_remote_to_local (Suc (Suc 0)) slash_world ''/r//'' ''/l'' initial_state))
     = [SftpStat ''/r//'', OsPathExists ''/l'', OsMkdir ''/l'', SftpListdirAttr ''/r//'',
        SftpStat ''/r/x.txt'', OsPathExists ''/l/x.txt'', SftpGet ''/r/x.txt'' ''/l/x.txt'']
   \<and> os_path_join ''/r//'' ''x.txt'' = ''/r//x.txt''"
  by (simp add: walk_evals slash_evals query_evals string_evals
      del: smart_copy_local_to_remote.simps smart_copy_remote_to_local.simps for_each.simps)

text \<open>
  Claim C9 as amended. In a directory copy each child location is built on its own
  side: the local child is \<open>os.path.join\<close> of the local parent and the entry name, the
  remote child is the slash concatenation of the remote parent and the entry name,
  whichever side is the destination. A copy of a local directory is, after the
  \<open>isdir\<close> test, the \<open>mkdir\<close> and the listing, the loop over the listed entries
  that copies every such local child to the remote child of the same name; a copy of a
  remote directory is, after the \<open>stat\<close>, the test and creation of the local
  directory and the listing, the loop over the listed entries that copies every such
  remote child to the local child of the same name. So every transfer, every creation of
  a directory and every listing of a whole copy, at any depth, addresses paths reached
  from the two paths of the copy by the same entry names, each on its own side.
\<close>

theorem children_joined_on_their_own_side:
  "adds_only (walk_call lp rp) (smart_copy_local_to_remote d w lp rp)
   \<and> adds_only (walk_call lp rp) (smart_copy_remote_to_local d w rp lp)
   \<and> (os_path_isdir w (hist s) lp
       \<and> (case sftp_mkdir w (hist s @ [OsPathIsdir lp]) rp of
             Inl e \<Rightarrow> is_OSError e | Inr u \<Rightarrow> True)
       \<and> os_scandir w (hist s @ [OsPathIsdir lp, SftpMkdir rp]) lp = Inr entries
       \<longrightarrow>
         smart_copy_local_to_remote (Suc d) w lp rp s
         = for_each entries
             (\<lambda>entry. smart_copy_local_to_remote d w
                          (os_path_join lp (fst entry)) (remote_join rp (fst entry)))
             (called (OsScandir lp) (called (SftpMkdir rp) (called (OsPathIsdir lp) s))))
   \<and> (sftp_stat w (hist t) rp = Inr st_mode \<and> mode_is_dir st_mode
       \<and> t1 = called (OsPathExists lp) (called (SftpStat rp) t)
       \<and> t2 = (if os_path_exists w (hist t @ [SftpStat rp]) lp then t1 else called (OsMkdir lp) t1)
       \<and> (os_path_exists w (hist t @ [SftpStat rp]) lp
            \<or> (case os_mkdir w (hist t1) lp of Inl e \<Rightarrow> is_OSError e | Inr u \<Rightarrow> True))
       \<and> sftp_listdir_attr w (hist t2) rp = Inr attrs
       \<longrightarrow>
         smart_copy_remote_to_local (Suc d) w rp lp t
         = try_except
             (for_each attrs
                (\<lambda>e. smart_copy_remote_to_local d w
                         (remote_join rp (fst e)) (os_path_join lp (fst e))))
             is_OSError (\<lambda>e. ret ())
             (called (SftpListdirAttr rp) t2))"
proof (intro conjI impI)
  show "adds_only (walk_call lp rp) (smart_copy_local_to_remote d w lp rp)"
    by (rule walk_calls_l2r [OF child_paths_root])
  show "adds_only (walk_call lp rp) (smart_copy_remote_to_local d w rp lp)"
    by (rule walk_calls_r2l [OF child_paths_root])
next
  assume "os_path_isdir w (hist s) lp
       \<and> (case sftp_mkdir w (hist s @ [OsPathIsdir lp]) rp of
             Inl e \<Rightarrow> is_OSError e | Inr u \<Rightarrow> True)
       \<and> os_scandir w (hist s @ [OsPathIsdir lp, SftpMkdir rp]) lp = Inr entries"
  then show "smart_copy_local_to_remote (Suc d) w lp rp s
         = for_each entries
             (\<lambda>entry. smart_copy_local_to_remote d w
                          (os_path_join lp (fst entry)) (remote_join rp (fst entry)))
             (called (OsScandir lp) (called (SftpMkdir rp) (called (OsPathIsdir lp) s)))"
    by (simp add: py_defs st_defs split: sum.splits)
next
  assume "sftp_stat w (hist t) rp = Inr st_mode \<and> mode_is_dir st_mode
       \<and> t1 = called (OsPathExists lp) (called (SftpStat rp) t)
       \<and> t2 = (if os_path_exists w (hist t @ [SftpStat rp]) lp then t1 else called (OsMkdir lp) t1)
       \<and> (os_path_exists w (hist t @ [SftpStat rp]) lp
            \<or> (case os_mkdir w (hist t1) lp of Inl e \<Rightarrow> is_OSError e | Inr u \<Rightarrow> True))
       \<and> sftp_listdir_attr w (hist t2) rp = Inr attrs"
  then show "smart_copy_remote_to_local (Suc d) w rp lp t
         = try_except
             (for_each attrs
                (\<lambda>e. smart_copy_remote_to_local d w
                         (remote_join rp (fst e)) (os_path_join lp (fst e))))
             is_OSError (\<lambda>e. ret ())
             (called (SftpListdirAttr rp) t2)"
    by (auto simp: py_defs st_defs split: sum.splits)
qed

theorem children_joined_on_their_own_side_witness:
  "list_all (walk_call ''/l'' ''/r'')
     (hist (snd (smart_copy_local_to_remote (Suc (Suc (Suc 0))) dir_world ''/l'' ''/r'' initial_state)))
   \<and> filter is_transfer
       (hist (snd (smart_copy_local_to_remote (Suc (Suc (Suc 0))) dir_world ''/l'' ''/r'' initial_state)))
     = [SftpPut ''/l/y.txt'' ''/r/y.txt'', SftpPut ''/l/sub/w.txt'' ''/r/sub/w.txt'',
        SftpPut ''/l/x.txt'' ''/r/x.txt'', SftpPut ''/l/z.txt'' ''/r/z.txt'']
   \<and> smart_copy_local_to_remote (Suc (Suc (Suc 0))) dir_world ''/l'' ''/r'' initial_state
     = for_each [(''y.txt'', False), (''sub'', True), (''x.txt'', False), (''z.txt'', False)]
         (\<lambda>entry. smart_copy_local_to_remote (Suc (Suc 0)) dir_world
                      (os_path_join ''/l'' (fst entry)) (remote_join ''/r'' (fst entry)))
         (called (OsScandir ''/l'') (called (SftpMkdir ''/r'') (called (OsPathIsdir ''/l'')
            initial_state)))
   \<and> list_all (walk_call ''/l'' ''/r'')
       (hist (snd (smart_copy_remote_to_local (Suc (Suc (Suc 0))) dir_world ''/r'' ''/l'' initial_state)))
   \<and> filter is_transfer
       (hist (snd (smart_copy_remote_to_local (Suc (Suc (Suc 0))) dir_world ''/r'' ''/l'' initial_state)))
     = [SftpGet ''/r/z.txt'' ''/l/z.txt'', SftpGet ''/r/y.txt'' ''/l/y.txt'']
   \<and> smart_copy_remote_to_local (Suc (Suc (Suc 0))) dir_world ''/r'' ''/l'' initial_state
     = try_except
         (for_each [(''z.txt'', 33188::int), (''old'', 16877), (''y.txt'', 33188)]
            (\<lambda>e. smart_copy_remote_to_local (Suc (Suc 0)) dir_world
                     (remote_join ''/r'' (fst e)) (os_path_join ''/l'' (fst e))))
         is_OSError (\<lambda>e. ret ())
         (called (SftpListdirAttr ''/r'') (called (OsPathExists ''/l'') (called (SftpStat ''/r'')
            initial_state)))
   \<and> smart_copy_remote_to_local (Suc (Suc 0)) slash_world ''/r//'' ''/l'' initial_state
     = try_except
         (for_each [(''x.txt'', 33188::int)]
            (\<lambda>e. smart_copy_remote_to_local (Suc 0) slash_world
                     (remote_join ''/r//'' (fst e)) (os_path_join ''/l'' (fst e))))
         is_OSError (\<lambda>e. ret ())
         (called (SftpListdirAttr ''/r//'') (called (OsMkdir ''/l'') (called (OsPathExists ''/l'')
            (called (SftpStat ''/r//'') initial_state))))"
proof -
  let ?i = initial_state and ?d2 = "Suc (Suc 0)"
  let ?t1 = "called (OsPathExists ''/l'') (called (SftpStat ''/r'') ?i)"
  let ?u1 = "called (OsPathExists ''/l'') (called (SftpStat ''/r//'') ?i)"
  note dir = children_joined_on_their_own_side [where lp = "''/l''" and rp = "''/r''"
      and d = ?d2 and w = dir_world and s = ?i and t = ?i and st_mode = 16877
      and entries = "[(''y.txt'', False), (''sub'', True), (''x.txt'', False), (''z.txt'', False)]"
      and attrs = "[(''z.txt'', 33188), (''old'', 16877), (''y.txt'', 33188)]"
      and ?t1.0 = ?t1 and ?t2.0 = ?t1]
  note deep = children_joined_on_their_own_side [where lp = "''/l''" and rp = "''/r''"
      and d = "Suc ?d2" and w = dir_world]
  note slash = children_joined_on_their_own_side [where lp = "''/l''" and rp = "''/r//''"
      and d = "Suc 0" and w = slash_world and t = ?i and st_mode = 16877
      and attrs = "[(''x.txt'', 33188)]" and ?t1.0 = ?u1 and ?t2.0 = "called (OsMkdir ''/l'') ?u1"]
  have i: "hist ?i = []" by (simp add: initial_state_def)
  from deep have a1: "adds_only (walk_call ''/l'' ''/r'')
      (smart_copy_local_to_remote (Suc ?d2) dir_world ''/l'' ''/r'')"
    by (rule conjunct1)
  from deep have a2: "adds_only (walk_call ''/l'' ''/r'')
      (smart_copy_remote_to_local (Suc ?d2) dir_world ''/r'' ''/l'')"
    by (rule conjunct1 [OF conjunct2])
  from adds_onlyD [OF a1, of ?i] have l2r: "list_all (walk_call ''/l'' ''/r'')
     (hist (snd (smart_copy_local_to_remote (Suc ?d2) dir_world ''/l'' ''/r'' ?i)))"
    by (auto simp: i simp del: smart_copy_local_to_remote.simps)
  from adds_onlyD [OF a2, of ?i] have r2l: "list_all (walk_call ''/l'' ''/r'')
     (hist (snd (smart_copy_remote_to_local (Suc ?d2) dir_world ''/r'' ''/l'' ?i)))"
    by (auto simp: i simp del: smart_copy_remote_to_local.simps)
  have puts: "filter is_transfer
       (hist (snd (smart_copy_local_to_remote (Suc ?d2) dir_world ''/l'' ''/r'' ?i)))
     = [SftpPut ''/l/y.txt'' ''/r/y.txt'', SftpPut ''/l/sub/w.txt'' ''/r/sub/w.txt'',
        SftpPut ''/l/x.txt'' ''/r/x.txt'', SftpPut ''/l/z.txt'' ''/r/z.txt'']"
    by (simp add: walk_evals dir_evals query_evals string_evals
        del: smart_copy_local_to_remote.simps for_each.simps)
  have gets: "filter is_transfer
       (hist (snd (smart_copy_remote_to_local (Suc ?d2) dir_world ''/r'' ''/l'' ?i)))
     = [SftpGet ''/r/z.txt'' ''/l/z.txt'', SftpGet ''/r/y.txt'' ''/l/y.txt'']"
    by (simp add: walk_evals dir_evals query_evals string_evals
        del: smart_copy_remote_to_local.simps for_each.simps)
  from dir [THEN conjunct2, THEN conjunct2, THEN conjunct1] have dir_l2r:
    "smart_copy_local_to_remote (Suc ?d2) dir_world ''/l'' ''/r'' ?i
     = for_each [(''y.txt'', False), (''sub'', True), (''x.txt'', False), (''z.txt'', False)]
         (\<lambda>entry. smart_copy_local_to_remote ?d2 dir_world
                      (os_path_join ''/l'' (fst entry)) (remote_join ''/r'' (fst entry)))
         (called (OsScandir ''/l'') (called (SftpMkdir ''/r'') (called (OsPathIsdir ''/l'') ?i)))"
    by (simp add: dir_world_sel i
        del: smart_copy_local_to_remote.simps smart_copy_remote_to_local.simps for_each.simps)
  from dir [THEN conjunct2, THEN conjunct2, THEN conjunct2] have dir_r2l:
    "smart_copy_remote_to_local (Suc ?d2) dir_world ''/r'' ''/l'' ?i
     = try_except
         (for_each [(''z.txt'', 33188::int), (''old'', 16877), (''y.txt'', 33188)]
            (\<lambda>e. smart_copy_remote_to_local ?d2 dir_world
                     (remote_join ''/r'' (fst e)) (os_path_join ''/l'' (fst e))))
         is_OSError (\<lambda>e. ret ())
         (called (SftpListdirAttr ''/r'') ?t1)"
    by (simp add: dir_world_sel i mode_is_dir_def
        del: smart_copy_local_to_remote.simps smart_copy_remote_to_local.simps for_each.simps)
  from slash [THEN conjunct2, THEN conjunct2, THEN conjunct2] have slash_r2l:
    "smart_copy_remote_to_local ?d2 slash_world ''/r//'' ''/l'' ?i
     = try_except
         (for_each [(''x.txt'', 33188::int)]
            (\<lambda>e. smart_copy_remote_to_local (Suc 0) slash_world
                     (remote_join ''/r//'' (fst e)) (os_path_join ''/l'' (fst e))))
         is_OSError (\<lambda>e. ret ())
         (called (SftpListdirAttr ''/r//'') (called (OsMkdir ''/l'') ?u1))"
    by (simp add: slash_world_sel i mode_is_dir_def
        del: smart_copy_local_to_remote.simps smart_copy_remote_to_local.simps for_each.simps)
  from l2r r2l puts gets dir_l2r dir_r2l slash_r2l show ?thesis
    by (intro conjI)
qed

end
